theory Spec2Isabelle
  imports Complex_Main
begin

section \<open>Values exchanged with Mesos and with the collaborators\<close>

type_synonym task_id = string
type_synonym job_exe_id = int
type_synonym agent_id = string
type_synonym driver = nat

text \<open>Points in time and durations, in milliseconds.\<close>
type_synonym time = int

datatype task_state =
    TASK_STAGING | TASK_STARTING | TASK_RUNNING | TASK_FINISHED
  | TASK_FAILED | TASK_KILLED | TASK_LOST | TASK_ERROR

record task_status =
  status_task_id :: task_id
  status_state :: task_state
  status_message :: string

record master_info =
  mi_hostname :: string
  mi_port :: int

record resource =
  res_name :: string
  res_scalar :: real

record offer =
  offer_id :: string
  offer_slave_id :: agent_id
  offer_resources :: "resource list"

record node_resources =
  cpus :: real
  mem :: real
  disk :: real

record resource_offer =
  ro_offer_id :: string
  ro_agent_id :: agent_id
  ro_resources :: node_resources

record node =
  node_ident :: int
  node_host :: string

record task_results =
  r_task_id :: task_id
  r_exit_code :: "int option"
  r_when :: time
  r_stdout :: "string option"
  r_stderr :: "string option"

text \<open>
  The exceptions a call can raise. All of them are subclasses of Python's \<open>Exception\<close>,
  so \<open>except Exception\<close> catches each one; \<open>except DatabaseError\<close> catches only the second.
\<close>
datatype exn = AttributeError | DatabaseError | OtherException string

section \<open>Observable calls\<close>

datatype level = INFO | ERROR | EXCEPTION | WARNING | DEBUG

datatype arg = AStr string | AInt int

datatype thread_kind = DbSync | Recon | Scheduling

text \<open>A method of a \<open>RunningJobExecution\<close>, with the arguments of the call.\<close>
datatype exe_method =
    M_task_running task_id time string string
  | M_task_complete task_results
  | M_task_fail task_results "string option"
  | M_execution_lost time

text \<open>
  Every call that leaves the dispatcher is recorded, in the order of the calls.
  \<open>Transition\<close> carries the exception the method raised (if any), \<open>IsFinished\<close> and
  \<open>CurrentTask\<close> carry the value read from the execution, \<open>GetBuiltinError\<close> carries the
  error the lookup returned or the exception it raised.
\<close>
datatype event =
    Log level string "arg list"
  | UpdateMaster string int
  | InitializeSystem
  | SyncJobTypes
  | SyncScheduler
  | ThreadStart thread_kind
  | ReconRemove task_id
  | ReconAdd "task_id list"
  | GetRunningJobExes
  | GetSlaveTaskDirectory string int task_id
  | GetSlaveTaskFile string int string string
  | GetSlaveTaskUrl string int string string
  | GetBuiltinError string "exn + string"
  | HandleJobFailure job_exe_id time string
  | Transition job_exe_id exe_method "exn option"
  | IsFinished job_exe_id bool
  | CurrentTask job_exe_id "task_id option"
  | RemoveJobExe job_exe_id
  | GetNode agent_id
  | AddAgentIds "agent_id list"
  | AddNewOffers "resource_offer list"
  | RemoveOffers "string list"
  | NodeManagerLostNode agent_id
  | OfferManagerLostNode agent_id

section \<open>The scheduler object\<close>

text \<open>
  A \<open>RunningJobExecution\<close> as the dispatcher sees it: its id, its node, and the state of
  its task state machine, which only the methods of the execution read and write.
\<close>
record 'st running_job_exe =
  exe_id :: job_exe_id
  node_id :: int
  node_hostname :: string
  node_port :: int
  exe_state :: 'st

text \<open>
  Modelled from the spec: \<open>DatabaseSyncThread\<close> and \<open>SchedulingThread\<close> are not part of
  the source file. A loop holds the driver handle it was built with and a flag that
  \<open>shutdown()\<close> clears.
\<close>
record loop_thread =
  lt_driver :: driver
  lt_running :: bool

text \<open>
  Modelled from the spec: \<open>ReconciliationThread\<close> is not part of the source file. It is a
  loop that owns the reconciliation set, the set of task ids whose status is uncertain.
\<close>
record recon_thread =
  rt_driver :: driver
  rt_running :: bool
  rt_task_ids :: "task_id set"

text \<open>
  The fields of \<open>ScaleScheduler\<close>. \<open>self_job_exe_manager\<close> holds the executions of the
  \<open>RunningJobExecutionManager\<close>; the other managers and the backing store live in \<open>ext\<close>,
  the state of everything outside the dispatcher.
\<close>
record ('w, 'st) state =
  self_driver :: "driver option"
  self_executor :: string
  self_framework_id :: "string option"
  self_master_hostname :: "string option"
  self_master_port :: "int option"
  self_job_exe_manager :: "'st running_job_exe list"
  self_db_sync_thread :: "loop_thread option"
  self_recon_thread :: "recon_thread option"
  self_scheduling_thread :: "loop_thread option"
  ext :: 'w

section \<open>The collaborators\<close>

type_synonym ('w, 'a) call = "'w \<Rightarrow> (exn + 'a) \<times> 'w"

text \<open>A method of an execution: the exception it raised (if any) and the state it left.\<close>
type_synonym ('w, 'st) meth = "'w \<Rightarrow> (exn option \<times> 'st) \<times> 'w"

text \<open>
  The code the dispatcher calls and that lives in other modules. A call may read and
  change the outside state, and may raise; the lookup of a built-in error is such a call
  of the backing store. The helpers of \<open>utils\<close> and the decoding of a task id compute a
  value from their argument.
\<close>
record ('w, 'st) env =
  now :: "'w \<Rightarrow> time \<times> 'w"
  get_job_exe_id :: "task_id \<Rightarrow> job_exe_id"
  status_to_string :: "task_state \<Rightarrow> string"
  parse_exit_code :: "task_status \<Rightarrow> int option"
  get_status_timestamp :: "task_status \<Rightarrow> time"
  get_slave_task_directory :: "string \<Rightarrow> int \<Rightarrow> task_id \<Rightarrow> ('w, string) call"
  get_slave_task_file :: "string \<Rightarrow> int \<Rightarrow> string \<Rightarrow> string \<Rightarrow> ('w, string) call"
  get_slave_task_url :: "string \<Rightarrow> int \<Rightarrow> string \<Rightarrow> string \<Rightarrow> ('w, string) call"
  get_builtin_error :: "string \<Rightarrow> ('w, string) call"
  handle_job_failure :: "job_exe_id \<Rightarrow> time \<Rightarrow> string \<Rightarrow> ('w, unit) call"
  update_master :: "string \<Rightarrow> int \<Rightarrow> ('w, unit) call"
  get_running_job_exes :: "('w, job_exe_id list) call"
  initialize_system :: "('w, unit) call"
  job_type_sync :: "('w, unit) call"
  scheduler_sync :: "('w, unit) call"
  get_node :: "agent_id \<Rightarrow> ('w, node option) call"
  add_agent_ids :: "agent_id list \<Rightarrow> ('w, unit) call"
  node_manager_lost_node :: "agent_id \<Rightarrow> ('w, unit) call"
  add_new_offers :: "resource_offer list \<Rightarrow> ('w, unit) call"
  remove_offers :: "string list \<Rightarrow> ('w, unit) call"
  offer_manager_lost_node :: "agent_id \<Rightarrow> ('w, unit) call"
  task_running :: "'st running_job_exe \<Rightarrow> task_id \<Rightarrow> time \<Rightarrow> string \<Rightarrow> string \<Rightarrow> ('w, 'st) meth"
  task_complete :: "'st running_job_exe \<Rightarrow> task_results \<Rightarrow> ('w, 'st) meth"
  task_fail :: "'st running_job_exe \<Rightarrow> task_results \<Rightarrow> string option \<Rightarrow> ('w, 'st) meth"
  execution_lost :: "'st running_job_exe \<Rightarrow> time \<Rightarrow> ('w, 'st) meth"
  is_finished :: "'st \<Rightarrow> bool"
  current_task :: "'st \<Rightarrow> task_id option"

section \<open>Statements\<close>

text \<open>
  A statement runs on a state and yields the value it returns or the exception it
  raises, the state it leaves, and the calls it made.
\<close>
type_synonym ('s, 'a) prog = "'s \<Rightarrow> (exn + 'a) \<times> 's \<times> event list"

definition ret :: "'a \<Rightarrow> ('s, 'a) prog" where
  "ret x s = (Inr x, s, [])"

definition throw :: "exn \<Rightarrow> ('s, 'a) prog" where
  "throw e s = (Inl e, s, [])"

text \<open>Sequencing: an exception of the first statement skips the second.\<close>
definition seq :: "('s, 'a) prog \<Rightarrow> ('a \<Rightarrow> ('s, 'b) prog) \<Rightarrow> ('s, 'b) prog" where
  "seq m f s =
     (case m s of
        (Inl e, s1, t1) \<Rightarrow> (Inl e, s1, t1)
      | (Inr x, s1, t1) \<Rightarrow> (case f x s1 of (r, s2, t2) \<Rightarrow> (r, s2, t1 @ t2)))"

text \<open>\<open>try: m except C: h\<close>, where \<open>catches e\<close> says that \<open>e\<close> is an instance of \<open>C\<close>.\<close>
definition try_except ::
  "('s, 'a) prog \<Rightarrow> (exn \<Rightarrow> bool) \<Rightarrow> (exn \<Rightarrow> ('s, 'a) prog) \<Rightarrow> ('s, 'a) prog" where
  "try_except m catches h s =
     (case m s of
        (Inl e, s1, t1) \<Rightarrow>
          (if catches e then (case h e s1 of (r, s2, t2) \<Rightarrow> (r, s2, t1 @ t2))
           else (Inl e, s1, t1))
      | (Inr x, s1, t1) \<Rightarrow> (Inr x, s1, t1))"

definition modify :: "('s \<Rightarrow> 's) \<Rightarrow> ('s, unit) prog" where
  "modify f s = (Inr (), f s, [])"

definition logger :: "level \<Rightarrow> string \<Rightarrow> arg list \<Rightarrow> ('s, unit) prog" where
  "logger lvl msg args s = (Inr (), s, [Log lvl msg args])"

definition clock :: "('w, 'st) env \<Rightarrow> (('w, 'st) state, time) prog" where
  "clock env s = (case now env (ext s) of (t, w) \<Rightarrow> (Inr t, s\<lparr>ext := w\<rparr>, []))"

text \<open>A call of a collaborator: recorded, run on the outside state.\<close>
definition call :: "event \<Rightarrow> ('w, 'a) call \<Rightarrow> (('w, 'st) state, 'a) prog" where
  "call ev f s = (case f (ext s) of (r, w) \<Rightarrow> (r, s\<lparr>ext := w\<rparr>, [ev]))"

text \<open>\<open>Error.objects.get_builtin_error(name)\<close>: recorded with its result.\<close>
definition lookup_error :: "('w, 'st) env \<Rightarrow> string \<Rightarrow> (('w, 'st) state, string) prog" where
  "lookup_error env name s =
     (case get_builtin_error env name (ext s) of
        (r, w) \<Rightarrow> (r, s\<lparr>ext := w\<rparr>, [GetBuiltinError name r]))"

section \<open>\<open>RunningJobExecutionManager\<close> and the executions\<close>

text \<open>
  Modelled from the spec: \<open>RunningJobExecutionManager\<close> is not part of the source file.
  It is the collection of the live executions, looked up and removed by execution id.
\<close>
definition get_job_exe :: "job_exe_id \<Rightarrow> 'st running_job_exe list \<Rightarrow> 'st running_job_exe option" where
  "get_job_exe i m = find (\<lambda>e. exe_id e = i) m"

definition get_job_exes_on_node :: "int \<Rightarrow> 'st running_job_exe list \<Rightarrow> 'st running_job_exe list" where
  "get_job_exes_on_node n m = filter (\<lambda>e. node_id e = n) m"

definition remove_job_exe :: "job_exe_id \<Rightarrow> (('w, 'st) state, unit) prog" where
  "remove_job_exe i s =
     (Inr (), s\<lparr>self_job_exe_manager := filter (\<lambda>e. exe_id e \<noteq> i) (self_job_exe_manager s)\<rparr>,
      [RemoveJobExe i])"

text \<open>
  An execution is an object the manager holds by reference: what a method writes into
  it is seen through the manager.
\<close>
definition store_exe_state :: "job_exe_id \<Rightarrow> 'st \<Rightarrow> 'st running_job_exe list \<Rightarrow> 'st running_job_exe list" where
  "store_exe_state i st m = map (\<lambda>e. if exe_id e = i then e\<lparr>exe_state := st\<rparr> else e) m"

text \<open>
  Calling a method of an execution. The statement itself does not raise: it yields the
  exception of the method, for the caller to raise, and the state the method left.
\<close>
definition invoke ::
  "job_exe_id \<Rightarrow> exe_method \<Rightarrow> ('w, 'st) meth \<Rightarrow> (('w, 'st) state, exn option \<times> 'st) prog" where
  "invoke i m f s =
     (case f (ext s) of
        ((ex, st), w) \<Rightarrow>
          (Inr (ex, st),
           s\<lparr>ext := w, self_job_exe_manager := store_exe_state i st (self_job_exe_manager s)\<rparr>,
           [Transition i m ex]))"

definition raise_if :: "exn option \<Rightarrow> ('s, unit) prog" where
  "raise_if ex = (case ex of None \<Rightarrow> ret () | Some e \<Rightarrow> throw e)"

definition check_finished :: "('w, 'st) env \<Rightarrow> job_exe_id \<Rightarrow> 'st \<Rightarrow> ('s, bool) prog" where
  "check_finished env i st s = (Inr (is_finished env st), s, [IsFinished i (is_finished env st)])"

definition read_current_task :: "('w, 'st) env \<Rightarrow> job_exe_id \<Rightarrow> 'st \<Rightarrow> ('s, task_id option) prog" where
  "read_current_task env i st s = (Inr (current_task env st), s, [CurrentTask i (current_task env st)])"

section \<open>The loop threads\<close>

text \<open>Reading a method or attribute of a field that is \<open>None\<close> raises \<open>AttributeError\<close>.\<close>

definition recon_remove_task_id :: "task_id \<Rightarrow> (('w, 'st) state, unit) prog" where
  "recon_remove_task_id t s =
     (case self_recon_thread s of
        None \<Rightarrow> (Inl AttributeError, s, [])
      | Some rt \<Rightarrow>
          (Inr (), s\<lparr>self_recon_thread := Some (rt\<lparr>rt_task_ids := rt_task_ids rt - {t}\<rparr>)\<rparr>,
           [ReconRemove t]))"

definition recon_add_task_ids :: "task_id list \<Rightarrow> (('w, 'st) state, unit) prog" where
  "recon_add_task_ids ts s =
     (case self_recon_thread s of
        None \<Rightarrow> (Inl AttributeError, s, [])
      | Some rt \<Rightarrow>
          (Inr (), s\<lparr>self_recon_thread := Some (rt\<lparr>rt_task_ids := rt_task_ids rt \<union> set ts\<rparr>)\<rparr>,
           [ReconAdd ts]))"

definition set_db_sync_driver :: "driver \<Rightarrow> (('w, 'st) state, unit) prog" where
  "set_db_sync_driver d s =
     (case self_db_sync_thread s of
        None \<Rightarrow> (Inl AttributeError, s, [])
      | Some th \<Rightarrow> (Inr (), s\<lparr>self_db_sync_thread := Some (th\<lparr>lt_driver := d\<rparr>)\<rparr>, []))"

definition set_recon_driver :: "driver \<Rightarrow> (('w, 'st) state, unit) prog" where
  "set_recon_driver d s =
     (case self_recon_thread s of
        None \<Rightarrow> (Inl AttributeError, s, [])
      | Some th \<Rightarrow> (Inr (), s\<lparr>self_recon_thread := Some (th\<lparr>rt_driver := d\<rparr>)\<rparr>, []))"

definition set_scheduling_driver :: "driver \<Rightarrow> (('w, 'st) state, unit) prog" where
  "set_scheduling_driver d s =
     (case self_scheduling_thread s of
        None \<Rightarrow> (Inl AttributeError, s, [])
      | Some th \<Rightarrow> (Inr (), s\<lparr>self_scheduling_thread := Some (th\<lparr>lt_driver := d\<rparr>)\<rparr>, []))"

definition db_sync_shutdown :: "(('w, 'st) state, unit) prog" where
  "db_sync_shutdown s =
     (case self_db_sync_thread s of
        None \<Rightarrow> (Inl AttributeError, s, [])
      | Some th \<Rightarrow> (Inr (), s\<lparr>self_db_sync_thread := Some (th\<lparr>lt_running := False\<rparr>)\<rparr>, []))"

definition recon_shutdown :: "(('w, 'st) state, unit) prog" where
  "recon_shutdown s =
     (case self_recon_thread s of
        None \<Rightarrow> (Inl AttributeError, s, [])
      | Some th \<Rightarrow> (Inr (), s\<lparr>self_recon_thread := Some (th\<lparr>rt_running := False\<rparr>)\<rparr>, []))"

definition scheduling_shutdown :: "(('w, 'st) state, unit) prog" where
  "scheduling_shutdown s =
     (case self_scheduling_thread s of
        None \<Rightarrow> (Inl AttributeError, s, [])
      | Some th \<Rightarrow> (Inr (), s\<lparr>self_scheduling_thread := Some (th\<lparr>lt_running := False\<rparr>)\<rparr>, []))"

section \<open>\<open>ScaleScheduler\<close>\<close>

definition NORMAL_WARN_THRESHOLD :: time where
  "NORMAL_WARN_THRESHOLD = 5"

definition DATABASE_WARN_THRESHOLD :: time where
  "DATABASE_WARN_THRESHOLD = 100"

text \<open>\<open>__init__\<close>: the three thread handles start as \<open>None\<close>.\<close>
definition ScaleScheduler_init :: "string \<Rightarrow> 'w \<Rightarrow> ('w, 'st) state" where
  "ScaleScheduler_init executor w =
     \<lparr>self_driver = None, self_executor = executor, self_framework_id = None,
      self_master_hostname = None, self_master_port = None,
      self_job_exe_manager = [],
      self_db_sync_thread = None, self_recon_thread = None, self_scheduling_thread = None,
      ext = w\<rparr>"

text \<open>The closing lines of the timed callbacks: one warning or one debug message.\<close>
definition log_duration ::
  "('w, 'st) env \<Rightarrow> time \<Rightarrow> time \<Rightarrow> string \<Rightarrow> (('w, 'st) state, unit) prog" where
  "log_duration env started threshold msg =
     seq (clock env) (\<lambda>finished.
       let duration = finished - started in
       if duration > threshold then logger WARNING msg [AInt duration]
       else logger DEBUG msg [AInt duration])"

subsection \<open>\<open>_reconcile_running_jobs\<close>\<close>

text \<open>The loop over the running executions of the database, collecting task ids.\<close>
fun reconcile_find ::
  "('w, 'st) env \<Rightarrow> job_exe_id list \<Rightarrow> task_id list \<Rightarrow> (('w, 'st) state, task_id list) prog" where
  "reconcile_find env [] task_ids s = ret task_ids s"
| "reconcile_find env (i # js) task_ids s =
     (case get_job_exe i (self_job_exe_manager s) of
        Some running_job_exe \<Rightarrow>
          seq (read_current_task env i (exe_state running_job_exe)) (\<lambda>task.
            case task of
              Some t \<Rightarrow> reconcile_find env js (task_ids @ [t])
            | None \<Rightarrow> reconcile_find env js task_ids) s
      | None \<Rightarrow>
          seq (clock env) (\<lambda>when.
          seq (lookup_error env ''scheduler-lost'') (\<lambda>err.
          seq (call (HandleJobFailure i when err) (handle_job_failure env i when err)) (\<lambda>_.
          reconcile_find env js task_ids))) s)"

definition reconcile_running_jobs :: "('w, 'st) env \<Rightarrow> (('w, 'st) state, unit) prog" where
  "reconcile_running_jobs env =
     seq (call GetRunningJobExes (get_running_job_exes env)) (\<lambda>job_exes.
     seq (reconcile_find env job_exes []) (\<lambda>task_ids.
     recon_add_task_ids task_ids))"

subsection \<open>\<open>registered\<close>, \<open>reregistered\<close>, \<open>disconnected\<close>\<close>

definition registered ::
  "('w, 'st) env \<Rightarrow> driver \<Rightarrow> string \<Rightarrow> master_info \<Rightarrow> (('w, 'st) state, unit) prog" where
  "registered env driver frameworkId masterInfo =
     seq (modify (\<lambda>s. s\<lparr>self_driver := Some driver,
                         self_framework_id := Some frameworkId,
                         self_master_hostname := Some (mi_hostname masterInfo),
                         self_master_port := Some (mi_port masterInfo)\<rparr>)) (\<lambda>_.
     seq (call (UpdateMaster (mi_hostname masterInfo) (mi_port masterInfo))
               (update_master env (mi_hostname masterInfo) (mi_port masterInfo))) (\<lambda>_.
     seq (logger INFO ''Scale scheduler registered as framework %s with Mesos master at %s:%i''
            [AStr frameworkId, AStr (mi_hostname masterInfo), AInt (mi_port masterInfo)]) (\<lambda>_.
     seq (call InitializeSystem (initialize_system env)) (\<lambda>_.
     seq (call SyncJobTypes (job_type_sync env)) (\<lambda>_.
     seq (call SyncScheduler (scheduler_sync env)) (\<lambda>_.
     seq (modify (\<lambda>s. s\<lparr>self_db_sync_thread := Some \<lparr>lt_driver = driver, lt_running = True\<rparr>\<rparr>)) (\<lambda>_.
     seq (\<lambda>s. (Inr (), s, [ThreadStart DbSync])) (\<lambda>_.
     seq (modify (\<lambda>s. s\<lparr>self_recon_thread :=
                           Some \<lparr>rt_driver = driver, rt_running = True, rt_task_ids = {}\<rparr>\<rparr>)) (\<lambda>_.
     seq (\<lambda>s. (Inr (), s, [ThreadStart Recon])) (\<lambda>_.
     seq (modify (\<lambda>s. s\<lparr>self_scheduling_thread := Some \<lparr>lt_driver = driver, lt_running = True\<rparr>\<rparr>)) (\<lambda>_.
     seq (\<lambda>s. (Inr (), s, [ThreadStart Scheduling])) (\<lambda>_.
     reconcile_running_jobs env))))))))))))"

definition reregistered ::
  "('w, 'st) env \<Rightarrow> driver \<Rightarrow> master_info \<Rightarrow> (('w, 'st) state, unit) prog" where
  "reregistered env driver masterInfo =
     seq (modify (\<lambda>s. s\<lparr>self_driver := Some driver,
                         self_master_hostname := Some (mi_hostname masterInfo),
                         self_master_port := Some (mi_port masterInfo)\<rparr>)) (\<lambda>_.
     seq (call (UpdateMaster (mi_hostname masterInfo) (mi_port masterInfo))
               (update_master env (mi_hostname masterInfo) (mi_port masterInfo))) (\<lambda>_.
     seq (logger INFO ''Scale scheduler re-registered with Mesos master at %s:%i''
            [AStr (mi_hostname masterInfo), AInt (mi_port masterInfo)]) (\<lambda>_.
     seq (set_db_sync_driver driver) (\<lambda>_.
     seq (set_recon_driver driver) (\<lambda>_.
     seq (set_scheduling_driver driver) (\<lambda>_.
     reconcile_running_jobs env))))))"

text \<open>\<open>if self._master_hostname\<close> is false for \<open>None\<close> and for the empty string.\<close>
definition disconnected :: "driver \<Rightarrow> (('w, 'st) state, unit) prog" where
  "disconnected driver s =
     (case self_master_hostname s of
        Some h \<Rightarrow>
          (if h \<noteq> [] then
             logger ERROR ''Scale scheduler disconnected from the Mesos master at %s:%i''
               (AStr h # (case self_master_port s of Some p \<Rightarrow> [AInt p] | None \<Rightarrow> [])) s
           else logger ERROR ''Scale scheduler disconnected from the Mesos master'' [] s)
      | None \<Rightarrow> logger ERROR ''Scale scheduler disconnected from the Mesos master'' [] s)"

subsection \<open>\<open>resourceOffers\<close>, \<open>offerRescinded\<close>\<close>

text \<open>The inner loop: the last resource of each name wins; disk, mem and cpus start at 0.\<close>
fun scan_resources :: "resource list \<Rightarrow> real \<times> real \<times> real \<Rightarrow> real \<times> real \<times> real" where
  "scan_resources [] acc = acc"
| "scan_resources (r # rs) (d, m, c) =
     scan_resources rs
       (if res_name r = ''disk'' then (res_scalar r, m, c)
        else if res_name r = ''mem'' then (d, res_scalar r, c)
        else if res_name r = ''cpus'' then (d, m, res_scalar r)
        else (d, m, c))"

definition to_resource_offer :: "offer \<Rightarrow> resource_offer" where
  "to_resource_offer off =
     (case scan_resources (offer_resources off) (0, 0, 0) of
        (d, m, c) \<Rightarrow>
          \<lparr>ro_offer_id = offer_id off, ro_agent_id = offer_slave_id off,
           ro_resources = \<lparr>cpus = c, mem = m, disk = d\<rparr>\<rparr>)"

definition resourceOffers ::
  "('w, 'st) env \<Rightarrow> driver \<Rightarrow> offer list \<Rightarrow> (('w, 'st) state, unit) prog" where
  "resourceOffers env driver offers =
     seq (clock env) (\<lambda>started.
     let agent_ids = map offer_slave_id offers;
         resource_offers = map to_resource_offer offers in
     seq (call (AddAgentIds agent_ids) (add_agent_ids env agent_ids)) (\<lambda>_.
     seq (call (AddNewOffers resource_offers) (add_new_offers env resource_offers)) (\<lambda>_.
     log_duration env started NORMAL_WARN_THRESHOLD ''Scheduler resourceOffers() took %.3f seconds'')))"

definition offerRescinded ::
  "('w, 'st) env \<Rightarrow> driver \<Rightarrow> string \<Rightarrow> (('w, 'st) state, unit) prog" where
  "offerRescinded env driver offerId =
     seq (clock env) (\<lambda>started.
     seq (call (RemoveOffers [offerId]) (remove_offers env [offerId])) (\<lambda>_.
     log_duration env started NORMAL_WARN_THRESHOLD ''Scheduler offerRescinded() took %.3f seconds''))"

subsection \<open>\<open>statusUpdate\<close>\<close>

text \<open>
  The \<open>except Exception\<close> clause of the log pull, entered from a call that raised, with
  the results object as the statements before that call left it.
\<close>
definition pulling ::
  "task_id \<Rightarrow> task_results \<Rightarrow> (('w, 'st) state, 'a) prog \<Rightarrow>
   ('a \<Rightarrow> (('w, 'st) state, task_results) prog) \<Rightarrow> (('w, 'st) state, task_results) prog" where
  "pulling task_id results m f s =
     (case m s of
        (Inl e, s1, t1) \<Rightarrow>
          (Inr results, s1, t1 @ [Log EXCEPTION ''Error pulling logs for task %s'' [AStr task_id]])
      | (Inr x, s1, t1) \<Rightarrow> (case f x s1 of (r, s2, t2) \<Rightarrow> (r, s2, t1 @ t2)))"

text \<open>The inner \<open>try\<close> block: fetch stdout and stderr of the task from the agent.\<close>
definition pull_logs ::
  "('w, 'st) env \<Rightarrow> 'st running_job_exe \<Rightarrow> task_id \<Rightarrow> task_results \<Rightarrow>
   (('w, 'st) state, task_results) prog" where
  "pull_logs env running_job_exe task_id results =
     seq (clock env) (\<lambda>log_start_time.
     let hostname = node_hostname running_job_exe;
         port = node_port running_job_exe in
     pulling task_id results
       (call (GetSlaveTaskDirectory hostname port task_id)
             (get_slave_task_directory env hostname port task_id)) (\<lambda>task_dir.
     pulling task_id results
       (call (GetSlaveTaskFile hostname port task_dir ''stdout'')
             (get_slave_task_file env hostname port task_dir ''stdout'')) (\<lambda>out.
     let results1 = results\<lparr>r_stdout := Some out\<rparr> in
     pulling task_id results1
       (call (GetSlaveTaskFile hostname port task_dir ''stderr'')
             (get_slave_task_file env hostname port task_dir ''stderr'')) (\<lambda>err.
     let results2 = results1\<lparr>r_stderr := Some err\<rparr> in
     seq (clock env) (\<lambda>log_end_time.
     seq (logger DEBUG ''Time to pull logs for task: %s'' [AInt (log_end_time - log_start_time)]) (\<lambda>_.
     ret results2))))))"

text \<open>
  The first lines of the \<open>TASK_RUNNING\<close> branch: the directory probe and the derivation
  of the two URLs, outside the inner \<open>try\<close> block.
\<close>
definition task_urls ::
  "('w, 'st) env \<Rightarrow> 'st running_job_exe \<Rightarrow> task_id \<Rightarrow> (('w, 'st) state, string \<times> string) prog" where
  "task_urls env running_job_exe task_id =
     (let hostname = node_hostname running_job_exe;
          port = node_port running_job_exe in
      seq (call (GetSlaveTaskDirectory hostname port task_id)
                (get_slave_task_directory env hostname port task_id)) (\<lambda>task_dir.
      seq (call (GetSlaveTaskUrl hostname port task_dir ''stdout'')
                (get_slave_task_url env hostname port task_dir ''stdout'')) (\<lambda>stdout_url.
      seq (call (GetSlaveTaskUrl hostname port task_dir ''stderr'')
                (get_slave_task_url env hostname port task_dir ''stderr'')) (\<lambda>stderr_url.
      ret (stdout_url, stderr_url)))))"

text \<open>
  Applying the status update to the execution; yields the state of the execution
  afterwards. A method that raises ends the statement with its exception.
\<close>
definition apply_status ::
  "('w, 'st) env \<Rightarrow> 'st running_job_exe \<Rightarrow> task_status \<Rightarrow> task_id \<Rightarrow> task_results \<Rightarrow>
   (('w, 'st) state, 'st) prog" where
  "apply_status env running_job_exe status task_id results =
     (let i = exe_id running_job_exe;
          finish = (\<lambda>(ex, st). seq (raise_if ex) (\<lambda>_. ret st)) in
      if status_state status = TASK_RUNNING then
        seq (task_urls env running_job_exe task_id) (\<lambda>(stdout_url, stderr_url).
        seq (invoke i (M_task_running task_id (r_when results) stdout_url stderr_url)
               (task_running env running_job_exe task_id (r_when results) stdout_url stderr_url))
            finish)
      else if status_state status = TASK_FINISHED then
        seq (invoke i (M_task_complete results) (task_complete env running_job_exe results)) finish
      else if status_state status = TASK_LOST then
        seq (lookup_error env ''mesos-lost'') (\<lambda>err.
        seq (invoke i (M_task_fail results (Some err)) (task_fail env running_job_exe results (Some err)))
            finish)
      else if status_state status \<in> {TASK_ERROR, TASK_FAILED, TASK_KILLED} then
        seq (invoke i (M_task_fail results None) (task_fail env running_job_exe results None)) finish
      else ret (exe_state running_job_exe))"

text \<open>
  \<open>TaskResults(task_id)\<close> with the exit code and the time of the status; stdout and stderr
  are not set yet.
\<close>
definition new_results :: "('w, 'st) env \<Rightarrow> task_status \<Rightarrow> task_id \<Rightarrow> task_results" where
  "new_results env status task_id =
     \<lparr>r_task_id = task_id, r_exit_code = parse_exit_code env status,
      r_when = get_status_timestamp env status, r_stdout = None, r_stderr = None\<rparr>"

text \<open>The branch \<open>if running_job_exe\<close> of the outer \<open>try\<close> block.\<close>
definition handle_known ::
  "('w, 'st) env \<Rightarrow> task_status \<Rightarrow> task_id \<Rightarrow> job_exe_id \<Rightarrow> 'st running_job_exe \<Rightarrow>
   (('w, 'st) state, unit) prog" where
  "handle_known env status task_id job_exe_id running_job_exe =
     seq (if status_state status \<noteq> TASK_LOST
          then pull_logs env running_job_exe task_id (new_results env status task_id)
          else ret (new_results env status task_id)) (\<lambda>results.
     seq (apply_status env running_job_exe status task_id results) (\<lambda>st.
     seq (check_finished env job_exe_id st) (\<lambda>finished.
     if finished then remove_job_exe job_exe_id else ret ())))"

text \<open>The \<open>else\<close> branch: the scheduler has no knowledge of the execution.\<close>
definition handle_unknown :: "('w, 'st) env \<Rightarrow> job_exe_id \<Rightarrow> (('w, 'st) state, unit) prog" where
  "handle_unknown env job_exe_id =
     seq (clock env) (\<lambda>when.
     seq (lookup_error env ''scheduler-lost'') (\<lambda>err.
     call (HandleJobFailure job_exe_id when err) (handle_job_failure env job_exe_id when err)))"

text \<open>The body of the outer \<open>try\<close> block.\<close>
definition handle_status ::
  "('w, 'st) env \<Rightarrow> task_status \<Rightarrow> task_id \<Rightarrow> job_exe_id \<Rightarrow> (('w, 'st) state, unit) prog" where
  "handle_status env status task_id job_exe_id s =
     (case get_job_exe job_exe_id (self_job_exe_manager s) of
        Some running_job_exe \<Rightarrow> handle_known env status task_id job_exe_id running_job_exe s
      | None \<Rightarrow> handle_unknown env job_exe_id s)"

definition statusUpdate ::
  "('w, 'st) env \<Rightarrow> driver \<Rightarrow> task_status \<Rightarrow> (('w, 'st) state, unit) prog" where
  "statusUpdate env driver status =
     seq (clock env) (\<lambda>started.
     let task_id = status_task_id status;
         job_exe_id = get_job_exe_id env task_id in
     seq (logger INFO ''Status update for task %s: %s''
            [AStr task_id, AStr (status_to_string env (status_state status))]) (\<lambda>_.
     seq (recon_remove_task_id task_id) (\<lambda>_.
     seq (try_except (handle_status env status task_id job_exe_id) (\<lambda>e. True)
            (\<lambda>e. seq (logger EXCEPTION ''Error handling status update for job execution: %s''
                         [AInt job_exe_id]) (\<lambda>_.
                  recon_add_task_ids [task_id]))) (\<lambda>_.
     log_duration env started DATABASE_WARN_THRESHOLD ''Scheduler statusUpdate() took %.3f seconds''))))"

subsection \<open>\<open>frameworkMessage\<close>, \<open>slaveLost\<close>, \<open>executorLost\<close>, \<open>error\<close>, \<open>shutdown\<close>\<close>

definition frameworkMessage ::
  "('w, 'st) env \<Rightarrow> driver \<Rightarrow> string \<Rightarrow> agent_id \<Rightarrow> string \<Rightarrow> (('w, 'st) state, unit) prog" where
  "frameworkMessage env driver executorId slaveId message =
     seq (clock env) (\<lambda>started.
     seq (call (GetNode slaveId) (get_node env slaveId)) (\<lambda>node.
     seq (case node of
            Some n \<Rightarrow> logger INFO ''Message from %s on host %s: %s''
                        [AStr executorId, AStr (node_host n), AStr message]
          | None \<Rightarrow> logger INFO ''Message from %s on agent %s: %s''
                      [AStr executorId, AStr slaveId, AStr message]) (\<lambda>_.
     log_duration env started NORMAL_WARN_THRESHOLD ''Scheduler frameworkMessage() took %.3f seconds'')))"

text \<open>The body of the loop over the executions of the lost node.\<close>
definition fail_lost_exe ::
  "('w, 'st) env \<Rightarrow> time \<Rightarrow> 'st running_job_exe \<Rightarrow> (('w, 'st) state, unit) prog" where
  "fail_lost_exe env started running_job_exe =
     (let i = exe_id running_job_exe in
      seq (invoke i (M_execution_lost started) (execution_lost env running_job_exe started)) (\<lambda>(ex, st).
      seq (try_except (raise_if ex) (\<lambda>e. e = DatabaseError)
             (\<lambda>e. seq (logger EXCEPTION ''Error failing lost job execution: %s'' [AInt i]) (\<lambda>_.
                   seq (read_current_task env i st) (\<lambda>task.
                   case task of
                     Some t \<Rightarrow> recon_add_task_ids [t]
                   | None \<Rightarrow> ret ())))) (\<lambda>_.
      seq (check_finished env i st) (\<lambda>finished.
      if finished then remove_job_exe i else ret ()))))"

fun fail_lost_exes ::
  "('w, 'st) env \<Rightarrow> time \<Rightarrow> 'st running_job_exe list \<Rightarrow> (('w, 'st) state, unit) prog" where
  "fail_lost_exes env started [] = ret ()"
| "fail_lost_exes env started (e # es) =
     seq (fail_lost_exe env started e) (\<lambda>_. fail_lost_exes env started es)"

definition slaveLost ::
  "('w, 'st) env \<Rightarrow> driver \<Rightarrow> agent_id \<Rightarrow> (('w, 'st) state, unit) prog" where
  "slaveLost env driver slaveId =
     seq (clock env) (\<lambda>started.
     seq (call (GetNode slaveId) (get_node env slaveId)) (\<lambda>node.
     seq (case node of
            Some n \<Rightarrow> logger ERROR ''Node lost on host %s'' [AStr (node_host n)]
          | None \<Rightarrow> logger ERROR ''Node lost on agent %s'' [AStr slaveId]) (\<lambda>_.
     seq (call (NodeManagerLostNode slaveId) (node_manager_lost_node env slaveId)) (\<lambda>_.
     seq (call (OfferManagerLostNode slaveId) (offer_manager_lost_node env slaveId)) (\<lambda>_.
     seq (case node of
            Some n \<Rightarrow> (\<lambda>s. fail_lost_exes env started
                             (get_job_exes_on_node (node_ident n) (self_job_exe_manager s)) s)
          | None \<Rightarrow> ret ()) (\<lambda>_.
     log_duration env started DATABASE_WARN_THRESHOLD ''Scheduler slaveLost() took %.3f seconds''))))))"

definition executorLost ::
  "('w, 'st) env \<Rightarrow> driver \<Rightarrow> string \<Rightarrow> agent_id \<Rightarrow> int \<Rightarrow> (('w, 'st) state, unit) prog" where
  "executorLost env driver executorId slaveId status =
     seq (clock env) (\<lambda>started.
     seq (call (GetNode slaveId) (get_node env slaveId)) (\<lambda>node.
     seq (case node of
            Some n \<Rightarrow> logger ERROR ''Executor %s lost on host: %s'' [AStr executorId, AStr (node_host n)]
          | None \<Rightarrow> logger ERROR ''Executor %s lost on agent: %s'' [AStr executorId, AStr slaveId]) (\<lambda>_.
     log_duration env started NORMAL_WARN_THRESHOLD ''Scheduler executorLost() took %.3f seconds'')))"

definition error :: "driver \<Rightarrow> string \<Rightarrow> (('w, 'st) state, unit) prog" where
  "error driver message = logger ERROR ''Unrecoverable error: %s'' [AStr message]"

definition shutdown :: "(('w, 'st) state, unit) prog" where
  "shutdown =
     seq (logger INFO ''Scheduler shutdown invoked, stopping background threads'' []) (\<lambda>_.
     seq db_sync_shutdown (\<lambda>_.
     seq recon_shutdown (\<lambda>_.
     scheduling_shutdown)))"

section \<open>A concrete environment\<close>

text \<open>
  Modelled from the spec: the task state machine of a \<open>RunningJobExecution\<close>, the backing
  store, the managers and the agent log retrieval are not part of the source file. This
  environment follows the spec's description of them; all of its calls return. The
  outside state is the clock.
\<close>

datatype phase = Launched | Running | Finished | Failed | Lost

record exe_sm =
  sm_phase :: phase
  sm_task :: "task_id option"
  sm_error :: "string option"

text \<open>The task id starts with the decimal digits of the execution id.\<close>
fun leading_int :: "string \<Rightarrow> int \<Rightarrow> int" where
  "leading_int [] n = n"
| "leading_int (c # cs) n =
     (if c \<in> set ''0123456789'' then leading_int cs (10 * n + (of_char c - 48)) else n)"

definition spec_env :: "(time, exe_sm) env" where
  "spec_env =
     \<lparr>now = (\<lambda>w. (w, w + 1)),
      get_job_exe_id = (\<lambda>t. leading_int t 0),
      status_to_string = (\<lambda>st. case st of
          TASK_STAGING \<Rightarrow> ''STAGING'' | TASK_STARTING \<Rightarrow> ''STARTING''
        | TASK_RUNNING \<Rightarrow> ''RUNNING'' | TASK_FINISHED \<Rightarrow> ''FINISHED''
        | TASK_FAILED \<Rightarrow> ''FAILED'' | TASK_KILLED \<Rightarrow> ''KILLED''
        | TASK_LOST \<Rightarrow> ''LOST'' | TASK_ERROR \<Rightarrow> ''ERROR''),
      parse_exit_code = (\<lambda>st. if status_state st = TASK_FINISHED then Some 0 else None),
      get_status_timestamp = (\<lambda>st. 1000),
      get_slave_task_directory = (\<lambda>h p t w. (Inr (''/slave/'' @ t), w)),
      get_slave_task_file = (\<lambda>h p d f w. (Inr (''contents of '' @ f), w)),
      get_slave_task_url = (\<lambda>h p d f w. (Inr (h @ d @ ''/'' @ f), w)),
      get_builtin_error = (\<lambda>n w. (Inr n, w)),
      handle_job_failure = (\<lambda>i t e w. (Inr (), w)),
      update_master = (\<lambda>h p w. (Inr (), w)),
      get_running_job_exes = (\<lambda>w. (Inr [7, 8], w)),
      initialize_system = (\<lambda>w. (Inr (), w)),
      job_type_sync = (\<lambda>w. (Inr (), w)),
      scheduler_sync = (\<lambda>w. (Inr (), w)),
      get_node = (\<lambda>a w. (Inr (if a = ''agent-1''
                                  then Some \<lparr>node_ident = 1, node_host = ''host1''\<rparr>
                                  else None), w)),
      add_agent_ids = (\<lambda>as w. (Inr (), w)),
      node_manager_lost_node = (\<lambda>a w. (Inr (), w)),
      add_new_offers = (\<lambda>os w. (Inr (), w)),
      remove_offers = (\<lambda>os w. (Inr (), w)),
      offer_manager_lost_node = (\<lambda>a w. (Inr (), w)),
      task_running = (\<lambda>e t when out err w. ((None, (exe_state e)\<lparr>sm_phase := Running\<rparr>), w)),
      task_complete = (\<lambda>e r w.
        ((None, (exe_state e)\<lparr>sm_phase := Finished, sm_task := None\<rparr>), w)),
      task_fail = (\<lambda>e r err w.
        ((None, (exe_state e)\<lparr>sm_phase := (if err = Some ''mesos-lost'' then Lost else Failed),
                                sm_task := None, sm_error := err\<rparr>), w)),
      execution_lost = (\<lambda>e when w.
        ((None, (exe_state e)\<lparr>sm_phase := Lost, sm_task := None,
                                sm_error := Some ''node-lost''\<rparr>), w)),
      is_finished = (\<lambda>st. sm_phase st \<in> {Finished, Failed, Lost}),
      current_task = sm_task\<rparr>"

text \<open>
  A scheduler after \<open>registered\<close>, with execution 7 running task \<open>7_task\<close> on node 1:
  the three loops run, the task is in the reconciliation set.
\<close>
definition running_state :: "(time, exe_sm) state" where
  "running_state =
     \<lparr>self_driver = Some 1, self_executor = ''scale-executor'',
      self_framework_id = Some ''framework-1'',
      self_master_hostname = Some ''master'', self_master_port = Some 5050,
      self_job_exe_manager =
        [\<lparr>exe_id = 7, node_id = 1, node_hostname = ''host1'', node_port = 5051,
          exe_state = \<lparr>sm_phase = Launched, sm_task = Some ''7_task'', sm_error = None\<rparr>\<rparr>],
      self_db_sync_thread = Some \<lparr>lt_driver = 1, lt_running = True\<rparr>,
      self_recon_thread = Some \<lparr>rt_driver = 1, rt_running = True, rt_task_ids = {''7_task''}\<rparr>,
      self_scheduling_thread = Some \<lparr>lt_driver = 1, lt_running = True\<rparr>,
      ext = 0\<rparr>"

text \<open>The scheduler the constructor builds, after \<open>registered\<close> has returned.\<close>
definition registered_state :: "(time, exe_sm) state" where
  "registered_state =
     fst (snd (registered spec_env 1 ''framework-1'' \<lparr>mi_hostname = ''master'', mi_port = 5050\<rparr>
                 (ScaleScheduler_init ''scale-executor'' 0)))"

text \<open>The same environment with a backing store that fails on every write.\<close>
definition db_down_env :: "(time, exe_sm) env" where
  "db_down_env =
     spec_env\<lparr>handle_job_failure := (\<lambda>i t e w. (Inl DatabaseError, w)),
              update_master := (\<lambda>h p w. (Inl DatabaseError, w)),
              task_running := (\<lambda>e t when out err w. ((Some DatabaseError, exe_state e), w)),
              task_complete := (\<lambda>e r w. ((Some DatabaseError, exe_state e), w)),
              task_fail := (\<lambda>e r err w. ((Some DatabaseError, exe_state e), w)),
              execution_lost := (\<lambda>e when w. ((Some DatabaseError, exe_state e), w))\<rparr>"

text \<open>The same environment with a backing store that fails on every lookup of an error.\<close>
definition lookup_down_env :: "(time, exe_sm) env" where
  "lookup_down_env = spec_env\<lparr>get_builtin_error := (\<lambda>n w. (Inl DatabaseError, w))\<rparr>"

text \<open>
  The same environment with a \<open>task_complete\<close> that marks the execution finished and
  then fails to write it to the backing store.
\<close>
definition half_done_env :: "(time, exe_sm) env" where
  "half_done_env =
     spec_env\<lparr>task_complete := (\<lambda>e r w.
       ((Some DatabaseError, (exe_state e)\<lparr>sm_phase := Finished, sm_task := None\<rparr>), w))\<rparr>"


text \<open>The same environment with an agent that does not answer.\<close>
definition agent_down_env :: "(time, exe_sm) env" where
  "agent_down_env =
     spec_env\<lparr>get_slave_task_directory := (\<lambda>h p t w. (Inl (OtherException ''unreachable''), w)),
              get_slave_task_file := (\<lambda>h p d f w. (Inl (OtherException ''unreachable''), w)),
              get_slave_task_url := (\<lambda>h p d f w. (Inl (OtherException ''unreachable''), w))\<rparr>"

section \<open>Reading a run\<close>

abbreviation outcome :: "(exn + 'a) \<times> 's \<times> event list \<Rightarrow> exn + 'a" where
  "outcome r \<equiv> fst r"

abbreviation final :: "(exn + 'a) \<times> 's \<times> event list \<Rightarrow> 's" where
  "final r \<equiv> fst (snd r)"

abbreviation calls :: "(exn + 'a) \<times> 's \<times> event list \<Rightarrow> event list" where
  "calls r \<equiv> snd (snd r)"

definition reconciliation_set :: "('w, 'st) state \<Rightarrow> task_id set" where
  "reconciliation_set s = (case self_recon_thread s of None \<Rightarrow> {} | Some rt \<Rightarrow> rt_task_ids rt)"

text \<open>The ids of the executions the manager holds.\<close>
definition managed :: "('w, 'st) state \<Rightarrow> job_exe_id set" where
  "managed s = exe_id ` set (self_job_exe_manager s)"

text \<open>
  The state in which the outer \<open>try\<close> block of \<open>statusUpdate\<close> starts: the clock has been
  read and the task id has left the reconciliation set.
\<close>
definition status_entry :: "('w, 'st) env \<Rightarrow> task_status \<Rightarrow> ('w, 'st) state \<Rightarrow> ('w, 'st) state" where
  "status_entry env status s =
     s\<lparr>ext := snd (now env (ext s)),
       self_recon_thread :=
         map_option (\<lambda>rt. rt\<lparr>rt_task_ids := rt_task_ids rt - {status_task_id status}\<rparr>)
           (self_recon_thread s)\<rparr>"

text \<open>The calls of the agent log retrieval: directory probe, file fetch, URL derivation.\<close>
fun is_log_retrieval :: "event \<Rightarrow> bool" where
  "is_log_retrieval (GetSlaveTaskDirectory h p t) = True"
| "is_log_retrieval (GetSlaveTaskFile h p d f) = True"
| "is_log_retrieval (GetSlaveTaskUrl h p d f) = True"
| "is_log_retrieval ev = False"

text \<open>The calls of a method of an execution.\<close>
fun is_transition :: "event \<Rightarrow> bool" where
  "is_transition (Transition i m ex) = True"
| "is_transition ev = False"

text \<open>The calls of \<open>Queue.objects.handle_job_failure\<close>.\<close>
fun is_job_failure :: "event \<Rightarrow> bool" where
  "is_job_failure (HandleJobFailure i when err) = True"
| "is_job_failure ev = False"



text \<open>A statement that leaves a part of the state as it found it.\<close>
definition preserves :: "('s \<Rightarrow> 'b) \<Rightarrow> ('s, 'a) prog \<Rightarrow> bool" where
  "preserves g m = (\<forall>s. g (final (m s)) = g s)"

text \<open>A statement all of whose recorded calls satisfy a predicate.\<close>
definition emits :: "(event \<Rightarrow> bool) \<Rightarrow> ('s, 'a) prog \<Rightarrow> bool" where
  "emits P m = (\<forall>s. \<forall>ev \<in> set (calls (m s)). P ev)"


text \<open>
  A statement that removes executions from the manager only after \<open>is_finished()\<close> returned
  true for them, and always then.
\<close>
definition removal_rule :: "(('w, 'st) state, 'a) prog \<Rightarrow> bool" where
  "removal_rule m =
     (\<forall>s. managed (final (m s)) \<subseteq> managed s \<and>
          (\<forall>i. IsFinished i True \<in> set (calls (m s)) \<longrightarrow> i \<notin> managed (final (m s))) \<and>
          (\<forall>i. i \<in> managed s \<longrightarrow> i \<notin> managed (final (m s)) \<longrightarrow>
               IsFinished i True \<in> set (calls (m s))))"

text \<open>
  The executions of the manager after a method has left execution \<open>i\<close> in state \<open>st\<close> and
  the execution has been removed if it is finished.
\<close>
definition after_transition ::
  "('w, 'st) env \<Rightarrow> job_exe_id \<Rightarrow> 'st \<Rightarrow> 'st running_job_exe list \<Rightarrow> 'st running_job_exe list" where
  "after_transition env i st m =
     (if is_finished env st then filter (\<lambda>e. exe_id e \<noteq> i) (store_exe_state i st m)
      else store_exe_state i st m)"

text \<open>The calls that end the handling of one execution: the check and the removal.\<close>
definition finish_events :: "('w, 'st) env \<Rightarrow> job_exe_id \<Rightarrow> 'st \<Rightarrow> event list" where
  "finish_events env i st =
     IsFinished i (is_finished env st) # (if is_finished env st then [RemoveJobExe i] else [])"

section \<open>Reasoning about runs\<close>

subsection \<open>Runs of the combinators\<close>

lemma seq_Inl: "m s = (Inl e, s1, t1) \<Longrightarrow> seq m f s = (Inl e, s1, t1)"
  by (simp add: seq_def)

lemma seq_Inr:
  "m s = (Inr x, s1, t1) \<Longrightarrow> f x s1 = (r, s2, t2) \<Longrightarrow> seq m f s = (r, s2, t1 @ t2)"
  by (simp add: seq_def)

lemma seq_run:
  assumes "seq m f s = (r, s', t)"
  shows "(\<exists>e. m s = (Inl e, s', t) \<and> r = Inl e) \<or>
         (\<exists>x s1 t1 t2. m s = (Inr x, s1, t1) \<and> f x s1 = (r, s', t2) \<and> t = t1 @ t2)"
proof (cases "m s")
  case (fields r1 s1 t1)
  show ?thesis
  proof (cases r1)
    case (Inl e)
    with fields assms show ?thesis by (simp add: seq_def)
  next
    case (Inr x)
    with fields assms show ?thesis by (auto simp: seq_def split: prod.splits)
  qed
qed

lemma log_duration_run:
  "\<exists>lvl d. log_duration env started th msg s =
     (Inr (), s\<lparr>ext := snd (now env (ext s))\<rparr>, [Log lvl msg [AInt d]])"
  by (auto simp: log_duration_def seq_def clock_def logger_def Let_def split: prod.splits)

subsection \<open>Frames\<close>

lemma preservesD: "preserves g m \<Longrightarrow> g (final (m s)) = g s"
  by (simp add: preserves_def)

lemma preservesI: "(\<And>s. g (final (m s)) = g s) \<Longrightarrow> preserves g m"
  by (simp add: preserves_def)

lemma preserves_ret: "preserves g (ret x)"
  by (simp add: preserves_def ret_def)

lemma preserves_throw: "preserves g (throw e)"
  by (simp add: preserves_def throw_def)

lemma preserves_raise_if: "preserves g (raise_if ex)"
  by (cases ex) (simp_all add: raise_if_def preserves_ret preserves_throw)

lemma preserves_logger: "preserves g (logger lvl msg args)"
  by (simp add: preserves_def logger_def)

lemma preserves_check_finished: "preserves g (check_finished env i st)"
  by (simp add: preserves_def check_finished_def)

lemma preserves_read_current_task: "preserves g (read_current_task env i st)"
  by (simp add: preserves_def read_current_task_def)

lemma preserves_seq:
  assumes "preserves g m" and "\<And>x. preserves g (f x)"
  shows "preserves g (seq m f)"
proof (rule preservesI)
  fix s
  obtain r1 s1 t1 where m: "m s = (r1, s1, t1)" by (cases "m s")
  from assms(1) m have g1: "g s1 = g s" by (auto dest: preservesD [where s = s])
  show "g (final (seq m f s)) = g s"
  proof (cases r1)
    case (Inl e)
    with m g1 show ?thesis by (simp add: seq_def)
  next
    case (Inr x)
    obtain r2 s2 t2 where f: "f x s1 = (r2, s2, t2)" by (cases "f x s1")
    from assms(2) [of x] f have "g s2 = g s1" by (auto dest: preservesD [where s = s1])
    with m Inr f g1 show ?thesis by (simp add: seq_def)
  qed
qed

lemma preserves_try_except:
  assumes "preserves g m" and "\<And>e. preserves g (h e)"
  shows "preserves g (try_except m c h)"
proof (rule preservesI)
  fix s
  obtain r1 s1 t1 where m: "m s = (r1, s1, t1)" by (cases "m s")
  from assms(1) m have g1: "g s1 = g s" by (auto dest: preservesD [where s = s])
  show "g (final (try_except m c h s)) = g s"
  proof (cases r1)
    case (Inr x)
    with m g1 show ?thesis by (simp add: try_except_def)
  next
    case (Inl e)
    obtain r2 s2 t2 where f: "h e s1 = (r2, s2, t2)" by (cases "h e s1")
    from assms(2) [of e] f have "g s2 = g s1" by (auto dest: preservesD [where s = s1])
    with m Inl f g1 show ?thesis by (simp add: try_except_def)
  qed
qed

lemma preserves_pulling:
  assumes "preserves g m" and "\<And>x. preserves g (f x)"
  shows "preserves g (pulling task_id results m f)"
proof (rule preservesI)
  fix s
  obtain r1 s1 t1 where m: "m s = (r1, s1, t1)" by (cases "m s")
  from assms(1) m have g1: "g s1 = g s" by (auto dest: preservesD [where s = s])
  show "g (final (pulling task_id results m f s)) = g s"
  proof (cases r1)
    case (Inl e)
    with m g1 show ?thesis by (simp add: pulling_def)
  next
    case (Inr x)
    obtain r2 s2 t2 where f: "f x s1 = (r2, s2, t2)" by (cases "f x s1")
    from assms(2) [of x] f have "g s2 = g s1" by (auto dest: preservesD [where s = s1])
    with m Inr f g1 show ?thesis by (simp add: pulling_def)
  qed
qed

lemma preserves_clock: "(\<And>s w. g (s\<lparr>ext := w\<rparr>) = g s) \<Longrightarrow> preserves g (clock env)"
  by (simp add: preserves_def clock_def split: prod.splits)

lemma preserves_call: "(\<And>s w. g (s\<lparr>ext := w\<rparr>) = g s) \<Longrightarrow> preserves g (call ev f)"
  by (simp add: preserves_def call_def split: prod.splits)

lemma preserves_lookup_error:
  "(\<And>s w. g (s\<lparr>ext := w\<rparr>) = g s) \<Longrightarrow> preserves g (lookup_error env name)"
  by (simp add: preserves_def lookup_error_def split: prod.splits)

lemma preserves_log_duration:
  "(\<And>s w. g (s\<lparr>ext := w\<rparr>) = g s) \<Longrightarrow> preserves g (log_duration env started th msg)"
  by (simp add: log_duration_def Let_def preserves_seq preserves_clock preserves_logger)

lemma preserves_invoke:
  "(\<And>s w m. g (s\<lparr>ext := w, self_job_exe_manager := m\<rparr>) = g s) \<Longrightarrow> preserves g (invoke i me f)"
  by (simp add: preserves_def invoke_def split: prod.splits)

lemma preserves_remove_job_exe:
  "(\<And>s m. g (s\<lparr>self_job_exe_manager := m\<rparr>) = g s) \<Longrightarrow> preserves g (remove_job_exe i)"
  by (simp add: preserves_def remove_job_exe_def)

lemmas preserves_intros =
  preserves_ret preserves_throw preserves_raise_if preserves_logger preserves_check_finished
  preserves_read_current_task preserves_seq preserves_try_except preserves_pulling
  preserves_clock preserves_call preserves_lookup_error preserves_log_duration preserves_invoke
  preserves_remove_job_exe

lemma preserves_pull_logs_recon: "preserves self_recon_thread (pull_logs env e t r)"
  unfolding pull_logs_def Let_def
  by (intro preserves_intros) simp_all

lemma preserves_task_urls:
  "(\<And>s w. g (s\<lparr>ext := w\<rparr>) = g s) \<Longrightarrow> preserves g (task_urls env e t)"
  unfolding task_urls_def Let_def
  by (intro preserves_seq preserves_call preserves_ret)

lemma preserves_apply_status_recon: "preserves self_recon_thread (apply_status env e st t r)"
  unfolding apply_status_def Let_def
  by (auto intro!: preserves_intros preserves_task_urls)

lemma preserves_handle_known_recon: "preserves self_recon_thread (handle_known env st t j e)"
  unfolding handle_known_def
  by (auto intro!: preserves_intros preserves_pull_logs_recon preserves_apply_status_recon)

lemma preserves_handle_unknown_recon: "preserves self_recon_thread (handle_unknown env j)"
  unfolding handle_unknown_def Let_def
  by (intro preserves_intros) simp_all

lemma preserves_handle_status_recon: "preserves self_recon_thread (handle_status env st t j)"
  by (rule preservesI)
     (simp add: handle_status_def preservesD preserves_handle_known_recon
        preserves_handle_unknown_recon split: option.split)

lemma statusUpdate_entry:
  assumes "self_recon_thread s = Some rt"
  shows "statusUpdate env d st s =
     (case try_except (handle_status env st (status_task_id st) (get_job_exe_id env (status_task_id st)))
             (\<lambda>e. True)
             (\<lambda>e. seq (logger EXCEPTION ''Error handling status update for job execution: %s''
                         [AInt (get_job_exe_id env (status_task_id st))]) (\<lambda>_.
                   recon_add_task_ids [status_task_id st])) (status_entry env st s) of
        (Inl e, s2, t2) \<Rightarrow>
          (Inl e, s2,
           [Log INFO ''Status update for task %s: %s''
              [AStr (status_task_id st), AStr (status_to_string env (status_state st))],
            ReconRemove (status_task_id st)] @ t2)
      | (Inr u, s2, t2) \<Rightarrow>
          (case log_duration env (fst (now env (ext s))) DATABASE_WARN_THRESHOLD
                  ''Scheduler statusUpdate() took %.3f seconds'' s2 of
             (r3, s3, t3) \<Rightarrow>
               (r3, s3,
                [Log INFO ''Status update for task %s: %s''
                   [AStr (status_task_id st), AStr (status_to_string env (status_state st))],
                 ReconRemove (status_task_id st)] @ t2 @ t3)))"
  using assms
  by (simp add: statusUpdate_def seq_def clock_def logger_def recon_remove_task_id_def Let_def
      status_entry_def split: prod.splits sum.splits)

text \<open>A status update whose handling returns.\<close>
lemma statusUpdate_handled:
  assumes "self_recon_thread s = Some rt"
    and "handle_status env st (status_task_id st) (get_job_exe_id env (status_task_id st))
           (status_entry env st s) = (Inr u, s2, t2)"
  shows "\<exists>lvl d. statusUpdate env dr st s =
     (Inr (), s2\<lparr>ext := snd (now env (ext s2))\<rparr>,
      [Log INFO ''Status update for task %s: %s''
         [AStr (status_task_id st), AStr (status_to_string env (status_state st))],
       ReconRemove (status_task_id st)] @ t2 @
      [Log lvl ''Scheduler statusUpdate() took %.3f seconds'' [AInt d]])"
proof -
  obtain lvl d where
    "log_duration env (fst (now env (ext s))) DATABASE_WARN_THRESHOLD
       ''Scheduler statusUpdate() took %.3f seconds'' s2 =
     (Inr (), s2\<lparr>ext := snd (now env (ext s2))\<rparr>,
      [Log lvl ''Scheduler statusUpdate() took %.3f seconds'' [AInt d]])"
    using log_duration_run by blast
  with assms show ?thesis
    by (simp add: statusUpdate_entry [OF assms(1)] try_except_def)
qed

text \<open>A status update whose handling raises.\<close>
lemma statusUpdate_recovered:
  assumes "self_recon_thread s = Some rt"
    and "handle_status env st (status_task_id st) (get_job_exe_id env (status_task_id st))
           (status_entry env st s) = (Inl e, s2, t2)"
  shows "\<exists>lvl d. statusUpdate env dr st s =
     (Inr (),
      s2\<lparr>self_recon_thread := Some (rt\<lparr>rt_task_ids := insert (status_task_id st) (rt_task_ids rt)\<rparr>),
         ext := snd (now env (ext s2))\<rparr>,
      [Log INFO ''Status update for task %s: %s''
         [AStr (status_task_id st), AStr (status_to_string env (status_state st))],
       ReconRemove (status_task_id st)] @ t2 @
      [Log EXCEPTION ''Error handling status update for job execution: %s''
         [AInt (get_job_exe_id env (status_task_id st))],
       ReconAdd [status_task_id st],
       Log lvl ''Scheduler statusUpdate() took %.3f seconds'' [AInt d]])"
proof -
  let ?s3 = "s2\<lparr>self_recon_thread :=
                 Some (rt\<lparr>rt_task_ids := insert (status_task_id st) (rt_task_ids rt)\<rparr>)\<rparr>"
  have "self_recon_thread s2 = self_recon_thread (status_entry env st s)"
    using preservesD [OF preserves_handle_status_recon, of env st "status_task_id st"
        "get_job_exe_id env (status_task_id st)" "status_entry env st s"] assms(2)
    by simp
  then have rt2: "self_recon_thread s2 =
      Some (rt\<lparr>rt_task_ids := rt_task_ids rt - {status_task_id st}\<rparr>)"
    using assms(1) by (simp add: status_entry_def)
  obtain lvl d where
    "log_duration env (fst (now env (ext s))) DATABASE_WARN_THRESHOLD
       ''Scheduler statusUpdate() took %.3f seconds'' ?s3 =
     (Inr (), ?s3\<lparr>ext := snd (now env (ext ?s3))\<rparr>,
      [Log lvl ''Scheduler statusUpdate() took %.3f seconds'' [AInt d]])"
    using log_duration_run by blast
  with assms rt2 show ?thesis
    by (simp add: statusUpdate_entry [OF assms(1)] try_except_def seq_def logger_def
        recon_add_task_ids_def insert_absorb)
qed

lemma handle_status_recon:
  assumes "handle_status env st t j s1 = (r, s2, t2)"
  shows "self_recon_thread s2 = self_recon_thread s1"
  using preservesD [OF preserves_handle_status_recon, of env st t j s1] assms by simp

text \<open>The definitions a run on concrete values unfolds.\<close>
lemmas run_defs =
  ret_def throw_def seq_def try_except_def modify_def logger_def clock_def call_def
  lookup_error_def task_urls_def
  get_job_exe_def get_job_exes_on_node_def remove_job_exe_def store_exe_state_def invoke_def
  raise_if_def check_finished_def read_current_task_def
  recon_remove_task_id_def recon_add_task_ids_def
  set_db_sync_driver_def set_recon_driver_def set_scheduling_driver_def
  db_sync_shutdown_def recon_shutdown_def scheduling_shutdown_def
  NORMAL_WARN_THRESHOLD_def DATABASE_WARN_THRESHOLD_def log_duration_def
  reconcile_running_jobs_def registered_def reregistered_def disconnected_def
  to_resource_offer_def resourceOffers_def offerRescinded_def
  pulling_def pull_logs_def apply_status_def new_results_def
  handle_known_def handle_unknown_def handle_status_def statusUpdate_def
  frameworkMessage_def fail_lost_exe_def slaveLost_def executorLost_def error_def shutdown_def
  Let_def

section \<open>Properties of \<open>statusUpdate\<close>\<close>

text \<open>
  Claim C1. Every \<open>statusUpdate\<close> of a registered scheduler removes the task id of the
  status from the reconciliation set before it handles the update, whatever the state
  of the status and whether or not the manager knows the execution: the first calls
  of the callback are the log line and the removal, the \<open>try\<close> block starts in a state
  whose reconciliation set does not hold the task id, and at the end the task id is in
  the set only if the recovery of a failed handling has added it again.
\<close>
theorem statusUpdate_removes_task_id_first:
  assumes "self_recon_thread s = Some rt"
  shows "\<exists>rest.
     calls (statusUpdate env driver status s) =
       Log INFO ''Status update for task %s: %s''
         [AStr (status_task_id status), AStr (status_to_string env (status_state status))] #
       ReconRemove (status_task_id status) # rest \<and>
     status_task_id status \<notin> reconciliation_set (status_entry env status s) \<and>
     (status_task_id status \<in> reconciliation_set (final (statusUpdate env driver status s))
        \<longrightarrow> ReconAdd [status_task_id status] \<in> set rest)"
proof -
  let ?tid = "status_task_id status"
  let ?jid = "get_job_exe_id env ?tid"
  let ?s1 = "status_entry env status s"
  have entry: "?tid \<notin> reconciliation_set ?s1"
    using assms by (simp add: reconciliation_set_def status_entry_def)
  obtain r s2 t2 where h: "handle_status env status ?tid ?jid ?s1 = (r, s2, t2)"
    by (cases "handle_status env status ?tid ?jid ?s1")
  have rt2: "self_recon_thread s2 = Some (rt\<lparr>rt_task_ids := rt_task_ids rt - {?tid}\<rparr>)"
    using handle_status_recon [OF h] assms by (simp add: status_entry_def)
  show ?thesis
  proof (cases r)
    case (Inr u)
    with h obtain lvl d where
      "statusUpdate env driver status s =
        (Inr (), s2\<lparr>ext := snd (now env (ext s2))\<rparr>,
         [Log INFO ''Status update for task %s: %s''
            [AStr ?tid, AStr (status_to_string env (status_state status))],
          ReconRemove ?tid] @ t2 @
         [Log lvl ''Scheduler statusUpdate() took %.3f seconds'' [AInt d]])"
      using statusUpdate_handled [OF assms, of env status u s2 t2 driver] by auto
    with rt2 entry show ?thesis by (simp add: reconciliation_set_def)
  next
    case (Inl e)
    with h obtain lvl d where
      "statusUpdate env driver status s =
        (Inr (),
         s2\<lparr>self_recon_thread := Some (rt\<lparr>rt_task_ids := insert ?tid (rt_task_ids rt)\<rparr>),
            ext := snd (now env (ext s2))\<rparr>,
         [Log INFO ''Status update for task %s: %s''
            [AStr ?tid, AStr (status_to_string env (status_state status))],
          ReconRemove ?tid] @ t2 @
         [Log EXCEPTION ''Error handling status update for job execution: %s'' [AInt ?jid],
          ReconAdd [?tid],
          Log lvl ''Scheduler statusUpdate() took %.3f seconds'' [AInt d]])"
      using statusUpdate_recovered [OF assms, of env status e s2 t2 driver] by auto
    with entry show ?thesis by simp
  qed
qed

theorem statusUpdate_removes_task_id_first_witness:
  "self_recon_thread running_state =
     Some \<lparr>rt_driver = 1, rt_running = True, rt_task_ids = {''7_task''}\<rparr> \<and>
   (\<exists>rest.
     calls (statusUpdate spec_env 1
        \<lparr>status_task_id = ''7_task'', status_state = TASK_FINISHED, status_message = ''''\<rparr>
        running_state) =
       Log INFO ''Status update for task %s: %s'' [AStr ''7_task'', AStr ''FINISHED''] #
       ReconRemove ''7_task'' # rest) \<and>
   ''7_task'' \<notin> reconciliation_set (final (statusUpdate spec_env 1
        \<lparr>status_task_id = ''7_task'', status_state = TASK_FINISHED, status_message = ''''\<rparr>
        running_state))"
proof -
  have rt: "self_recon_thread running_state =
     Some \<lparr>rt_driver = 1, rt_running = True, rt_task_ids = {''7_task''}\<rparr>"
    by (simp add: running_state_def)
  have fin: "''7_task'' \<notin> reconciliation_set (final (statusUpdate spec_env 1
        \<lparr>status_task_id = ''7_task'', status_state = TASK_FINISHED, status_message = ''''\<rparr>
        running_state))"
    by (simp add: run_defs reconciliation_set_def spec_env_def running_state_def)
  from statusUpdate_removes_task_id_first [OF rt, of spec_env 1
      "\<lparr>status_task_id = ''7_task'', status_state = TASK_FINISHED, status_message = ''''\<rparr>"]
  show ?thesis using rt fin by (auto simp: spec_env_def)
qed

subsection \<open>Recorded calls\<close>

lemma emitsD: "emits P m \<Longrightarrow> ev \<in> set (calls (m s)) \<Longrightarrow> P ev"
  by (simp add: emits_def)

lemma emitsI: "(\<And>s ev. ev \<in> set (calls (m s)) \<Longrightarrow> P ev) \<Longrightarrow> emits P m"
  by (simp add: emits_def)

lemma emits_ret: "emits P (ret x)"
  by (simp add: emits_def ret_def)

lemma emits_throw: "emits P (throw e)"
  by (simp add: emits_def throw_def)

lemma emits_raise_if: "emits P (raise_if ex)"
  by (cases ex) (simp_all add: raise_if_def emits_ret emits_throw)

lemma emits_modify: "emits P (modify f)"
  by (simp add: emits_def modify_def)

lemma emits_clock: "emits P (clock env)"
  by (simp add: emits_def clock_def split: prod.splits)

lemma emits_logger: "P (Log lvl msg args) \<Longrightarrow> emits P (logger lvl msg args)"
  by (simp add: emits_def logger_def)

lemma emits_call: "P ev \<Longrightarrow> emits P (call ev f)"
  by (simp add: emits_def call_def split: prod.splits)

lemma emits_lookup_error:
  "(\<And>r. P (GetBuiltinError name r)) \<Longrightarrow> emits P (lookup_error env name)"
  by (simp add: emits_def lookup_error_def split: prod.splits)

lemma emits_invoke: "(\<And>ex. P (Transition i me ex)) \<Longrightarrow> emits P (invoke i me f)"
  by (simp add: emits_def invoke_def split: prod.splits)

lemma emits_check_finished: "(\<And>b. P (IsFinished i b)) \<Longrightarrow> emits P (check_finished env i st)"
  by (simp add: emits_def check_finished_def)

lemma emits_read_current_task:
  "(\<And>t. P (CurrentTask i t)) \<Longrightarrow> emits P (read_current_task env i st)"
  by (simp add: emits_def read_current_task_def)

lemma emits_remove_job_exe: "P (RemoveJobExe i) \<Longrightarrow> emits P (remove_job_exe i)"
  by (simp add: emits_def remove_job_exe_def)

lemma emits_recon_add: "P (ReconAdd ts) \<Longrightarrow> emits P (recon_add_task_ids ts)"
  by (simp add: emits_def recon_add_task_ids_def split: option.splits)

lemma emits_recon_remove: "P (ReconRemove t) \<Longrightarrow> emits P (recon_remove_task_id t)"
  by (simp add: emits_def recon_remove_task_id_def split: option.splits)

lemma emits_seq:
  assumes "emits P m" and "\<And>x. emits P (f x)"
  shows "emits P (seq m f)"
proof (rule emitsI)
  fix s ev
  assume ev: "ev \<in> set (calls (seq m f s))"
  obtain r1 s1 t1 where m: "m s = (r1, s1, t1)" by (cases "m s")
  show "P ev"
  proof (cases r1)
    case (Inl e)
    with m ev have "ev \<in> set (calls (m s))" by (simp add: seq_def)
    with assms(1) show ?thesis by (rule emitsD)
  next
    case (Inr x)
    obtain r2 s2 t2 where f: "f x s1 = (r2, s2, t2)" by (cases "f x s1")
    with m Inr ev have "ev \<in> set (calls (m s)) \<or> ev \<in> set (calls (f x s1))"
      by (auto simp: seq_def)
    with assms show ?thesis by (auto dest: emitsD)
  qed
qed

lemma emits_try_except:
  assumes "emits P m" and "\<And>e. emits P (h e)"
  shows "emits P (try_except m c h)"
proof (rule emitsI)
  fix s ev
  assume ev: "ev \<in> set (calls (try_except m c h s))"
  obtain r1 s1 t1 where m: "m s = (r1, s1, t1)" by (cases "m s")
  show "P ev"
  proof (cases r1)
    case (Inr x)
    with m ev have "ev \<in> set (calls (m s))" by (simp add: try_except_def)
    with assms(1) show ?thesis by (rule emitsD)
  next
    case (Inl e)
    obtain r2 s2 t2 where f: "h e s1 = (r2, s2, t2)" by (cases "h e s1")
    with m Inl ev have "ev \<in> set (calls (m s)) \<or> ev \<in> set (calls (h e s1))"
      by (auto simp: try_except_def split: if_splits)
    with assms show ?thesis by (auto dest: emitsD)
  qed
qed

lemma emits_pulling:
  assumes "emits P m" and "\<And>x. emits P (f x)"
    and "P (Log EXCEPTION ''Error pulling logs for task %s'' [AStr task_id])"
  shows "emits P (pulling task_id results m f)"
proof (rule emitsI)
  fix s ev
  assume ev: "ev \<in> set (calls (pulling task_id results m f s))"
  obtain r1 s1 t1 where m: "m s = (r1, s1, t1)" by (cases "m s")
  show "P ev"
  proof (cases r1)
    case (Inl e)
    with m ev have "ev \<in> set (calls (m s)) \<or>
        ev = Log EXCEPTION ''Error pulling logs for task %s'' [AStr task_id]"
      by (auto simp: pulling_def)
    with assms show ?thesis by (auto dest: emitsD)
  next
    case (Inr x)
    obtain r2 s2 t2 where f: "f x s1 = (r2, s2, t2)" by (cases "f x s1")
    with m Inr ev have "ev \<in> set (calls (m s)) \<or> ev \<in> set (calls (f x s1))"
      by (auto simp: pulling_def)
    with assms show ?thesis by (auto dest: emitsD)
  qed
qed

lemma emits_log_duration:
  "(\<And>lvl d. P (Log lvl msg [AInt d])) \<Longrightarrow> emits P (log_duration env started th msg)"
  by (simp add: log_duration_def Let_def emits_seq emits_clock emits_logger)

lemmas emits_intros =
  emits_lookup_error emits_ret emits_throw emits_raise_if emits_modify emits_clock emits_logger emits_call
  emits_invoke emits_check_finished emits_read_current_task emits_remove_job_exe
  emits_recon_add emits_recon_remove emits_seq emits_try_except emits_pulling emits_log_duration

lemma emits_filter: "emits (\<lambda>ev. \<not> P ev) m \<Longrightarrow> filter P (calls (m s)) = []"
  by (auto simp: filter_empty_conv dest: emitsD)

subsection \<open>The shape of a status update\<close>

lemma statusUpdate_calls:
  assumes "self_recon_thread s = Some rt"
  shows "\<exists>lvl d. calls (statusUpdate env dr st s) =
     [Log INFO ''Status update for task %s: %s''
        [AStr (status_task_id st), AStr (status_to_string env (status_state st))],
      ReconRemove (status_task_id st)] @
     calls (handle_status env st (status_task_id st) (get_job_exe_id env (status_task_id st))
              (status_entry env st s)) @
     (case outcome (handle_status env st (status_task_id st)
                      (get_job_exe_id env (status_task_id st)) (status_entry env st s)) of
        Inl e \<Rightarrow> [Log EXCEPTION ''Error handling status update for job execution: %s''
                     [AInt (get_job_exe_id env (status_task_id st))],
                   ReconAdd [status_task_id st]]
      | Inr u \<Rightarrow> []) @
     [Log lvl ''Scheduler statusUpdate() took %.3f seconds'' [AInt d]]"
proof -
  obtain r s2 t2 where h: "handle_status env st (status_task_id st)
     (get_job_exe_id env (status_task_id st)) (status_entry env st s) = (r, s2, t2)"
    by (cases "handle_status env st (status_task_id st)
     (get_job_exe_id env (status_task_id st)) (status_entry env st s)")
  show ?thesis
  proof (cases r)
    case (Inl e)
    with h statusUpdate_recovered [OF assms, of env st e s2 t2 dr] show ?thesis by auto
  next
    case (Inr u)
    with h statusUpdate_handled [OF assms, of env st u s2 t2 dr] show ?thesis by auto
  qed
qed


lemma status_entry_manager [simp]:
  "self_job_exe_manager (status_entry env st s) = self_job_exe_manager s"
  by (simp add: status_entry_def)

lemma get_job_exe_id: "get_job_exe j m = Some e \<Longrightarrow> exe_id e = j"
  by (auto simp: get_job_exe_def find_Some_iff)

lemma status_entry_ext [simp]: "ext (status_entry env st s) = snd (now env (ext s))"
  by (simp add: status_entry_def)

text \<open>
  Claim C4. When the body of the outer \<open>try\<close> block of \<open>statusUpdate\<close> raises, in the state
  the entry of the callback left (task id removed from the reconciliation set), the
  callback logs the exception, adds the task id to the reconciliation set again, and
  returns: the exception does not reach the driver.
\<close>
theorem statusUpdate_recovers_from_exception:
  assumes "self_recon_thread s = Some rt"
    and "outcome (handle_status env status (status_task_id status)
            (get_job_exe_id env (status_task_id status)) (status_entry env status s)) = Inl e"
  shows "outcome (statusUpdate env driver status s) = Inr () \<and>
     status_task_id status \<in> reconciliation_set (final (statusUpdate env driver status s)) \<and>
     Log EXCEPTION ''Error handling status update for job execution: %s''
        [AInt (get_job_exe_id env (status_task_id status))]
       \<in> set (calls (statusUpdate env driver status s)) \<and>
     ReconAdd [status_task_id status] \<in> set (calls (statusUpdate env driver status s))"
proof -
  obtain r s2 t2 where h: "handle_status env status (status_task_id status)
     (get_job_exe_id env (status_task_id status)) (status_entry env status s) = (r, s2, t2)"
    by (cases "handle_status env status (status_task_id status)
     (get_job_exe_id env (status_task_id status)) (status_entry env status s)")
  with assms(2) have "r = Inl e" by simp
  with h statusUpdate_recovered [OF assms(1), of env status e s2 t2 driver]
  show ?thesis by (auto simp: reconciliation_set_def)
qed

theorem statusUpdate_recovers_from_exception_witness:
  "self_recon_thread running_state =
     Some \<lparr>rt_driver = 1, rt_running = True, rt_task_ids = {''7_task''}\<rparr> \<and>
   outcome (handle_status db_down_env
      \<lparr>status_task_id = ''7_task'', status_state = TASK_FINISHED, status_message = ''''\<rparr>
      ''7_task'' 7
      (status_entry db_down_env
         \<lparr>status_task_id = ''7_task'', status_state = TASK_FINISHED, status_message = ''''\<rparr>
         running_state)) = Inl DatabaseError \<and>
   outcome (statusUpdate db_down_env 1
      \<lparr>status_task_id = ''7_task'', status_state = TASK_FINISHED, status_message = ''''\<rparr>
      running_state) = Inr () \<and>
   ''7_task'' \<in> reconciliation_set (final (statusUpdate db_down_env 1
      \<lparr>status_task_id = ''7_task'', status_state = TASK_FINISHED, status_message = ''''\<rparr>
      running_state)) \<and>
   ReconAdd [''7_task''] \<in> set (calls (statusUpdate db_down_env 1
      \<lparr>status_task_id = ''7_task'', status_state = TASK_FINISHED, status_message = ''''\<rparr>
      running_state))"
proof -
  let ?st = "\<lparr>status_task_id = ''7_task'', status_state = TASK_FINISHED, status_message = ''''\<rparr>"
  have rt: "self_recon_thread running_state =
     Some \<lparr>rt_driver = 1, rt_running = True, rt_task_ids = {''7_task''}\<rparr>"
    by (simp add: running_state_def)
  have jid: "get_job_exe_id db_down_env (status_task_id ?st) = 7"
    by (simp add: db_down_env_def spec_env_def)
  have h: "outcome (handle_status db_down_env ?st (status_task_id ?st)
            (get_job_exe_id db_down_env (status_task_id ?st))
            (status_entry db_down_env ?st running_state)) = Inl DatabaseError"
    by (simp add: run_defs status_entry_def db_down_env_def spec_env_def running_state_def)
  from statusUpdate_recovers_from_exception [OF rt h, of 1] rt h jid
  show ?thesis by simp
qed

subsection \<open>The handling of a known execution\<close>

lemma emits_pull_logs_no_transition:
  "emits (\<lambda>ev. \<not> is_transition ev) (pull_logs env e t r)"
  unfolding pull_logs_def Let_def
  by (intro emits_intros) simp_all

lemma emits_task_urls_no_transition:
  "emits (\<lambda>ev. \<not> is_transition ev) (task_urls env e t)"
  unfolding task_urls_def Let_def
  by (intro emits_intros) simp_all

lemma preserves_pull_logs_manager: "preserves self_job_exe_manager (pull_logs env e t r)"
  unfolding pull_logs_def Let_def
  by (intro preserves_intros) simp_all

lemma task_urls_manager:
  "task_urls env e t s = (r, s3, t3) \<Longrightarrow> self_job_exe_manager s3 = self_job_exe_manager s"
  using preservesD [OF preserves_task_urls [of self_job_exe_manager env e t], of s] by simp

text \<open>The log pull, by the first call that raises.\<close>
lemma pull_logs_cases:
  assumes "now env (ext s) = (t0, w0)"
  shows "\<exists>res s2 t2. pull_logs env e tid r0 s = (Inr res, s2, t2) \<and>
     self_job_exe_manager s2 = self_job_exe_manager s \<and>
     r_task_id res = r_task_id r0 \<and> r_exit_code res = r_exit_code r0 \<and> r_when res = r_when r0 \<and>
     (case get_slave_task_directory env (node_hostname e) (node_port e) tid w0 of
        (Inl x, wa) \<Rightarrow>
          t2 = [GetSlaveTaskDirectory (node_hostname e) (node_port e) tid,
                Log EXCEPTION ''Error pulling logs for task %s'' [AStr tid]] \<and>
          r_stdout res = r_stdout r0 \<and> r_stderr res = r_stderr r0
      | (Inr dir, wa) \<Rightarrow>
          (case get_slave_task_file env (node_hostname e) (node_port e) dir ''stdout'' wa of
             (Inl x, wb) \<Rightarrow>
               t2 = [GetSlaveTaskDirectory (node_hostname e) (node_port e) tid,
                     GetSlaveTaskFile (node_hostname e) (node_port e) dir ''stdout'',
                     Log EXCEPTION ''Error pulling logs for task %s'' [AStr tid]] \<and>
               r_stdout res = r_stdout r0 \<and> r_stderr res = r_stderr r0
           | (Inr out, wb) \<Rightarrow>
               (case get_slave_task_file env (node_hostname e) (node_port e) dir ''stderr'' wb of
                  (Inl x, wc) \<Rightarrow>
                    t2 = [GetSlaveTaskDirectory (node_hostname e) (node_port e) tid,
                          GetSlaveTaskFile (node_hostname e) (node_port e) dir ''stdout'',
                          GetSlaveTaskFile (node_hostname e) (node_port e) dir ''stderr'',
                          Log EXCEPTION ''Error pulling logs for task %s'' [AStr tid]] \<and>
                    r_stdout res = Some out \<and> r_stderr res = r_stderr r0
                | (Inr err, wc) \<Rightarrow>
                    (\<exists>d. t2 = [GetSlaveTaskDirectory (node_hostname e) (node_port e) tid,
                          GetSlaveTaskFile (node_hostname e) (node_port e) dir ''stdout'',
                          GetSlaveTaskFile (node_hostname e) (node_port e) dir ''stderr'',
                          Log DEBUG ''Time to pull logs for task: %s'' [AInt d]]) \<and>
                    r_stdout res = Some out \<and> r_stderr res = Some err)))"
  using assms
  by (auto simp: pull_logs_def pulling_def seq_def clock_def call_def logger_def ret_def Let_def
      split: prod.splits sum.splits)

text \<open>A method of the execution, then the \<open>raise\<close> of what it raised.\<close>
lemma invoke_finish:
  assumes "f (ext s) = ((ex, st'), w')"
  shows "seq (invoke i me f) (\<lambda>(ex, st). seq (raise_if ex) (\<lambda>_. ret st)) s =
     ((case ex of None \<Rightarrow> Inr st' | Some x \<Rightarrow> Inl x),
      s\<lparr>ext := w', self_job_exe_manager := store_exe_state i st' (self_job_exe_manager s)\<rparr>,
      [Transition i me ex])"
  using assms
  by (simp add: seq_def invoke_def raise_if_def ret_def throw_def split: option.splits)

lemma apply_status_terminal:
  assumes "status_state st \<in> {TASK_FINISHED, TASK_FAILED, TASK_KILLED, TASK_ERROR}"
    and "(if status_state st = TASK_FINISHED then task_complete env e res
          else task_fail env e res None) (ext s) = ((ex, st'), w')"
  shows "apply_status env e st tid res s =
     ((case ex of None \<Rightarrow> Inr st' | Some x \<Rightarrow> Inl x),
      s\<lparr>ext := w',
        self_job_exe_manager := store_exe_state (exe_id e) st' (self_job_exe_manager s)\<rparr>,
      [Transition (exe_id e)
         (if status_state st = TASK_FINISHED then M_task_complete res else M_task_fail res None) ex])"
proof (cases "status_state st = TASK_FINISHED")
  case True
  with assms(2) have "task_complete env e res (ext s) = ((ex, st'), w')" by simp
  from invoke_finish [of "task_complete env e res", OF this] True
  show ?thesis by (simp add: apply_status_def Let_def)
next
  case False
  with assms(2) have "task_fail env e res None (ext s) = ((ex, st'), w')" by simp
  from invoke_finish [of "task_fail env e res None", OF this] False assms(1)
  show ?thesis by (auto simp: apply_status_def Let_def)
qed

lemma apply_status_running_raises:
  assumes "status_state st = TASK_RUNNING"
    and "task_urls env e tid s = (Inl x, s3, t3)"
  shows "apply_status env e st tid res s = (Inl x, s3, t3)"
  using assms by (simp add: apply_status_def Let_def seq_def)

lemma apply_status_running_returns:
  assumes "status_state st = TASK_RUNNING"
    and "task_urls env e tid s = (Inr (out, err), s3, t3)"
    and "task_running env e tid (r_when res) out err (ext s3) = ((ex, st'), w')"
  shows "apply_status env e st tid res s =
     ((case ex of None \<Rightarrow> Inr st' | Some x \<Rightarrow> Inl x),
      s3\<lparr>ext := w',
         self_job_exe_manager := store_exe_state (exe_id e) st' (self_job_exe_manager s3)\<rparr>,
      t3 @ [Transition (exe_id e) (M_task_running tid (r_when res) out err) ex])"
proof -
  have "apply_status env e st tid res s =
      (case seq (invoke (exe_id e) (M_task_running tid (r_when res) out err)
                   (task_running env e tid (r_when res) out err))
                (\<lambda>(ex, st). seq (raise_if ex) (\<lambda>_. ret st)) s3 of
         (r, s4, t4) \<Rightarrow> (r, s4, t3 @ t4))"
    using assms(1,2) by (simp add: apply_status_def Let_def seq_def [of "task_urls env e tid"])
  then show ?thesis
    using invoke_finish [of "task_running env e tid (r_when res) out err", OF assms(3)] by simp
qed

text \<open>What follows the log pull: the method of the execution, the check, the removal.\<close>
lemma handle_known_after:
  assumes "(if status_state st \<noteq> TASK_LOST
            then pull_logs env e tid (new_results env st tid)
            else ret (new_results env st tid)) s = (Inr res, s2, t2)"
    and "apply_status env e st tid res s2 = (r3, s3, t3)"
  shows "handle_known env st tid j e s =
     (case r3 of
        Inl x \<Rightarrow> (Inl x, s3, t2 @ t3)
      | Inr st' \<Rightarrow>
          (Inr (),
           s3\<lparr>self_job_exe_manager :=
                if is_finished env st' then filter (\<lambda>e. exe_id e \<noteq> j) (self_job_exe_manager s3)
                else self_job_exe_manager s3\<rparr>,
           t2 @ t3 @ finish_events env j st'))"
  using assms
  by (cases r3)
     (simp_all add: handle_known_def seq_def check_finished_def remove_job_exe_def ret_def
        finish_events_def)

lemma filter_transition_finish_events [simp]:
  "filter is_transition (finish_events env j st) = []"
  by (simp add: finish_events_def)

section \<open>The manager of the running executions\<close>

lemma managed_store_exe_state [simp]: "exe_id ` set (store_exe_state i st m) = exe_id ` set m"
  by (induction m) (auto simp: store_exe_state_def)

lemma get_job_exe_store:
  "get_job_exe j m = Some e \<Longrightarrow> get_job_exe j (store_exe_state j st m) = Some (e\<lparr>exe_state := st\<rparr>)"
  by (induction m) (auto simp: get_job_exe_def store_exe_state_def)

lemma get_job_exe_managed: "get_job_exe j m = Some e \<Longrightarrow> j \<in> exe_id ` set m"
  by (auto simp: get_job_exe_def find_Some_iff)

lemma get_job_exe_removed: "get_job_exe j (filter (\<lambda>e. exe_id e \<noteq> j) m) = None"
  by (auto simp: get_job_exe_def find_None_iff)

lemma preserves_managed_invoke: "preserves managed (invoke i me f)"
  by (simp add: preserves_def invoke_def managed_def split: prod.splits)

lemma preserves_recon_add:
  "(\<And>s r. g (s\<lparr>self_recon_thread := r\<rparr>) = g s) \<Longrightarrow> preserves g (recon_add_task_ids ts)"
  by (simp add: preserves_def recon_add_task_ids_def split: option.splits)

lemma preserves_recon_remove:
  "(\<And>s r. g (s\<lparr>self_recon_thread := r\<rparr>) = g s) \<Longrightarrow> preserves g (recon_remove_task_id t)"
  by (simp add: preserves_def recon_remove_task_id_def split: option.splits)

lemma preserves_modify: "(\<And>s. g (f s) = g s) \<Longrightarrow> preserves g (modify f)"
  by (simp add: preserves_def modify_def)

lemmas preserves_basic =
  preserves_ret preserves_throw preserves_raise_if preserves_logger preserves_check_finished
  preserves_read_current_task preserves_seq preserves_try_except preserves_pulling
  preserves_clock preserves_call preserves_lookup_error preserves_task_urls preserves_log_duration
  preserves_recon_add preserves_recon_remove

lemma preserves_managed_pull_logs: "preserves managed (pull_logs env e t r)"
  unfolding pull_logs_def Let_def
  by (intro preserves_basic) (simp_all add: managed_def)

lemma preserves_managed_apply_status: "preserves managed (apply_status env e st t r)"
  unfolding apply_status_def Let_def
  by (auto intro!: preserves_basic preserves_managed_invoke simp: managed_def)

lemma preserves_manager_pull_logs: "preserves self_job_exe_manager (pull_logs env e t r)"
  unfolding pull_logs_def Let_def
  by (intro preserves_basic) simp_all

subsection \<open>Callbacks that leave the manager alone\<close>

lemma preserves_emit: "preserves g (\<lambda>s. (Inr (), s, evs))"
  by (simp add: preserves_def)

lemma preserves_set_db_sync_driver:
  "(\<And>s r. g (s\<lparr>self_db_sync_thread := r\<rparr>) = g s) \<Longrightarrow> preserves g (set_db_sync_driver d)"
  by (simp add: preserves_def set_db_sync_driver_def split: option.splits)

lemma preserves_set_recon_driver:
  "(\<And>s r. g (s\<lparr>self_recon_thread := r\<rparr>) = g s) \<Longrightarrow> preserves g (set_recon_driver d)"
  by (simp add: preserves_def set_recon_driver_def split: option.splits)

lemma preserves_set_scheduling_driver:
  "(\<And>s r. g (s\<lparr>self_scheduling_thread := r\<rparr>) = g s) \<Longrightarrow> preserves g (set_scheduling_driver d)"
  by (simp add: preserves_def set_scheduling_driver_def split: option.splits)

lemma preserves_reconcile_find:
  assumes "\<And>s w. g (s\<lparr>ext := w\<rparr>) = g s"
  shows "preserves g (reconcile_find env ids acc)"
proof (induction ids arbitrary: acc)
  case Nil
  show ?case by (simp add: preserves_def ret_def)
next
  case (Cons i js)
  show ?case
  proof (rule preservesI)
    fix s
    show "g (final (reconcile_find env (i # js) acc s)) = g s"
    proof (cases "get_job_exe i (self_job_exe_manager s)")
      case None
      have "preserves g
         (seq (clock env) (\<lambda>when.
          seq (lookup_error env ''scheduler-lost'') (\<lambda>err.
          seq (call (HandleJobFailure i when err) (handle_job_failure env i when err)) (\<lambda>_.
          reconcile_find env js acc))))"
        by (intro preserves_seq preserves_clock preserves_lookup_error preserves_call Cons.IH assms)
      with None show ?thesis by (simp add: preservesD)
    next
      case (Some e)
      have "preserves g
         (seq (read_current_task env i (exe_state e)) (\<lambda>task.
            case task of
              Some t \<Rightarrow> reconcile_find env js (acc @ [t])
            | None \<Rightarrow> reconcile_find env js acc))"
        by (intro preserves_seq preserves_read_current_task)
           (simp add: Cons.IH split: option.split)
      with Some show ?thesis by (simp add: preservesD)
    qed
  qed
qed

lemma preserves_reconcile_running_jobs:
  assumes "\<And>s w. g (s\<lparr>ext := w\<rparr>) = g s" and "\<And>s r. g (s\<lparr>self_recon_thread := r\<rparr>) = g s"
  shows "preserves g (reconcile_running_jobs env)"
  unfolding reconcile_running_jobs_def
  by (intro preserves_seq preserves_call preserves_reconcile_find preserves_recon_add assms)

lemma preserves_manager_registered:
  "preserves self_job_exe_manager (registered env d f mi)"
  unfolding registered_def
  by (intro preserves_seq preserves_modify preserves_call preserves_logger preserves_emit
      preserves_reconcile_running_jobs) simp_all

lemma preserves_manager_reregistered:
  "preserves self_job_exe_manager (reregistered env d mi)"
  unfolding reregistered_def
  by (intro preserves_seq preserves_modify preserves_call preserves_logger
      preserves_set_db_sync_driver preserves_set_recon_driver preserves_set_scheduling_driver
      preserves_reconcile_running_jobs) simp_all

lemma preserves_manager_disconnected: "preserves self_job_exe_manager (disconnected d)"
  by (simp add: preserves_def disconnected_def logger_def split: option.splits)

lemma preserves_manager_resourceOffers: "preserves self_job_exe_manager (resourceOffers env d offers)"
  unfolding resourceOffers_def Let_def
  by (intro preserves_basic) simp_all

lemma preserves_manager_offerRescinded: "preserves self_job_exe_manager (offerRescinded env d oid)"
  unfolding offerRescinded_def
  by (intro preserves_basic) simp_all

lemma preserves_node_log:
  "preserves g (case node of Some n \<Rightarrow> logger lvl (m1 n) (a1 n) | None \<Rightarrow> logger lvl m2 a2)"
  by (cases node) (simp_all add: preserves_logger)

lemma preserves_manager_frameworkMessage:
  "preserves self_job_exe_manager (frameworkMessage env d ex a msg)"
  unfolding frameworkMessage_def
  by (intro preserves_basic preserves_node_log) simp_all

lemma preserves_manager_executorLost:
  "preserves self_job_exe_manager (executorLost env d ex a st)"
  unfolding executorLost_def
  by (intro preserves_basic preserves_node_log) simp_all

lemma preserves_manager_error: "preserves self_job_exe_manager (error d msg)"
  by (simp add: error_def preserves_logger)

subsection \<open>The loop of \<open>slaveLost\<close>\<close>

lemma fail_lost_exe_run:
  assumes "fail_lost_exe env started x s = (Inr (), s1, t1)"
  shows "\<exists>ex st w.
     execution_lost env x started (ext s) = ((ex, st), w) \<and>
     (ex = None \<or> ex = Some DatabaseError) \<and>
     self_job_exe_manager s1 = after_transition env (exe_id x) st (self_job_exe_manager s) \<and>
     reconciliation_set s1 =
       reconciliation_set s \<union>
       (case ex of None \<Rightarrow> {} | Some _ \<Rightarrow> set_option (current_task env st)) \<and>
     t1 = Transition (exe_id x) (M_execution_lost started) ex #
          (case ex of
             None \<Rightarrow> []
           | Some _ \<Rightarrow>
               Log EXCEPTION ''Error failing lost job execution: %s'' [AInt (exe_id x)] #
               CurrentTask (exe_id x) (current_task env st) #
               (case current_task env st of None \<Rightarrow> [] | Some task \<Rightarrow> [ReconAdd [task]])) @
          finish_events env (exe_id x) st"
proof -
  obtain ex st w where el: "execution_lost env x started (ext s) = ((ex, st), w)"
    by (cases "execution_lost env x started (ext s)") auto
  show ?thesis
  proof (cases ex)
    case None
    with el assms show ?thesis
      by (auto simp: fail_lost_exe_def Let_def seq_def invoke_def try_except_def raise_if_def
          ret_def check_finished_def remove_job_exe_def after_transition_def finish_events_def
          reconciliation_set_def split: if_splits)
  next
    case (Some e)
    show ?thesis
    proof (cases "current_task env st")
      case None
      with Some el assms show ?thesis
        by (auto simp: fail_lost_exe_def Let_def seq_def invoke_def try_except_def raise_if_def
            ret_def throw_def logger_def read_current_task_def check_finished_def
            remove_job_exe_def after_transition_def finish_events_def reconciliation_set_def
            split: if_splits)
    next
      case (Some task)
      with \<open>ex = Some e\<close> el assms show ?thesis
        by (auto simp: fail_lost_exe_def Let_def seq_def invoke_def try_except_def raise_if_def
            ret_def throw_def logger_def read_current_task_def recon_add_task_ids_def
            check_finished_def remove_job_exe_def after_transition_def finish_events_def
            reconciliation_set_def split: if_splits option.splits)
    qed
  qed
qed

lemma slaveLost_run:
  assumes "slaveLost env dr a s = (Inr (), s', t)"
  shows "\<exists>node w1 w2 w3 s4 t4 msg args lvl d.
     get_node env a (snd (now env (ext s))) = (Inr node, w1) \<and>
     node_manager_lost_node env a w1 = (Inr (), w2) \<and>
     offer_manager_lost_node env a w2 = (Inr (), w3) \<and>
     (case node of
        Some n \<Rightarrow> fail_lost_exes env (fst (now env (ext s)))
                    (get_job_exes_on_node (node_ident n) (self_job_exe_manager s)) (s\<lparr>ext := w3\<rparr>)
      | None \<Rightarrow> ret () (s\<lparr>ext := w3\<rparr>)) = (Inr (), s4, t4) \<and>
     s' = s4\<lparr>ext := snd (now env (ext s4))\<rparr> \<and>
     t = GetNode a # Log ERROR msg args # NodeManagerLostNode a # OfferManagerLostNode a # t4 @
         [Log lvl ''Scheduler slaveLost() took %.3f seconds'' [AInt d]]"
proof -
  obtain started w0 where clk: "now env (ext s) = (started, w0)" by (cases "now env (ext s)")
  obtain r1 w1 where gn: "get_node env a w0 = (r1, w1)" by (cases "get_node env a w0")
  obtain r2 w2 where nl: "node_manager_lost_node env a w1 = (r2, w2)"
    by (cases "node_manager_lost_node env a w1")
  obtain r3 w3 where ol: "offer_manager_lost_node env a w2 = (r3, w3)"
    by (cases "offer_manager_lost_node env a w2")
  from assms clk gn obtain node where r1: "r1 = Inr node"
    by (cases r1) (auto simp: slaveLost_def seq_def clock_def call_def)
  from assms clk gn nl r1 have r2: "r2 = Inr ()"
    by (cases r2) (auto simp: slaveLost_def seq_def clock_def call_def logger_def split: option.splits)
  from assms clk gn nl ol r1 r2 have r3: "r3 = Inr ()"
    by (cases r3) (auto simp: slaveLost_def seq_def clock_def call_def logger_def split: option.splits)
  let ?loop = "case node of
        Some n \<Rightarrow> fail_lost_exes env started
                    (get_job_exes_on_node (node_ident n) (self_job_exe_manager s)) (s\<lparr>ext := w3\<rparr>)
      | None \<Rightarrow> ret () (s\<lparr>ext := w3\<rparr>)"
  obtain r4 s4 t4 where lp: "?loop = (r4, s4, t4)" by (cases ?loop)
  obtain lvl d where ld: "log_duration env started DATABASE_WARN_THRESHOLD
       ''Scheduler slaveLost() took %.3f seconds'' s4 =
     (Inr (), s4\<lparr>ext := snd (now env (ext s4))\<rparr>,
      [Log lvl ''Scheduler slaveLost() took %.3f seconds'' [AInt d]])"
    using log_duration_run by blast
  from assms clk gn nl ol r1 r2 r3 lp have r4: "r4 = Inr ()"
    by (cases r4; cases node)
       (auto simp: slaveLost_def seq_def clock_def call_def logger_def split: prod.splits)
  from assms clk gn nl ol r1 r2 r3 lp r4 ld
  have "s' = s4\<lparr>ext := snd (now env (ext s4))\<rparr> \<and>
     (\<exists>msg args. t = GetNode a # Log ERROR msg args # NodeManagerLostNode a #
         OfferManagerLostNode a # t4 @
         [Log lvl ''Scheduler slaveLost() took %.3f seconds'' [AInt d]])"
    by (cases node) (auto simp: slaveLost_def seq_def clock_def call_def logger_def)
  then obtain msg args where s': "s' = s4\<lparr>ext := snd (now env (ext s4))\<rparr>"
    and t: "t = GetNode a # Log ERROR msg args # NodeManagerLostNode a #
         OfferManagerLostNode a # t4 @
         [Log lvl ''Scheduler slaveLost() took %.3f seconds'' [AInt d]]"
    by auto
  have st: "fst (now env (ext s)) = started" "snd (now env (ext s)) = w0"
    using clk by simp_all
  from gn nl ol r1 r2 r3 lp r4 s' t show ?thesis
    unfolding st
    by - (rule exI [of _ node], rule exI [of _ w1], rule exI [of _ w2], rule exI [of _ w3],
          rule exI [of _ s4], rule exI [of _ t4], rule exI [of _ msg], rule exI [of _ args],
          rule exI [of _ lvl], rule exI [of _ d], simp)
qed

lemma handle_unknown_run:
  "handle_unknown env j s =
     (case now env (ext s) of
        (when, w) \<Rightarrow>
          (case get_builtin_error env ''scheduler-lost'' w of
             (Inl x, w1) \<Rightarrow>
               (Inl x, s\<lparr>ext := w1\<rparr>, [GetBuiltinError ''scheduler-lost'' (Inl x)])
           | (Inr err, w1) \<Rightarrow>
               (case handle_job_failure env j when err w1 of
                  (r, w') \<Rightarrow>
                    (r, s\<lparr>ext := w'\<rparr>,
                     [GetBuiltinError ''scheduler-lost'' (Inr err),
                      HandleJobFailure j when err]))))"
  by (simp add: handle_unknown_def seq_def clock_def call_def lookup_error_def
      split: prod.splits sum.splits)

text \<open>
  Claim C3, as amended. For a \<open>statusUpdate\<close> of a registered scheduler whose decoded
  execution id is unknown to the manager, the built-in error \<open>scheduler-lost\<close> is looked up
  in the backing store. If the lookup raises, \<open>Queue.handle_job_failure\<close> is not called and
  the task id is added to the reconciliation set again. If the lookup returns an error,
  \<open>Queue.handle_job_failure\<close> is called for that id with that error, and the task id is added
  to the reconciliation set again exactly when that call raises; otherwise it is absent
  from the set at the end.
\<close>
theorem unknown_execution_is_scheduler_lost:
  assumes "self_recon_thread s = Some rt"
    and "get_job_exe (get_job_exe_id env (status_task_id status)) (self_job_exe_manager s) = None"
    and "now env (snd (now env (ext s))) = (when, w)"
    and "get_builtin_error env ''scheduler-lost'' w = (r, w1)"
  shows "GetBuiltinError ''scheduler-lost'' r \<in> set (calls (statusUpdate env driver status s)) \<and>
         (case r of
            Inl x \<Rightarrow>
              filter is_job_failure (calls (statusUpdate env driver status s)) = [] \<and>
              ReconAdd [status_task_id status] \<in> set (calls (statusUpdate env driver status s)) \<and>
              status_task_id status
                \<in> reconciliation_set (final (statusUpdate env driver status s))
          | Inr err \<Rightarrow>
              filter is_job_failure (calls (statusUpdate env driver status s)) =
                [HandleJobFailure (get_job_exe_id env (status_task_id status)) when err] \<and>
              (ReconAdd [status_task_id status] \<in> set (calls (statusUpdate env driver status s)))
                = (\<exists>e w'. handle_job_failure env (get_job_exe_id env (status_task_id status))
                             when err w1 = (Inl e, w')) \<and>
              (status_task_id status
                 \<in> reconciliation_set (final (statusUpdate env driver status s)))
                = (\<exists>e w'. handle_job_failure env (get_job_exe_id env (status_task_id status))
                             when err w1 = (Inl e, w')))"
proof -
  let ?tid = "status_task_id status"
  let ?jid = "get_job_exe_id env ?tid"
  let ?s1 = "status_entry env status s"
  have hs: "handle_status env status ?tid ?jid ?s1 = handle_unknown env ?jid ?s1"
    using assms(2) by (simp add: handle_status_def)
  show ?thesis
  proof (cases r)
    case (Inl x)
    have h: "handle_status env status ?tid ?jid ?s1 =
        (Inl x, ?s1\<lparr>ext := w1\<rparr>, [GetBuiltinError ''scheduler-lost'' (Inl x)])"
      using hs assms(3,4) Inl by (simp add: handle_unknown_run status_entry_def)
    from statusUpdate_recovered [OF assms(1) h, of driver] assms(1) Inl
    show ?thesis by (auto simp: reconciliation_set_def status_entry_def)
  next
    case (Inr err)
    obtain q w' where hjf: "handle_job_failure env ?jid when err w1 = (q, w')"
      by (cases "handle_job_failure env ?jid when err w1")
    have h: "handle_status env status ?tid ?jid ?s1 =
        (q, ?s1\<lparr>ext := w'\<rparr>,
         [GetBuiltinError ''scheduler-lost'' (Inr err), HandleJobFailure ?jid when err])"
      using hs assms(3,4) Inr hjf by (simp add: handle_unknown_run status_entry_def)
    show ?thesis
    proof (cases q)
      case (Inr u)
      from statusUpdate_handled [OF assms(1) h [unfolded Inr], of driver] assms(1) hjf Inr
        \<open>r = Inr err\<close>
      show ?thesis by (auto simp: reconciliation_set_def status_entry_def)
    next
      case (Inl e)
      from statusUpdate_recovered [OF assms(1) h [unfolded Inl], of driver] assms(1) hjf Inl
        \<open>r = Inr err\<close>
      show ?thesis by (auto simp: reconciliation_set_def status_entry_def)
    qed
  qed
qed

theorem unknown_execution_is_scheduler_lost_witness:
  "self_recon_thread running_state =
     Some \<lparr>rt_driver = 1, rt_running = True, rt_task_ids = {''7_task''}\<rparr> \<and>
   get_job_exe (get_job_exe_id spec_env ''9_task'') (self_job_exe_manager running_state) = None \<and>
   now spec_env (snd (now spec_env (ext running_state))) = (1, 2) \<and>
   get_builtin_error spec_env ''scheduler-lost'' 2 = (Inr ''scheduler-lost'', 2) \<and>
   filter is_job_failure (calls (statusUpdate spec_env 1
         \<lparr>status_task_id = ''9_task'', status_state = TASK_FINISHED, status_message = ''''\<rparr>
         running_state)) = [HandleJobFailure 9 1 ''scheduler-lost''] \<and>
   ''9_task'' \<notin> reconciliation_set (final (statusUpdate spec_env 1
         \<lparr>status_task_id = ''9_task'', status_state = TASK_FINISHED, status_message = ''''\<rparr>
         running_state))"
proof -
  let ?st = "\<lparr>status_task_id = ''9_task'', status_state = TASK_FINISHED, status_message = ''''\<rparr>"
  have rt: "self_recon_thread running_state =
     Some \<lparr>rt_driver = 1, rt_running = True, rt_task_ids = {''7_task''}\<rparr>"
    by (simp add: running_state_def)
  have unknown: "get_job_exe (get_job_exe_id spec_env (status_task_id ?st))
      (self_job_exe_manager running_state) = None"
    by (simp add: get_job_exe_def spec_env_def running_state_def)
  have clk: "now spec_env (snd (now spec_env (ext running_state))) = (1, 2)"
    by (simp add: spec_env_def running_state_def)
  have lk: "get_builtin_error spec_env ''scheduler-lost'' 2 = (Inr ''scheduler-lost'', 2)"
    by (simp add: spec_env_def)
  have vals: "get_job_exe_id spec_env ''9_task'' = 9"
    "\<And>i t e w. handle_job_failure spec_env i t e w = (Inr (), w)"
    by (simp_all add: spec_env_def)
  from unknown_execution_is_scheduler_lost [OF rt unknown clk lk, of 1] rt unknown clk lk
  show ?thesis by (simp add: vals)
qed

text \<open>
  The claim as stated, that the task id is never added again for an unknown execution,
  fails when the backing store raises: the \<open>except\<close> clause of the callback adds it.
\<close>
theorem unknown_execution_readded_counterexample:
  "get_job_exe (get_job_exe_id db_down_env ''9_task'') (self_job_exe_manager running_state) = None \<and>
   calls (statusUpdate db_down_env 1
      \<lparr>status_task_id = ''9_task'', status_state = TASK_FINISHED, status_message = ''''\<rparr>
      running_state) =
     [Log INFO ''Status update for task %s: %s'' [AStr ''9_task'', AStr ''FINISHED''],
      ReconRemove ''9_task'',
      GetBuiltinError ''scheduler-lost'' (Inr ''scheduler-lost''),
      HandleJobFailure 9 1 ''scheduler-lost'',
      Log EXCEPTION ''Error handling status update for job execution: %s'' [AInt 9],
      ReconAdd [''9_task''],
      Log DEBUG ''Scheduler statusUpdate() took %.3f seconds'' [AInt 2]] \<and>
   ''9_task'' \<in> reconciliation_set (final (statusUpdate db_down_env 1
      \<lparr>status_task_id = ''9_task'', status_state = TASK_FINISHED, status_message = ''''\<rparr>
      running_state))"
  by (simp add: run_defs reconciliation_set_def db_down_env_def spec_env_def running_state_def)

subsection \<open>A lost task\<close>

lemma emits_handle_known_lost:
  assumes "status_state st = TASK_LOST"
  shows "emits (\<lambda>ev. \<not> is_log_retrieval ev) (handle_known env st t j e)"
  unfolding handle_known_def apply_status_def Let_def
  using assms by (auto intro!: emits_intros)

lemma handle_known_lost_raises:
  assumes "status_state st = TASK_LOST"
    and "get_builtin_error env ''mesos-lost'' (ext s) = (Inl x, w1)"
  shows "handle_known env st t j e s =
     (Inl x, s\<lparr>ext := w1\<rparr>, [GetBuiltinError ''mesos-lost'' (Inl x)])"
  using assms
  by (simp add: handle_known_def apply_status_def Let_def seq_def ret_def lookup_error_def)

lemma handle_known_lost_returns:
  assumes "status_state st = TASK_LOST"
    and "get_builtin_error env ''mesos-lost'' (ext s) = (Inr err, w1)"
    and "task_fail env e (new_results env st t) (Some err) w1 = ((ex, st'), w')"
  shows "calls (handle_known env st t j e s) =
     [GetBuiltinError ''mesos-lost'' (Inr err),
      Transition (exe_id e) (M_task_fail (new_results env st t) (Some err)) ex] @
     (case ex of None \<Rightarrow> finish_events env j st' | Some x \<Rightarrow> [])"
  using assms
  by (simp add: handle_known_def apply_status_def Let_def seq_def ret_def lookup_error_def
      invoke_def raise_if_def throw_def check_finished_def remove_job_exe_def finish_events_def
      split: option.splits)

text \<open>
  Claim C6, as amended. For a \<open>statusUpdate\<close> of a registered scheduler with state
  \<open>TASK_LOST\<close> on an execution the manager knows, no call of the agent log retrieval is made
  (no directory probe, no file fetch, no URL derivation) and the built-in error
  \<open>mesos-lost\<close> is looked up in the backing store. If the lookup returns an error, \<open>task_fail\<close>
  of the execution is called once, with results that carry no stdout or stderr and with
  that error, and no other method of an execution is called. If the lookup raises, no
  method of an execution is called, the manager is unchanged, the exception is logged and
  the task id is added to the reconciliation set again.
\<close>
theorem lost_status_skips_log_retrieval:
  assumes "self_recon_thread s = Some rt"
    and "get_job_exe (get_job_exe_id env (status_task_id status)) (self_job_exe_manager s) = Some exe"
    and "status_state status = TASK_LOST"
    and "get_builtin_error env ''mesos-lost'' (snd (now env (ext s))) = (r, w1)"
  shows "filter is_log_retrieval (calls (statusUpdate env driver status s)) = [] \<and>
     GetBuiltinError ''mesos-lost'' r \<in> set (calls (statusUpdate env driver status s)) \<and>
     (case r of
        Inr err \<Rightarrow>
          (\<exists>ex st w'.
             task_fail env exe (new_results env status (status_task_id status)) (Some err) w1
               = ((ex, st), w') \<and>
             r_stdout (new_results env status (status_task_id status)) = None \<and>
             r_stderr (new_results env status (status_task_id status)) = None \<and>
             filter is_transition (calls (statusUpdate env driver status s)) =
               [Transition (get_job_exe_id env (status_task_id status))
                  (M_task_fail (new_results env status (status_task_id status)) (Some err)) ex])
      | Inl x \<Rightarrow>
          filter is_transition (calls (statusUpdate env driver status s)) = [] \<and>
          self_job_exe_manager (final (statusUpdate env driver status s)) = self_job_exe_manager s \<and>
          Log EXCEPTION ''Error handling status update for job execution: %s''
              [AInt (get_job_exe_id env (status_task_id status))]
            \<in> set (calls (statusUpdate env driver status s)) \<and>
          ReconAdd [status_task_id status] \<in> set (calls (statusUpdate env driver status s)) \<and>
          status_task_id status \<in> reconciliation_set (final (statusUpdate env driver status s)))"
proof -
  let ?tid = "status_task_id status"
  let ?jid = "get_job_exe_id env ?tid"
  let ?s1 = "status_entry env status s"
  let ?U = "statusUpdate env driver status s"
  have hs: "handle_status env status ?tid ?jid ?s1 = handle_known env status ?tid ?jid exe ?s1"
    using assms(2) by (simp add: handle_status_def)
  have id: "exe_id exe = ?jid"
    using assms(2) by (rule get_job_exe_id)
  obtain lvl d where c: "calls ?U =
     [Log INFO ''Status update for task %s: %s''
        [AStr ?tid, AStr (status_to_string env (status_state status))],
      ReconRemove ?tid] @
     calls (handle_known env status ?tid ?jid exe ?s1) @
     (case outcome (handle_known env status ?tid ?jid exe ?s1) of
        Inl e \<Rightarrow> [Log EXCEPTION ''Error handling status update for job execution: %s'' [AInt ?jid],
                   ReconAdd [?tid]]
      | Inr u \<Rightarrow> []) @
     [Log lvl ''Scheduler statusUpdate() took %.3f seconds'' [AInt d]]"
    using statusUpdate_calls [OF assms(1), of env driver status] hs by auto
  have "filter is_log_retrieval (calls (handle_known env status ?tid ?jid exe ?s1)) = []"
    using emits_handle_known_lost [OF assms(3)] by (rule emits_filter)
  then have none: "filter is_log_retrieval (calls ?U) = []"
    by (simp add: c split: sum.splits)
  show ?thesis
  proof (cases r)
    case (Inl x)
    have lk: "get_builtin_error env ''mesos-lost'' (ext ?s1) = (Inl x, w1)"
      using assms(4) Inl by simp
    have h: "handle_status env status ?tid ?jid ?s1 =
        (Inl x, ?s1\<lparr>ext := w1\<rparr>, [GetBuiltinError ''mesos-lost'' (Inl x)])"
      using handle_known_lost_raises [OF assms(3) lk] hs by simp
    from statusUpdate_recovered [OF assms(1) h, of driver] none Inl
    show ?thesis by (auto simp: reconciliation_set_def)
  next
    case (Inr err)
    have lk: "get_builtin_error env ''mesos-lost'' (ext ?s1) = (Inr err, w1)"
      using assms(4) Inr by simp
    obtain ex st w' where tf:
      "task_fail env exe (new_results env status ?tid) (Some err) w1 = ((ex, st), w')"
      by (cases "task_fail env exe (new_results env status ?tid) (Some err) w1") auto
    have k: "calls (handle_known env status ?tid ?jid exe ?s1) =
       [GetBuiltinError ''mesos-lost'' (Inr err),
        Transition ?jid (M_task_fail (new_results env status ?tid) (Some err)) ex] @
       (case ex of None \<Rightarrow> finish_events env ?jid st | Some x \<Rightarrow> [])"
      using handle_known_lost_returns [OF assms(3) lk tf, of ?jid] id by simp
    have tr: "filter is_transition (calls ?U) =
       [Transition ?jid (M_task_fail (new_results env status ?tid) (Some err)) ex]"
      by (simp add: c k finish_events_def split: sum.splits option.splits)
    have "GetBuiltinError ''mesos-lost'' r \<in> set (calls ?U)"
      by (simp add: c k Inr)
    moreover have "r_stdout (new_results env status ?tid) = None"
      "r_stderr (new_results env status ?tid) = None"
      by (simp_all add: new_results_def)
    ultimately show ?thesis
      using none tf tr Inr by simp
  qed
qed

theorem lost_status_skips_log_retrieval_witness:
  "self_recon_thread running_state =
     Some \<lparr>rt_driver = 1, rt_running = True, rt_task_ids = {''7_task''}\<rparr> \<and>
   get_job_exe (get_job_exe_id spec_env ''7_task'') (self_job_exe_manager running_state) =
     Some \<lparr>exe_id = 7, node_id = 1, node_hostname = ''host1'', node_port = 5051,
           exe_state = \<lparr>sm_phase = Launched, sm_task = Some ''7_task'', sm_error = None\<rparr>\<rparr> \<and>
   get_builtin_error spec_env ''mesos-lost'' (snd (now spec_env (ext running_state))) =
     (Inr ''mesos-lost'', 1) \<and>
   filter is_log_retrieval (calls (statusUpdate spec_env 1
      \<lparr>status_task_id = ''7_task'', status_state = TASK_LOST, status_message = ''''\<rparr>
      running_state)) = [] \<and>
   filter is_transition (calls (statusUpdate spec_env 1
      \<lparr>status_task_id = ''7_task'', status_state = TASK_LOST, status_message = ''''\<rparr>
      running_state)) =
     [Transition 7
       (M_task_fail \<lparr>r_task_id = ''7_task'', r_exit_code = None, r_when = 1000,
                      r_stdout = None, r_stderr = None\<rparr> (Some ''mesos-lost'')) None]"
proof -
  let ?st = "\<lparr>status_task_id = ''7_task'', status_state = TASK_LOST, status_message = ''''\<rparr>"
  let ?exe = "\<lparr>exe_id = 7, node_id = 1, node_hostname = ''host1'', node_port = 5051,
           exe_state = \<lparr>sm_phase = Launched, sm_task = Some ''7_task'', sm_error = None\<rparr>\<rparr>"
  have rt: "self_recon_thread running_state =
     Some \<lparr>rt_driver = 1, rt_running = True, rt_task_ids = {''7_task''}\<rparr>"
    by (simp add: running_state_def)
  have known: "get_job_exe (get_job_exe_id spec_env (status_task_id ?st))
      (self_job_exe_manager running_state) = Some ?exe"
    by (simp add: get_job_exe_def spec_env_def running_state_def)
  have lost: "status_state ?st = TASK_LOST" by simp
  have lk: "get_builtin_error spec_env ''mesos-lost'' (snd (now spec_env (ext running_state))) =
     (Inr ''mesos-lost'', 1)"
    by (simp add: spec_env_def running_state_def)
  have vals: "get_job_exe_id spec_env ''7_task'' = 7"
    "new_results spec_env ?st ''7_task'' =
       \<lparr>r_task_id = ''7_task'', r_exit_code = None, r_when = 1000,
         r_stdout = None, r_stderr = None\<rparr>"
    by (simp_all add: spec_env_def new_results_def)
  have tf: "fst (fst (task_fail spec_env ?exe \<lparr>r_task_id = ''7_task'', r_exit_code = None,
       r_when = 1000, r_stdout = None, r_stderr = None\<rparr> (Some ''mesos-lost'') 1)) = None"
    by (simp add: spec_env_def)
  from lost_status_skips_log_retrieval [OF rt known lost lk, of 1] rt known lk tf
  show ?thesis by (auto simp: vals)
qed

text \<open>
  The claim as stated, that the state machine always receives the failure transition,
  fails when the lookup of the built-in error raises: \<open>task_fail\<close> is not called, the
  execution stays in the manager as it was, and the \<open>except\<close> clause logs the exception and
  adds the task id to the reconciliation set again.
\<close>
theorem lost_without_transition_counterexample:
  "get_job_exe (get_job_exe_id lookup_down_env ''7_task'') (self_job_exe_manager running_state) =
     Some \<lparr>exe_id = 7, node_id = 1, node_hostname = ''host1'', node_port = 5051,
           exe_state = \<lparr>sm_phase = Launched, sm_task = Some ''7_task'', sm_error = None\<rparr>\<rparr> \<and>
   statusUpdate lookup_down_env 1
      \<lparr>status_task_id = ''7_task'', status_state = TASK_LOST, status_message = ''''\<rparr>
      running_state =
     (Inr (), running_state\<lparr>ext := 2\<rparr>,
      [Log INFO ''Status update for task %s: %s'' [AStr ''7_task'', AStr ''LOST''],
       ReconRemove ''7_task'',
       GetBuiltinError ''mesos-lost'' (Inl DatabaseError),
       Log EXCEPTION ''Error handling status update for job execution: %s'' [AInt 7],
       ReconAdd [''7_task''],
       Log DEBUG ''Scheduler statusUpdate() took %.3f seconds'' [AInt 1]])"
  by (simp add: run_defs lookup_down_env_def spec_env_def running_state_def)

section \<open>Before \<open>registered\<close>\<close>

text \<open>
  Claim C10. The constructor leaves the three thread handles \<open>None\<close>. On a scheduler
  whose handles are \<open>None\<close> (no \<open>registered\<close> has set them), \<open>shutdown\<close> raises
  \<open>AttributeError\<close> after its log line and changes nothing, and \<open>reregistered\<close> raises too:
  \<open>AttributeError\<close> as soon as the update of the master address returns.
\<close>
theorem thread_handles_needed_before_use:
  "self_db_sync_thread (ScaleScheduler_init executor w) = None \<and>
   self_recon_thread (ScaleScheduler_init executor w) = None \<and>
   self_scheduling_thread (ScaleScheduler_init executor w) = None \<and>
   (self_db_sync_thread s = None \<longrightarrow>
      shutdown s = (Inl AttributeError, s,
        [Log INFO ''Scheduler shutdown invoked, stopping background threads'' []]) \<and>
      (\<exists>e. outcome (reregistered env driver masterInfo s) = Inl e) \<and>
      (\<forall>w'. update_master env (mi_hostname masterInfo) (mi_port masterInfo) (ext s) = (Inr (), w')
         \<longrightarrow> outcome (reregistered env driver masterInfo s) = Inl AttributeError))"
  by (auto simp: ScaleScheduler_init_def shutdown_def reregistered_def seq_def logger_def
      db_sync_shutdown_def set_db_sync_driver_def modify_def call_def
      split: prod.splits sum.splits)

theorem thread_handles_needed_before_use_witness:
  "self_db_sync_thread (ScaleScheduler_init ''scale-executor'' 0 :: (time, exe_sm) state) = None \<and>
   update_master spec_env ''master'' 5050 0 = (Inr (), 0) \<and>
   outcome (shutdown (ScaleScheduler_init ''scale-executor'' 0 :: (time, exe_sm) state))
     = Inl AttributeError \<and>
   outcome (reregistered spec_env 1 \<lparr>mi_hostname = ''master'', mi_port = 5050\<rparr>
      (ScaleScheduler_init ''scale-executor'' 0)) = Inl AttributeError"
proof -
  have none: "self_db_sync_thread (ScaleScheduler_init ''scale-executor'' 0 :: (time, exe_sm) state) = None"
    by (simp add: ScaleScheduler_init_def)
  have um: "update_master spec_env (mi_hostname \<lparr>mi_hostname = ''master'', mi_port = 5050\<rparr>)
      (mi_port \<lparr>mi_hostname = ''master'', mi_port = 5050\<rparr>)
      (ext (ScaleScheduler_init ''scale-executor'' 0 :: (time, exe_sm) state)) = (Inr (), 0)"
    by (simp add: spec_env_def ScaleScheduler_init_def)
  note inst = thread_handles_needed_before_use [where executor = "''scale-executor''" and w = 0
      and s = "ScaleScheduler_init ''scale-executor'' 0" and env = spec_env
      and masterInfo = "\<lparr>mi_hostname = ''master'', mi_port = 5050\<rparr>" and driver = 1]
  have r: "outcome (reregistered spec_env 1 \<lparr>mi_hostname = ''master'', mi_port = 5050\<rparr>
      (ScaleScheduler_init ''scale-executor'' 0)) = Inl AttributeError"
    using inst none um by blast
  have sh: "outcome (shutdown (ScaleScheduler_init ''scale-executor'' 0 :: (time, exe_sm) state))
     = Inl AttributeError"
    using inst [THEN conjunct2, THEN conjunct2, THEN conjunct2] none by simp
  have um': "update_master spec_env ''master'' 5050 0 = (Inr (), 0)"
    by (simp add: spec_env_def)
  show ?thesis using none um' r sh by simp
qed

subsection \<open>Pulling the logs\<close>

text \<open>
  Claim C7, as amended. For a \<open>statusUpdate\<close> of a registered scheduler on a known
  execution with a state other than \<open>TASK_LOST\<close>, the block that pulls the logs never
  raises: whichever of the directory probe and the two file fetches raises first, the
  exception is logged there, the results keep the task id, exit code and time of the status
  together with what was fetched before, and the handling goes on. For \<open>TASK_FINISHED\<close>,
  \<open>TASK_FAILED\<close>, \<open>TASK_KILLED\<close> and \<open>TASK_ERROR\<close> the method of the execution for that state
  is then called, once, with these results. For \<open>TASK_RUNNING\<close> the branch probes the
  directory and derives the two URLs again, outside that block: if these calls return,
  \<open>task_running\<close> is called once with the time of the status and the two URLs; if one of
  them raises, no method of the execution is called, the manager is unchanged, the outer
  \<open>except\<close> clause logs the exception and the task id is added to the reconciliation set
  again.
\<close>
theorem log_retrieval_failure_is_not_fatal:
  assumes "self_recon_thread s = Some rt"
    and "get_job_exe (get_job_exe_id env (status_task_id status)) (self_job_exe_manager s) = Some exe"
    and "status_state status \<noteq> TASK_LOST"
    and "now env (snd (now env (ext s))) = (t0, w0)"
  shows "\<exists>res s2 t2 rest.
     pull_logs env exe (status_task_id status) (new_results env status (status_task_id status))
       (status_entry env status s) = (Inr res, s2, t2) \<and>
     calls (statusUpdate env driver status s) =
       [Log INFO ''Status update for task %s: %s''
          [AStr (status_task_id status), AStr (status_to_string env (status_state status))],
        ReconRemove (status_task_id status)] @ t2 @ rest \<and>
     r_task_id res = status_task_id status \<and>
     r_exit_code res = parse_exit_code env status \<and>
     r_when res = get_status_timestamp env status \<and>
     (case get_slave_task_directory env (node_hostname exe) (node_port exe)
             (status_task_id status) w0 of
        (Inl x, wa) \<Rightarrow>
          t2 = [GetSlaveTaskDirectory (node_hostname exe) (node_port exe) (status_task_id status),
                Log EXCEPTION ''Error pulling logs for task %s'' [AStr (status_task_id status)]] \<and>
          r_stdout res = None \<and> r_stderr res = None
      | (Inr dir, wa) \<Rightarrow>
          (case get_slave_task_file env (node_hostname exe) (node_port exe) dir ''stdout'' wa of
             (Inl x, wb) \<Rightarrow>
               t2 = [GetSlaveTaskDirectory (node_hostname exe) (node_port exe)
                       (status_task_id status),
                     GetSlaveTaskFile (node_hostname exe) (node_port exe) dir ''stdout'',
                     Log EXCEPTION ''Error pulling logs for task %s''
                       [AStr (status_task_id status)]] \<and>
               r_stdout res = None \<and> r_stderr res = None
           | (Inr out, wb) \<Rightarrow>
               (case get_slave_task_file env (node_hostname exe) (node_port exe) dir
                       ''stderr'' wb of
                  (Inl x, wc) \<Rightarrow>
                    t2 = [GetSlaveTaskDirectory (node_hostname exe) (node_port exe)
                            (status_task_id status),
                          GetSlaveTaskFile (node_hostname exe) (node_port exe) dir ''stdout'',
                          GetSlaveTaskFile (node_hostname exe) (node_port exe) dir ''stderr'',
                          Log EXCEPTION ''Error pulling logs for task %s''
                            [AStr (status_task_id status)]] \<and>
                    r_stdout res = Some out \<and> r_stderr res = None
                | (Inr err, wc) \<Rightarrow>
                    (\<exists>d. t2 = [GetSlaveTaskDirectory (node_hostname exe) (node_port exe)
                                  (status_task_id status),
                          GetSlaveTaskFile (node_hostname exe) (node_port exe) dir ''stdout'',
                          GetSlaveTaskFile (node_hostname exe) (node_port exe) dir ''stderr'',
                          Log DEBUG ''Time to pull logs for task: %s'' [AInt d]]) \<and>
                    r_stdout res = Some out \<and> r_stderr res = Some err))) \<and>
     (status_state status \<in> {TASK_FINISHED, TASK_FAILED, TASK_KILLED, TASK_ERROR} \<longrightarrow>
        (\<exists>ex st w'.
           (if status_state status = TASK_FINISHED then task_complete env exe res
            else task_fail env exe res None) (ext s2) = ((ex, st), w') \<and>
           filter is_transition (calls (statusUpdate env driver status s)) =
             [Transition (get_job_exe_id env (status_task_id status))
                (if status_state status = TASK_FINISHED then M_task_complete res
                 else M_task_fail res None) ex])) \<and>
     (status_state status = TASK_RUNNING \<longrightarrow>
        (case task_urls env exe (status_task_id status) s2 of
           (Inl x, s3, t3) \<Rightarrow>
             filter is_transition (calls (statusUpdate env driver status s)) = [] \<and>
             self_job_exe_manager (final (statusUpdate env driver status s))
               = self_job_exe_manager s \<and>
             Log EXCEPTION ''Error handling status update for job execution: %s''
                 [AInt (get_job_exe_id env (status_task_id status))]
               \<in> set (calls (statusUpdate env driver status s)) \<and>
             ReconAdd [status_task_id status] \<in> set (calls (statusUpdate env driver status s)) \<and>
             status_task_id status
               \<in> reconciliation_set (final (statusUpdate env driver status s))
         | (Inr (out, err), s3, t3) \<Rightarrow>
             (\<exists>ex st w'.
                task_running env exe (status_task_id status) (get_status_timestamp env status)
                  out err (ext s3) = ((ex, st), w') \<and>
                filter is_transition (calls (statusUpdate env driver status s)) =
                  [Transition (get_job_exe_id env (status_task_id status))
                     (M_task_running (status_task_id status) (get_status_timestamp env status)
                        out err) ex])))"
proof -
  let ?tid = "status_task_id status"
  let ?jid = "get_job_exe_id env ?tid"
  let ?s1 = "status_entry env status s"
  let ?U = "statusUpdate env driver status s"
  let ?r0 = "new_results env status ?tid"
  let ?pre = "[Log INFO ''Status update for task %s: %s''
        [AStr ?tid, AStr (status_to_string env (status_state status))],
      ReconRemove ?tid]"
  have hs: "handle_status env status ?tid ?jid ?s1 = handle_known env status ?tid ?jid exe ?s1"
    using assms(2) by (simp add: handle_status_def)
  have id: "exe_id exe = ?jid" using assms(2) by (rule get_job_exe_id)
  have clk: "now env (ext ?s1) = (t0, w0)" using assms(4) by simp
  have r0: "r_task_id ?r0 = ?tid" "r_exit_code ?r0 = parse_exit_code env status"
    "r_when ?r0 = get_status_timestamp env status" "r_stdout ?r0 = None" "r_stderr ?r0 = None"
    by (simp_all add: new_results_def)
  obtain res s2 t2 where p: "pull_logs env exe ?tid ?r0 ?s1 = (Inr res, s2, t2)"
    and mgr2: "self_job_exe_manager s2 = self_job_exe_manager ?s1"
    and r: "r_task_id res = r_task_id ?r0" "r_exit_code res = r_exit_code ?r0"
      "r_when res = r_when ?r0"
    and pc: "(case get_slave_task_directory env (node_hostname exe) (node_port exe) ?tid w0 of
        (Inl x, wa) \<Rightarrow>
          t2 = [GetSlaveTaskDirectory (node_hostname exe) (node_port exe) ?tid,
                Log EXCEPTION ''Error pulling logs for task %s'' [AStr ?tid]] \<and>
          r_stdout res = r_stdout ?r0 \<and> r_stderr res = r_stderr ?r0
      | (Inr dir, wa) \<Rightarrow>
          (case get_slave_task_file env (node_hostname exe) (node_port exe) dir ''stdout'' wa of
             (Inl x, wb) \<Rightarrow>
               t2 = [GetSlaveTaskDirectory (node_hostname exe) (node_port exe) ?tid,
                     GetSlaveTaskFile (node_hostname exe) (node_port exe) dir ''stdout'',
                     Log EXCEPTION ''Error pulling logs for task %s'' [AStr ?tid]] \<and>
               r_stdout res = r_stdout ?r0 \<and> r_stderr res = r_stderr ?r0
           | (Inr out, wb) \<Rightarrow>
               (case get_slave_task_file env (node_hostname exe) (node_port exe) dir ''stderr'' wb of
                  (Inl x, wc) \<Rightarrow>
                    t2 = [GetSlaveTaskDirectory (node_hostname exe) (node_port exe) ?tid,
                          GetSlaveTaskFile (node_hostname exe) (node_port exe) dir ''stdout'',
                          GetSlaveTaskFile (node_hostname exe) (node_port exe) dir ''stderr'',
                          Log EXCEPTION ''Error pulling logs for task %s'' [AStr ?tid]] \<and>
                    r_stdout res = Some out \<and> r_stderr res = r_stderr ?r0
                | (Inr err, wc) \<Rightarrow>
                    (\<exists>d. t2 = [GetSlaveTaskDirectory (node_hostname exe) (node_port exe) ?tid,
                          GetSlaveTaskFile (node_hostname exe) (node_port exe) dir ''stdout'',
                          GetSlaveTaskFile (node_hostname exe) (node_port exe) dir ''stderr'',
                          Log DEBUG ''Time to pull logs for task: %s'' [AInt d]]) \<and>
                    r_stdout res = Some out \<and> r_stderr res = Some err)))"
    using pull_logs_cases [OF clk, of exe ?tid ?r0] by (elim exE conjE) (rule that)
  have nl: "(if status_state status \<noteq> TASK_LOST then pull_logs env exe ?tid ?r0
             else ret ?r0) ?s1 = (Inr res, s2, t2)"
    using assms(3) p by simp
  have nt2: "filter is_transition t2 = []"
    using emits_filter [OF emits_pull_logs_no_transition, of env exe ?tid ?r0 ?s1] p by simp
  obtain r3 s3 t3 where a: "apply_status env exe status ?tid res s2 = (r3, s3, t3)"
    by (cases "apply_status env exe status ?tid res s2")
  note hk = handle_known_after [OF nl a, of ?jid]
  obtain lvl d where c: "calls ?U = ?pre @
     calls (handle_known env status ?tid ?jid exe ?s1) @
     (case outcome (handle_known env status ?tid ?jid exe ?s1) of
        Inl e \<Rightarrow> [Log EXCEPTION ''Error handling status update for job execution: %s'' [AInt ?jid],
                   ReconAdd [?tid]]
      | Inr u \<Rightarrow> []) @
     [Log lvl ''Scheduler statusUpdate() took %.3f seconds'' [AInt d]]"
    using statusUpdate_calls [OF assms(1), of env driver status] hs by auto
  have shape: "\<exists>rest. calls ?U = ?pre @ t2 @ rest"
    by (cases r3) (simp_all add: c hk)
  have tr: "filter is_transition (calls ?U) = filter is_transition t3"
    by (cases r3) (simp_all add: c hk nt2)
  have pc': "(case get_slave_task_directory env (node_hostname exe) (node_port exe) ?tid w0 of
        (Inl x, wa) \<Rightarrow>
          t2 = [GetSlaveTaskDirectory (node_hostname exe) (node_port exe) ?tid,
                Log EXCEPTION ''Error pulling logs for task %s'' [AStr ?tid]] \<and>
          r_stdout res = None \<and> r_stderr res = None
      | (Inr dir, wa) \<Rightarrow>
          (case get_slave_task_file env (node_hostname exe) (node_port exe) dir ''stdout'' wa of
             (Inl x, wb) \<Rightarrow>
               t2 = [GetSlaveTaskDirectory (node_hostname exe) (node_port exe) ?tid,
                     GetSlaveTaskFile (node_hostname exe) (node_port exe) dir ''stdout'',
                     Log EXCEPTION ''Error pulling logs for task %s'' [AStr ?tid]] \<and>
               r_stdout res = None \<and> r_stderr res = None
           | (Inr out, wb) \<Rightarrow>
               (case get_slave_task_file env (node_hostname exe) (node_port exe) dir ''stderr'' wb of
                  (Inl x, wc) \<Rightarrow>
                    t2 = [GetSlaveTaskDirectory (node_hostname exe) (node_port exe) ?tid,
                          GetSlaveTaskFile (node_hostname exe) (node_port exe) dir ''stdout'',
                          GetSlaveTaskFile (node_hostname exe) (node_port exe) dir ''stderr'',
                          Log EXCEPTION ''Error pulling logs for task %s'' [AStr ?tid]] \<and>
                    r_stdout res = Some out \<and> r_stderr res = None
                | (Inr err, wc) \<Rightarrow>
                    (\<exists>d. t2 = [GetSlaveTaskDirectory (node_hostname exe) (node_port exe) ?tid,
                          GetSlaveTaskFile (node_hostname exe) (node_port exe) dir ''stdout'',
                          GetSlaveTaskFile (node_hostname exe) (node_port exe) dir ''stderr'',
                          Log DEBUG ''Time to pull logs for task: %s'' [AInt d]]) \<and>
                    r_stdout res = Some out \<and> r_stderr res = Some err)))"
    using pc by (simp add: r0 cong: prod.case_cong sum.case_cong)
  have two: "\<exists>ex st w'.
       (if status_state status = TASK_FINISHED then task_complete env exe res
        else task_fail env exe res None) (ext s2) = ((ex, st), w') \<and>
       filter is_transition (calls ?U) =
         [Transition ?jid (if status_state status = TASK_FINISHED then M_task_complete res
                           else M_task_fail res None) ex]"
    if fin: "status_state status \<in> {TASK_FINISHED, TASK_FAILED, TASK_KILLED, TASK_ERROR}"
  proof -
    obtain ex st w' where m: "(if status_state status = TASK_FINISHED then task_complete env exe res
        else task_fail env exe res None) (ext s2) = ((ex, st), w')"
      by (cases "(if status_state status = TASK_FINISHED then task_complete env exe res
        else task_fail env exe res None) (ext s2)") auto
    from apply_status_terminal [OF fin m, of ?tid] a
    have "t3 = [Transition (exe_id exe)
         (if status_state status = TASK_FINISHED then M_task_complete res else M_task_fail res None) ex]"
      by simp
    with tr id have "filter is_transition (calls ?U) =
         [Transition ?jid (if status_state status = TASK_FINISHED then M_task_complete res
                           else M_task_fail res None) ex]"
      by simp
    with m show ?thesis by blast
  qed
  have three: "(case task_urls env exe ?tid s2 of
           (Inl x, s3, t3) \<Rightarrow>
             filter is_transition (calls ?U) = [] \<and>
             self_job_exe_manager (final ?U) = self_job_exe_manager s \<and>
             Log EXCEPTION ''Error handling status update for job execution: %s'' [AInt ?jid]
               \<in> set (calls ?U) \<and>
             ReconAdd [?tid] \<in> set (calls ?U) \<and>
             ?tid \<in> reconciliation_set (final ?U)
         | (Inr (out, err), s3, t3) \<Rightarrow>
             (\<exists>ex st w'.
                task_running env exe ?tid (get_status_timestamp env status) out err (ext s3)
                  = ((ex, st), w') \<and>
                filter is_transition (calls ?U) =
                  [Transition ?jid
                     (M_task_running ?tid (get_status_timestamp env status) out err) ex]))"
    if run: "status_state status = TASK_RUNNING"
  proof -
    obtain ru su tu where u: "task_urls env exe ?tid s2 = (ru, su, tu)"
      by (cases "task_urls env exe ?tid s2")
    have ntu: "filter is_transition tu = []"
      using emits_filter [OF emits_task_urls_no_transition, of env exe ?tid s2] u by simp
    have mgru: "self_job_exe_manager su = self_job_exe_manager s"
      using task_urls_manager [OF u] mgr2 by simp
    show ?thesis
    proof (cases ru)
      case (Inl x)
      have a': "apply_status env exe status ?tid res s2 = (Inl x, su, tu)"
        using apply_status_running_raises [OF run] u Inl by simp
      have "handle_status env status ?tid ?jid ?s1 = (Inl x, su, t2 @ tu)"
        using handle_known_after [OF nl a', of ?jid] hs by simp
      from statusUpdate_recovered [OF assms(1) this, of driver] nt2 ntu mgru u Inl
      show ?thesis by (auto simp: reconciliation_set_def)
    next
      case (Inr uu)
      obtain out err where uu: "uu = (out, err)" by (cases uu)
      obtain ex st w' where m:
        "task_running env exe ?tid (r_when res) out err (ext su) = ((ex, st), w')"
        by (cases "task_running env exe ?tid (r_when res) out err (ext su)") auto
      have u': "task_urls env exe ?tid s2 = (Inr (out, err), su, tu)"
        using u Inr uu by simp
      from apply_status_running_returns [OF run u' m] a
      have "t3 = tu @ [Transition (exe_id exe) (M_task_running ?tid (r_when res) out err) ex]"
        by simp
      with tr id ntu have "filter is_transition (calls ?U) =
          [Transition ?jid (M_task_running ?tid (r_when res) out err) ex]"
        by simp
      with m u' r(3) r0(3) show ?thesis by simp
    qed
  qed
  from shape obtain rest where sh: "calls ?U = ?pre @ t2 @ rest" ..
  show ?thesis
    apply (rule exI [of _ res], rule exI [of _ s2], rule exI [of _ t2], rule exI [of _ rest])
    using p sh r r0(1-3) pc' two three by simp
qed

theorem log_retrieval_failure_is_not_fatal_witness:
  "self_recon_thread running_state =
     Some \<lparr>rt_driver = 1, rt_running = True, rt_task_ids = {''7_task''}\<rparr> \<and>
   get_job_exe (get_job_exe_id agent_down_env ''7_task'') (self_job_exe_manager running_state) =
     Some \<lparr>exe_id = 7, node_id = 1, node_hostname = ''host1'', node_port = 5051,
           exe_state = \<lparr>sm_phase = Launched, sm_task = Some ''7_task'', sm_error = None\<rparr>\<rparr> \<and>
   now agent_down_env (snd (now agent_down_env (ext running_state))) = (1, 2) \<and>
   get_slave_task_directory agent_down_env ''host1'' 5051 ''7_task'' 2 =
     (Inl (OtherException ''unreachable''), 2) \<and>
   (\<exists>res s2 t2.
      pull_logs agent_down_env
        \<lparr>exe_id = 7, node_id = 1, node_hostname = ''host1'', node_port = 5051,
          exe_state = \<lparr>sm_phase = Launched, sm_task = Some ''7_task'', sm_error = None\<rparr>\<rparr>
        ''7_task''
        (new_results agent_down_env
           \<lparr>status_task_id = ''7_task'', status_state = TASK_FINISHED, status_message = ''''\<rparr>
           ''7_task'')
        (status_entry agent_down_env
           \<lparr>status_task_id = ''7_task'', status_state = TASK_FINISHED, status_message = ''''\<rparr>
           running_state) = (Inr res, s2, t2) \<and>
      t2 = [GetSlaveTaskDirectory ''host1'' 5051 ''7_task'',
            Log EXCEPTION ''Error pulling logs for task %s'' [AStr ''7_task'']] \<and>
      (\<exists>ex. filter is_transition (calls (statusUpdate agent_down_env 1
           \<lparr>status_task_id = ''7_task'', status_state = TASK_FINISHED, status_message = ''''\<rparr>
           running_state)) = [Transition 7 (M_task_complete res) ex]))"
proof -
  let ?st = "\<lparr>status_task_id = ''7_task'', status_state = TASK_FINISHED, status_message = ''''\<rparr>"
  have rt: "self_recon_thread running_state =
     Some \<lparr>rt_driver = 1, rt_running = True, rt_task_ids = {''7_task''}\<rparr>"
    by (simp add: running_state_def)
  have known: "get_job_exe (get_job_exe_id agent_down_env (status_task_id ?st))
      (self_job_exe_manager running_state) =
     Some \<lparr>exe_id = 7, node_id = 1, node_hostname = ''host1'', node_port = 5051,
           exe_state = \<lparr>sm_phase = Launched, sm_task = Some ''7_task'', sm_error = None\<rparr>\<rparr>"
    by (simp add: get_job_exe_def agent_down_env_def spec_env_def running_state_def)
  have not_lost: "status_state ?st \<noteq> TASK_LOST" by simp
  have clk: "now agent_down_env (snd (now agent_down_env (ext running_state))) = (1, 2)"
    by (simp add: agent_down_env_def spec_env_def running_state_def)
  have jid: "get_job_exe_id agent_down_env ''7_task'' = 7"
    by (simp add: agent_down_env_def spec_env_def)
  have dir: "get_slave_task_directory agent_down_env ''host1'' 5051 ''7_task'' 2 =
     (Inl (OtherException ''unreachable''), 2)"
    by (simp add: agent_down_env_def)
  from log_retrieval_failure_is_not_fatal [OF rt known not_lost clk, of 1]
  obtain res s2 t2 rest where
    e1: "pull_logs agent_down_env
        \<lparr>exe_id = 7, node_id = 1, node_hostname = ''host1'', node_port = 5051,
          exe_state = \<lparr>sm_phase = Launched, sm_task = Some ''7_task'', sm_error = None\<rparr>\<rparr>
        ''7_task'' (new_results agent_down_env ?st ''7_task'')
        (status_entry agent_down_env ?st running_state) = (Inr res, s2, t2)"
    and e2: "t2 = [GetSlaveTaskDirectory ''host1'' 5051 ''7_task'',
            Log EXCEPTION ''Error pulling logs for task %s'' [AStr ''7_task'']]"
    and e3: "\<exists>ex. filter is_transition (calls (statusUpdate agent_down_env 1 ?st running_state)) =
        [Transition 7 (M_task_complete res) ex]"
    by (simp add: jid dir) blast
  have "\<exists>res s2 t2.
      pull_logs agent_down_env
        \<lparr>exe_id = 7, node_id = 1, node_hostname = ''host1'', node_port = 5051,
          exe_state = \<lparr>sm_phase = Launched, sm_task = Some ''7_task'', sm_error = None\<rparr>\<rparr>
        ''7_task'' (new_results agent_down_env ?st ''7_task'')
        (status_entry agent_down_env ?st running_state) = (Inr res, s2, t2) \<and>
      t2 = [GetSlaveTaskDirectory ''host1'' 5051 ''7_task'',
            Log EXCEPTION ''Error pulling logs for task %s'' [AStr ''7_task'']] \<and>
      (\<exists>ex. filter is_transition (calls (statusUpdate agent_down_env 1 ?st running_state)) =
        [Transition 7 (M_task_complete res) ex])"
    apply (rule exI [of _ res], rule exI [of _ s2], rule exI [of _ t2])
    apply (intro conjI)
      apply (rule e1)
     apply (rule e2)
    apply (rule e3)
    done
  moreover have "get_job_exe (get_job_exe_id agent_down_env ''7_task'')
      (self_job_exe_manager running_state) =
     Some \<lparr>exe_id = 7, node_id = 1, node_hostname = ''host1'', node_port = 5051,
           exe_state = \<lparr>sm_phase = Launched, sm_task = Some ''7_task'', sm_error = None\<rparr>\<rparr>"
    using known by simp
  ultimately show ?thesis
    using rt clk dir by (intro conjI)
qed

text \<open>
  The claim as stated fails for \<open>TASK_RUNNING\<close>: with an agent that does not answer, the
  second directory probe raises inside the outer \<open>try\<close> block, \<open>task_running\<close> is never
  called and the execution stays as it was.
\<close>
theorem running_without_urls_counterexample:
  "statusUpdate agent_down_env 1
      \<lparr>status_task_id = ''7_task'', status_state = TASK_RUNNING, status_message = ''''\<rparr>
      running_state =
     (Inr (),
      running_state\<lparr>ext := 3\<rparr>,
      [Log INFO ''Status update for task %s: %s'' [AStr ''7_task'', AStr ''RUNNING''],
       ReconRemove ''7_task'',
       GetSlaveTaskDirectory ''host1'' 5051 ''7_task'',
       Log EXCEPTION ''Error pulling logs for task %s'' [AStr ''7_task''],
       GetSlaveTaskDirectory ''host1'' 5051 ''7_task'',
       Log EXCEPTION ''Error handling status update for job execution: %s'' [AInt 7],
       ReconAdd [''7_task''],
       Log DEBUG ''Scheduler statusUpdate() took %.3f seconds'' [AInt 2]])"
  by (simp add: run_defs agent_down_env_def spec_env_def running_state_def insert_absorb)

section \<open>Removal from the manager\<close>

abbreviation not_finished_true :: "event \<Rightarrow> bool" where
  "not_finished_true ev \<equiv> (\<forall>i. ev \<noteq> IsFinished i True)"

lemma emits_nf_pull_logs: "emits not_finished_true (pull_logs env e t r)"
  unfolding pull_logs_def Let_def
  by (intro emits_intros) simp_all

lemma emits_nf_apply_status: "emits not_finished_true (apply_status env e st t r)"
  unfolding apply_status_def task_urls_def Let_def
  by (auto intro!: emits_intros)

lemma removal_ruleD:
  assumes "removal_rule m"
  shows "managed (final (m s)) \<subseteq> managed s"
    and "IsFinished i True \<in> set (calls (m s)) \<Longrightarrow> i \<notin> managed (final (m s))"
    and "i \<in> managed s \<Longrightarrow> i \<notin> managed (final (m s)) \<Longrightarrow> IsFinished i True \<in> set (calls (m s))"
  using assms unfolding removal_rule_def by blast+

lemma removal_rule_plain:
  assumes "preserves managed m" and "emits not_finished_true m"
  shows "removal_rule m"
  unfolding removal_rule_def
proof (intro allI conjI impI)
  fix s
  show "managed (final (m s)) \<subseteq> managed s"
    using preservesD [OF assms(1), of s] by simp
next
  fix s i
  assume "IsFinished i True \<in> set (calls (m s))"
  with emitsD [OF assms(2)] show "i \<notin> managed (final (m s))" by blast
next
  fix s i
  assume "i \<in> managed s" "i \<notin> managed (final (m s))"
  with preservesD [OF assms(1), of s] show "IsFinished i True \<in> set (calls (m s))" by simp
qed

lemma removal_rule_seq:
  assumes "removal_rule m" and "\<And>x. removal_rule (f x)"
  shows "removal_rule (seq m f)"
  unfolding removal_rule_def
proof (intro allI)
  fix s
  obtain r1 s1 t1 where m: "m s = (r1, s1, t1)" by (cases "m s")
  note a = removal_ruleD [OF assms(1), where s = s, unfolded m, simplified]
  show "managed (final (seq m f s)) \<subseteq> managed s \<and>
        (\<forall>i. IsFinished i True \<in> set (calls (seq m f s)) \<longrightarrow> i \<notin> managed (final (seq m f s))) \<and>
        (\<forall>i. i \<in> managed s \<longrightarrow> i \<notin> managed (final (seq m f s)) \<longrightarrow>
              IsFinished i True \<in> set (calls (seq m f s)))"
  proof (cases r1)
    case (Inl e)
    with m a show ?thesis by (auto simp: seq_def)
  next
    case (Inr x)
    obtain r2 s2 t2 where f: "f x s1 = (r2, s2, t2)" by (cases "f x s1")
    note b = removal_ruleD [OF assms(2) [of x], where s = s1, unfolded f, simplified]
    have eq: "seq m f s = (r2, s2, t1 @ t2)" using m Inr f by (simp add: seq_def)
    show ?thesis unfolding eq using a b by - (simp, blast)
  qed
qed

lemma removal_rule_try_except:
  assumes "removal_rule m" and "\<And>e. removal_rule (h e)"
  shows "removal_rule (try_except m c h)"
  unfolding removal_rule_def
proof (intro allI)
  fix s
  obtain r1 s1 t1 where m: "m s = (r1, s1, t1)" by (cases "m s")
  note a = removal_ruleD [OF assms(1), where s = s, unfolded m, simplified]
  show "managed (final (try_except m c h s)) \<subseteq> managed s \<and>
        (\<forall>i. IsFinished i True \<in> set (calls (try_except m c h s)) \<longrightarrow>
              i \<notin> managed (final (try_except m c h s))) \<and>
        (\<forall>i. i \<in> managed s \<longrightarrow> i \<notin> managed (final (try_except m c h s)) \<longrightarrow>
              IsFinished i True \<in> set (calls (try_except m c h s)))"
  proof (cases r1)
    case (Inr x)
    with m a show ?thesis by (auto simp: try_except_def)
  next
    case (Inl e)
    show ?thesis
    proof (cases "c e")
      case False
      with Inl m a show ?thesis by (auto simp: try_except_def)
    next
      case True
      obtain r2 s2 t2 where f: "h e s1 = (r2, s2, t2)" by (cases "h e s1")
      note b = removal_ruleD [OF assms(2) [of e], where s = s1, unfolded f, simplified]
      have eq: "try_except m c h s = (r2, s2, t1 @ t2)"
        using m Inl f True by (simp add: try_except_def)
      show ?thesis unfolding eq using a b by - (simp, blast)
    qed
  qed
qed

lemma removal_rule_check:
  "removal_rule (seq (check_finished env i st) (\<lambda>finished.
     if finished then remove_job_exe i else ret ()))"
  by (auto simp: removal_rule_def seq_def check_finished_def remove_job_exe_def ret_def managed_def)

lemma removal_rule_handle_known: "removal_rule (handle_known env st t j e)"
proof -
  have a: "removal_rule (if status_state st \<noteq> TASK_LOST
          then pull_logs env e t (new_results env st t)
          else ret (new_results env st t))"
    by (rule removal_rule_plain)
       (auto intro!: preserves_ret emits_ret preserves_managed_pull_logs emits_nf_pull_logs)
  have b: "\<And>res. removal_rule (apply_status env e st t res)"
    by (rule removal_rule_plain) (rule preserves_managed_apply_status emits_nf_apply_status)+
  show ?thesis
    unfolding handle_known_def
    by (rule removal_rule_seq [OF a], rule removal_rule_seq [OF b], rule removal_rule_check)
qed

lemma removal_rule_handle_unknown: "removal_rule (handle_unknown env j)"
  unfolding handle_unknown_def Let_def
  by (rule removal_rule_plain)
     ((intro preserves_basic emits_intros; simp add: managed_def)+)

lemma removal_rule_handle_status: "removal_rule (handle_status env st t j)"
  unfolding removal_rule_def
proof (intro allI)
  fix s :: "('a, 'b) state"
  show "managed (final (handle_status env st t j s)) \<subseteq> managed s \<and>
        (\<forall>i. IsFinished i True \<in> set (calls (handle_status env st t j s)) \<longrightarrow>
              i \<notin> managed (final (handle_status env st t j s))) \<and>
        (\<forall>i. i \<in> managed s \<longrightarrow> i \<notin> managed (final (handle_status env st t j s)) \<longrightarrow>
              IsFinished i True \<in> set (calls (handle_status env st t j s)))"
  proof (cases "get_job_exe j (self_job_exe_manager s)")
    case None
    then have "handle_status env st t j s = handle_unknown env j s"
      by (simp add: handle_status_def)
    with removal_rule_handle_unknown [of env j] show ?thesis
      by (simp add: removal_rule_def)
  next
    case (Some e)
    then have "handle_status env st t j s = handle_known env st t j e s"
      by (simp add: handle_status_def)
    with removal_rule_handle_known [of env st t j e] show ?thesis
      by (simp add: removal_rule_def)
  qed
qed

lemma removal_rule_statusUpdate: "removal_rule (statusUpdate env dr st)"
proof -
  show ?thesis
    unfolding statusUpdate_def Let_def
    apply (rule removal_rule_seq)
     apply (rule removal_rule_plain)
      apply (rule preserves_clock, simp add: managed_def)
     apply (rule emits_clock)
    apply (rule removal_rule_seq)
     apply (rule removal_rule_plain)
      apply (rule preserves_logger)
     apply (rule emits_logger, simp)
    apply (rule removal_rule_seq)
     apply (rule removal_rule_plain)
      apply (rule preserves_recon_remove, simp add: managed_def)
     apply (rule emits_recon_remove, simp)
    apply (rule removal_rule_seq)
     apply (rule removal_rule_try_except)
      apply (rule removal_rule_handle_status)
     apply (rule removal_rule_plain)
      apply (intro preserves_basic; simp add: managed_def)
     apply (intro emits_intros; simp)
    apply (rule removal_rule_plain)
     apply (rule preserves_log_duration, simp add: managed_def)
    apply (rule emits_log_duration, simp)
    done
qed


lemma preserves_add_current:
  "(\<And>s r. g (s\<lparr>self_recon_thread := r\<rparr>) = g s) \<Longrightarrow>
   preserves g (case task of Some t \<Rightarrow> recon_add_task_ids [t] | None \<Rightarrow> ret ())"
  by (cases task) (simp_all add: preserves_ret preserves_recon_add)

lemma emits_add_current:
  "(\<And>t. P (ReconAdd [t])) \<Longrightarrow>
   emits P (case task of Some t \<Rightarrow> recon_add_task_ids [t] | None \<Rightarrow> ret ())"
  by (cases task) (simp_all add: emits_ret emits_recon_add)

lemma removal_rule_fail_lost_exe: "removal_rule (fail_lost_exe env started e)"
proof -
  have h: "\<And>ex st. removal_rule
      (try_except (raise_if ex) (\<lambda>x. x = DatabaseError)
         (\<lambda>x. seq (logger EXCEPTION ''Error failing lost job execution: %s'' [AInt (exe_id e)]) (\<lambda>_.
               seq (read_current_task env (exe_id e) st) (\<lambda>task.
               case task of Some t \<Rightarrow> recon_add_task_ids [t] | None \<Rightarrow> ret ()))))"
    apply (rule removal_rule_plain)
     apply (intro preserves_basic preserves_add_current)
     apply (simp add: managed_def)
    apply (intro emits_intros emits_add_current)
      apply simp_all
    done
  have i: "removal_rule (invoke (exe_id e) (M_execution_lost started) (execution_lost env e started))"
    by (rule removal_rule_plain) (rule preserves_managed_invoke, rule emits_invoke, simp)
  show ?thesis
    unfolding fail_lost_exe_def Let_def
    apply (rule removal_rule_seq [OF i])
    subgoal for x
      by (cases x) (simp, rule removal_rule_seq [OF h], rule removal_rule_check)
    done
qed

lemma removal_rule_fail_lost_exes: "removal_rule (fail_lost_exes env started es)"
proof (induction es)
  case Nil
  show ?case by (simp, rule removal_rule_plain) (rule preserves_ret emits_ret)+
next
  case (Cons e es)
  show ?case
    by (simp, rule removal_rule_seq [OF removal_rule_fail_lost_exe]) (rule Cons.IH)
qed

lemma removal_rule_from_state:
  assumes "\<And>s. removal_rule (m (F s))"
  shows "removal_rule (\<lambda>s. m (F s) s)"
  using assms unfolding removal_rule_def by simp

lemma removal_rule_slaveLost: "removal_rule (slaveLost env dr a)"
  unfolding slaveLost_def
  apply (rule removal_rule_seq)
   apply (rule removal_rule_plain)
    apply (rule preserves_clock, simp add: managed_def)
   apply (rule emits_clock)
  apply (rule removal_rule_seq)
   apply (rule removal_rule_plain)
    apply (rule preserves_call, simp add: managed_def)
   apply (rule emits_call, simp)
  apply (rule removal_rule_seq)
   apply (rule removal_rule_plain)
    apply (simp add: preserves_logger split: option.split)
   apply (simp add: emits_logger split: option.split)
  apply (rule removal_rule_seq)
   apply (rule removal_rule_plain)
    apply (rule preserves_call, simp add: managed_def)
   apply (rule emits_call, simp)
  apply (rule removal_rule_seq)
   apply (rule removal_rule_plain)
    apply (rule preserves_call, simp add: managed_def)
   apply (rule emits_call, simp)
  apply (rule removal_rule_seq)
  subgoal for started node
    apply (cases node)
     apply (simp, rule removal_rule_plain, rule preserves_ret, rule emits_ret)
    apply (simp, rule removal_rule_from_state, rule removal_rule_fail_lost_exes)
    done
  apply (rule removal_rule_plain)
   apply (rule preserves_log_duration, simp add: managed_def)
  apply (rule emits_log_duration, simp)
  done

subsection \<open>The state the transition leaves\<close>

lemma get_job_exe_store_other:
  "j \<noteq> i \<Longrightarrow> get_job_exe j (store_exe_state i st m) = get_job_exe j m"
  by (induction m) (auto simp: get_job_exe_def store_exe_state_def)

lemma get_job_exe_filter_other:
  "j \<noteq> i \<Longrightarrow> get_job_exe j (filter (\<lambda>e. exe_id e \<noteq> i) m) = get_job_exe j m"
  by (induction m) (auto simp: get_job_exe_def)

lemma get_job_exe_distinct:
  "distinct (map exe_id m) \<Longrightarrow> e \<in> set m \<Longrightarrow> get_job_exe (exe_id e) m = Some e"
  by (induction m) (auto simp: get_job_exe_def)

lemma get_job_exe_after_transition:
  assumes "get_job_exe i m = Some e"
  shows "get_job_exe i (after_transition env i st m) =
     (if is_finished env st then None else Some (e\<lparr>exe_state := st\<rparr>))"
  using assms by (simp add: after_transition_def get_job_exe_removed get_job_exe_store)

lemma get_job_exe_after_transition_other:
  "j \<noteq> i \<Longrightarrow> get_job_exe j (after_transition env i st m) = get_job_exe j m"
  by (simp add: after_transition_def get_job_exe_filter_other get_job_exe_store_other)

lemma invoke_finish_state:
  assumes "get_job_exe i (self_job_exe_manager s) = Some e"
    and "seq (invoke i me f) (\<lambda>(ex, st). seq (raise_if ex) (\<lambda>_. ret st)) s = (Inr sta, s2, t2)"
  shows "get_job_exe i (self_job_exe_manager s2) = Some (e\<lparr>exe_state := sta\<rparr>)"
proof -
  obtain ex st' w' where f: "f (ext s) = ((ex, st'), w')"
    by (cases "f (ext s)") auto
  from invoke_finish [of f, OF f, of i me] assms(2)
  have "ex = None" "sta = st'"
    "s2 = s\<lparr>ext := w', self_job_exe_manager := store_exe_state i st' (self_job_exe_manager s)\<rparr>"
    by (cases ex; simp)+
  with assms(1) show ?thesis by (simp add: get_job_exe_store)
qed

text \<open>After a method that returned, the manager holds the execution in the state it left.\<close>
lemma apply_status_state:
  assumes known: "get_job_exe (exe_id e) (self_job_exe_manager s) = Some e"
    and run: "apply_status env e st t res s = (Inr sta, s2, t2)"
  shows "get_job_exe (exe_id e) (self_job_exe_manager s2) = Some (e\<lparr>exe_state := sta\<rparr>)"
proof -
  let ?fin = "\<lambda>(ex, st). seq (raise_if ex) (\<lambda>_. ret st)"
  consider (running) "status_state st = TASK_RUNNING"
    | (finished) "status_state st = TASK_FINISHED"
    | (lost) "status_state st = TASK_LOST"
    | (failed) "status_state st \<in> {TASK_ERROR, TASK_FAILED, TASK_KILLED}"
    | (other) "status_state st \<notin> {TASK_RUNNING, TASK_FINISHED, TASK_LOST, TASK_ERROR,
         TASK_FAILED, TASK_KILLED}"
    by blast
  then show ?thesis
  proof cases
    case running
    obtain ru su tu where u: "task_urls env e t s = (ru, su, tu)"
      by (cases "task_urls env e t s")
    from run running u obtain out err where ru: "ru = Inr (out, err)"
      by (cases ru) (auto simp: apply_status_def Let_def seq_def)
    have k: "get_job_exe (exe_id e) (self_job_exe_manager su) = Some e"
      using task_urls_manager [OF u] known by simp
    from run running u ru obtain t4 where
      "seq (invoke (exe_id e) (M_task_running t (r_when res) out err)
              (task_running env e t (r_when res) out err)) ?fin su = (Inr sta, s2, t4)"
      by (auto simp: apply_status_def Let_def seq_def [of "task_urls env e t"] split: prod.splits)
    from invoke_finish_state [OF k this] show ?thesis .
  next
    case finished
    with run have
      "seq (invoke (exe_id e) (M_task_complete res) (task_complete env e res)) ?fin s
         = (Inr sta, s2, t2)"
      by (simp add: apply_status_def Let_def)
    from invoke_finish_state [OF known this] show ?thesis .
  next
    case lost
    obtain rl sl tl where l: "lookup_error env ''mesos-lost'' s = (rl, sl, tl)"
      by (cases "lookup_error env ''mesos-lost'' s")
    from run lost l obtain err where rl: "rl = Inr err"
      by (cases rl) (auto simp: apply_status_def Let_def seq_def)
    have "self_job_exe_manager sl = self_job_exe_manager s"
      using l by (auto simp: lookup_error_def split: prod.splits)
    then have k: "get_job_exe (exe_id e) (self_job_exe_manager sl) = Some e"
      using known by simp
    from run lost l rl obtain t4 where
      "seq (invoke (exe_id e) (M_task_fail res (Some err)) (task_fail env e res (Some err))) ?fin sl
         = (Inr sta, s2, t4)"
      by (auto simp: apply_status_def Let_def seq_def [of "lookup_error env ''mesos-lost''"]
          split: prod.splits)
    from invoke_finish_state [OF k this] show ?thesis .
  next
    case failed
    with run have
      "seq (invoke (exe_id e) (M_task_fail res None) (task_fail env e res None)) ?fin s
         = (Inr sta, s2, t2)"
      by (auto simp: apply_status_def Let_def)
    from invoke_finish_state [OF known this] show ?thesis .
  next
    case other
    with run have "sta = exe_state e" "s2 = s"
      by (auto simp: apply_status_def Let_def ret_def)
    with known show ?thesis by simp
  qed
qed

lemma apply_status_manager_ids:
  "managed (final (apply_status env e st t res s)) = managed s"
  using preservesD [OF preserves_managed_apply_status] .

lemma log_pull_run:
  "\<exists>res s2 t2.
     (if status_state st \<noteq> TASK_LOST then pull_logs env e t (new_results env st t)
      else ret (new_results env st t)) s = (Inr res, s2, t2) \<and>
     self_job_exe_manager s2 = self_job_exe_manager s \<and>
     (\<forall>i b. IsFinished i b \<notin> set t2)"
proof (cases "status_state st = TASK_LOST")
  case True
  then show ?thesis by (simp add: ret_def)
next
  case False
  obtain t0 w0 where clk: "now env (ext s) = (t0, w0)" by (cases "now env (ext s)")
  from pull_logs_cases [OF clk, of e t "new_results env st t"]
  obtain res s2 t2 where p: "pull_logs env e t (new_results env st t) s = (Inr res, s2, t2)"
    and m: "self_job_exe_manager s2 = self_job_exe_manager s"
    by blast
  have "emits (\<lambda>ev. \<forall>i b. ev \<noteq> IsFinished i b) (pull_logs env e t (new_results env st t))"
    unfolding pull_logs_def Let_def by (intro emits_intros) simp_all
  from emitsD [OF this, of _ s] p have "\<forall>i b. IsFinished i b \<notin> set t2" by auto
  with False p m show ?thesis by simp
qed

lemma apply_status_no_check:
  "IsFinished i b \<notin> set (calls (apply_status env e st t res s))"
proof -
  have "emits (\<lambda>ev. \<forall>i b. ev \<noteq> IsFinished i b) (apply_status env e st t res)"
    unfolding apply_status_def task_urls_def Let_def by (auto intro!: emits_intros)
  from emitsD [OF this, of _ s] show ?thesis by auto
qed

text \<open>The handling of a status update for a known execution, by what the method did.\<close>
lemma statusUpdate_known_state:
  assumes rt: "self_recon_thread s = Some rt"
    and known: "get_job_exe (get_job_exe_id env (status_task_id status)) (self_job_exe_manager s)
                  = Some exe"
  shows "\<exists>res s2 t2 r3 s3 t3.
     (if status_state status \<noteq> TASK_LOST
      then pull_logs env exe (status_task_id status)
             (new_results env status (status_task_id status))
      else ret (new_results env status (status_task_id status))) (status_entry env status s)
       = (Inr res, s2, t2) \<and>
     apply_status env exe status (status_task_id status) res s2 = (r3, s3, t3) \<and>
     (case r3 of
        Inr st \<Rightarrow>
          get_job_exe (get_job_exe_id env (status_task_id status)) (self_job_exe_manager s3)
            = Some (exe\<lparr>exe_state := st\<rparr>) \<and>
          IsFinished (get_job_exe_id env (status_task_id status)) (is_finished env st)
            \<in> set (calls (statusUpdate env driver status s)) \<and>
          self_job_exe_manager (final (statusUpdate env driver status s)) =
            (if is_finished env st
             then filter (\<lambda>e. exe_id e \<noteq> get_job_exe_id env (status_task_id status))
                    (self_job_exe_manager s3)
             else self_job_exe_manager s3)
      | Inl x \<Rightarrow>
          (\<forall>b. IsFinished (get_job_exe_id env (status_task_id status)) b
                 \<notin> set (calls (statusUpdate env driver status s))) \<and>
          self_job_exe_manager (final (statusUpdate env driver status s))
            = self_job_exe_manager s3 \<and>
          get_job_exe_id env (status_task_id status)
            \<in> managed (final (statusUpdate env driver status s)))"
proof -
  let ?tid = "status_task_id status"
  let ?jid = "get_job_exe_id env ?tid"
  let ?s1 = "status_entry env status s"
  let ?U = "statusUpdate env driver status s"
  have hs: "handle_status env status ?tid ?jid ?s1 = handle_known env status ?tid ?jid exe ?s1"
    using known by (simp add: handle_status_def)
  have id: "exe_id exe = ?jid" using known by (rule get_job_exe_id)
  from log_pull_run [of status env exe ?tid ?s1]
  obtain res s2 t2 where nl: "(if status_state status \<noteq> TASK_LOST
      then pull_logs env exe ?tid (new_results env status ?tid)
      else ret (new_results env status ?tid)) ?s1 = (Inr res, s2, t2)"
    and m2: "self_job_exe_manager s2 = self_job_exe_manager ?s1"
    and n2: "\<forall>i b. IsFinished i b \<notin> set t2"
    by (elim exE conjE) (rule that)
  obtain r3 s3 t3 where a: "apply_status env exe status ?tid res s2 = (r3, s3, t3)"
    by (cases "apply_status env exe status ?tid res s2")
  have n3: "\<forall>i b. IsFinished i b \<notin> set t3"
    using apply_status_no_check [of _ _ env exe status ?tid res s2] a by simp
  have k2: "get_job_exe (exe_id exe) (self_job_exe_manager s2) = Some exe"
    using known m2 id by simp
  note hk = handle_known_after [OF nl a, of ?jid]
  have "case r3 of
        Inr st \<Rightarrow>
          get_job_exe ?jid (self_job_exe_manager s3) = Some (exe\<lparr>exe_state := st\<rparr>) \<and>
          IsFinished ?jid (is_finished env st) \<in> set (calls ?U) \<and>
          self_job_exe_manager (final ?U) =
            (if is_finished env st
             then filter (\<lambda>e. exe_id e \<noteq> ?jid) (self_job_exe_manager s3)
             else self_job_exe_manager s3)
      | Inl x \<Rightarrow>
          (\<forall>b. IsFinished ?jid b \<notin> set (calls ?U)) \<and>
          self_job_exe_manager (final ?U) = self_job_exe_manager s3 \<and>
          ?jid \<in> managed (final ?U)"
  proof (cases r3)
    case (Inr st)
    have g: "get_job_exe ?jid (self_job_exe_manager s3) = Some (exe\<lparr>exe_state := st\<rparr>)"
      using apply_status_state [OF k2 a [unfolded Inr]] id by simp
    let ?s4 = "s3\<lparr>self_job_exe_manager :=
                if is_finished env st then filter (\<lambda>e. exe_id e \<noteq> ?jid) (self_job_exe_manager s3)
                else self_job_exe_manager s3\<rparr>"
    have h: "handle_status env status ?tid ?jid ?s1 =
        (Inr (), ?s4, t2 @ t3 @ finish_events env ?jid st)"
      using hk hs Inr by simp
    from statusUpdate_handled [OF rt h, of driver] g Inr
    show ?thesis by (auto simp: finish_events_def)
  next
    case (Inl x)
    have h: "handle_status env status ?tid ?jid ?s1 = (Inl x, s3, t2 @ t3)"
      using hk hs Inl by simp
    have "managed s3 = managed s2"
      using apply_status_manager_ids [of env exe status ?tid res s2] a by simp
    moreover have "?jid \<in> managed s2"
      using get_job_exe_managed [OF k2] id by (simp add: managed_def)
    ultimately have in3: "?jid \<in> exe_id ` set (self_job_exe_manager s3)"
      by (simp add: managed_def)
    from statusUpdate_recovered [OF rt h, of driver] n2 n3 in3 Inl
    show ?thesis by (auto simp: managed_def)
  qed
  with nl a show ?thesis by blast
qed

subsection \<open>The loop over the executions of a lost node\<close>

lemma seq_ret: "seq (ret x) f = f x"
  by (rule ext) (simp add: seq_def ret_def split: prod.splits)

lemma seq_assoc: "seq (seq m f) g = seq m (\<lambda>x. seq (f x) g)"
  by (rule ext) (auto simp: seq_def split: prod.splits sum.splits)

lemma fail_lost_exes_append:
  "fail_lost_exes env started (xs @ ys) =
     seq (fail_lost_exes env started xs) (\<lambda>_. fail_lost_exes env started ys)"
  by (induction xs) (simp_all add: seq_ret seq_assoc)

lemma fail_lost_exe_other:
  assumes "j \<noteq> exe_id e"
  shows "get_job_exe j (self_job_exe_manager (final (fail_lost_exe env started e s)))
           = get_job_exe j (self_job_exe_manager s)"
proof -
  obtain ex st w where el: "execution_lost env e started (ext s) = ((ex, st), w)"
    by (cases "execution_lost env e started (ext s)") auto
  have "self_job_exe_manager (final (fail_lost_exe env started e s)) =
          store_exe_state (exe_id e) st (self_job_exe_manager s) \<or>
        self_job_exe_manager (final (fail_lost_exe env started e s)) =
          filter (\<lambda>x. exe_id x \<noteq> exe_id e) (store_exe_state (exe_id e) st (self_job_exe_manager s))"
    using el
    by (auto simp: fail_lost_exe_def Let_def seq_def invoke_def try_except_def raise_if_def
        ret_def throw_def logger_def read_current_task_def recon_add_task_ids_def
        check_finished_def remove_job_exe_def split: option.splits sum.splits prod.splits)
  with assms show ?thesis
    by (auto simp: get_job_exe_filter_other get_job_exe_store_other)
qed

lemma fail_lost_exes_other:
  assumes "j \<notin> exe_id ` set es"
  shows "get_job_exe j (self_job_exe_manager (final (fail_lost_exes env started es s)))
           = get_job_exe j (self_job_exe_manager s)"
  using assms
proof (induction es arbitrary: s)
  case Nil
  show ?case by (simp add: ret_def)
next
  case (Cons e es)
  obtain r1 s1 t1 where b: "fail_lost_exe env started e s = (r1, s1, t1)"
    by (cases "fail_lost_exe env started e s")
  have o: "get_job_exe j (self_job_exe_manager s1) = get_job_exe j (self_job_exe_manager s)"
    using fail_lost_exe_other [of j e env started s] Cons.prems b by simp
  show ?case
  proof (cases r1)
    case (Inl x)
    with b o show ?thesis by (simp add: seq_def)
  next
    case (Inr u)
    obtain r2 s2 t2 where l: "fail_lost_exes env started es s1 = (r2, s2, t2)"
      by (cases "fail_lost_exes env started es s1")
    have "get_job_exe j (self_job_exe_manager s2) = get_job_exe j (self_job_exe_manager s1)"
      using Cons.IH [of s1] Cons.prems l by simp
    with b Inr l o show ?thesis by (simp add: seq_def)
  qed
qed

text \<open>
  Each execution of the list is handled in the state the executions before it left, and
  stays in the manager exactly when the state \<open>execution_lost\<close> left is not finished.
\<close>
lemma fail_lost_exes_each:
  assumes run: "fail_lost_exes env started (pre @ e # post) s = (Inr (), s', t)"
    and dist: "distinct (map exe_id (pre @ e # post))"
    and known: "get_job_exe (exe_id e) (self_job_exe_manager s) = Some e"
  shows "\<exists>ex st w'.
     execution_lost env e started (ext (final (fail_lost_exes env started pre s)))
       = ((ex, st), w') \<and>
     Transition (exe_id e) (M_execution_lost started) ex \<in> set t \<and>
     IsFinished (exe_id e) (is_finished env st) \<in> set t \<and>
     get_job_exe (exe_id e) (self_job_exe_manager s') =
       (if is_finished env st then None else Some (e\<lparr>exe_state := st\<rparr>))"
proof -
  have npre: "exe_id e \<notin> exe_id ` set pre" and npost: "exe_id e \<notin> exe_id ` set post"
    using dist by auto
  from run have "seq (fail_lost_exes env started pre)
      (\<lambda>_. fail_lost_exes env started (e # post)) s = (Inr (), s', t)"
    by (simp add: fail_lost_exes_append)
  from seq_run [OF this]
  obtain u sk tk t2 where p: "fail_lost_exes env started pre s = (Inr u, sk, tk)"
    and r2: "fail_lost_exes env started (e # post) sk = (Inr (), s', t2)" and t: "t = tk @ t2"
    by auto
  from r2 have "seq (fail_lost_exe env started e) (\<lambda>_. fail_lost_exes env started post) sk
      = (Inr (), s', t2)"
    by simp
  from seq_run [OF this]
  obtain u1 s1 t1 t3 where b: "fail_lost_exe env started e sk = (Inr u1, s1, t1)"
    and r3: "fail_lost_exes env started post s1 = (Inr (), s', t3)" and t2: "t2 = t1 @ t3"
    by auto
  from b have b': "fail_lost_exe env started e sk = (Inr (), s1, t1)" by simp
  from fail_lost_exe_run [OF b']
  obtain ex st w where el: "execution_lost env e started (ext sk) = ((ex, st), w)"
    and m1: "self_job_exe_manager s1 = after_transition env (exe_id e) st (self_job_exe_manager sk)"
    and t1: "t1 = Transition (exe_id e) (M_execution_lost started) ex #
          (case ex of
             None \<Rightarrow> []
           | Some _ \<Rightarrow>
               Log EXCEPTION ''Error failing lost job execution: %s'' [AInt (exe_id e)] #
               CurrentTask (exe_id e) (current_task env st) #
               (case current_task env st of None \<Rightarrow> [] | Some task \<Rightarrow> [ReconAdd [task]])) @
          finish_events env (exe_id e) st"
    by (elim exE conjE) (rule that)
  have "get_job_exe (exe_id e) (self_job_exe_manager sk) = Some e"
    using fail_lost_exes_other [OF npre, of env started s] p known by simp
  then have g1: "get_job_exe (exe_id e) (self_job_exe_manager s1) =
      (if is_finished env st then None else Some (e\<lparr>exe_state := st\<rparr>))"
    unfolding m1 by (rule get_job_exe_after_transition)
  have "get_job_exe (exe_id e) (self_job_exe_manager s') =
        get_job_exe (exe_id e) (self_job_exe_manager s1)"
    using fail_lost_exes_other [OF npost, of env started s1] r3 by simp
  with g1 have g: "get_job_exe (exe_id e) (self_job_exe_manager s') =
      (if is_finished env st then None else Some (e\<lparr>exe_state := st\<rparr>))"
    by simp
  have tr: "Transition (exe_id e) (M_execution_lost started) ex \<in> set t"
    by (simp add: t t2 t1)
  have fi: "IsFinished (exe_id e) (is_finished env st) \<in> set t"
    by (simp add: t t2 t1 finish_events_def)
  have el': "execution_lost env e started (ext (final (fail_lost_exes env started pre s)))
      = ((ex, st), w)"
    using el p by simp
  from el' tr fi g show ?thesis by blast
qed

lemma slaveLost_each:
  assumes clk: "now env (ext s) = (started, w0)"
    and gn: "get_node env slaveId w0 = (Inr (Some n), w1)"
    and nl: "node_manager_lost_node env slaveId w1 = (Inr (), w2)"
    and ol: "offer_manager_lost_node env slaveId w2 = (Inr (), w3)"
    and dist: "distinct (map exe_id (self_job_exe_manager s))"
    and es: "get_job_exes_on_node (node_ident n) (self_job_exe_manager s) = pre @ e # post"
    and ret: "outcome (slaveLost env driver slaveId s) = Inr ()"
  shows "\<exists>ex st w'.
     execution_lost env e started (ext (final (fail_lost_exes env started pre (s\<lparr>ext := w3\<rparr>))))
       = ((ex, st), w') \<and>
     Transition (exe_id e) (M_execution_lost started) ex
       \<in> set (calls (slaveLost env driver slaveId s)) \<and>
     IsFinished (exe_id e) (is_finished env st) \<in> set (calls (slaveLost env driver slaveId s)) \<and>
     get_job_exe (exe_id e) (self_job_exe_manager (final (slaveLost env driver slaveId s))) =
       (if is_finished env st then None else Some (e\<lparr>exe_state := st\<rparr>))"
proof -
  let ?L = "slaveLost env driver slaveId s"
  from ret have run: "?L = (Inr (), final ?L, calls ?L)"
    by (cases ?L) simp
  from slaveLost_run [OF run]
  obtain node v1 v2 v3 s4 t4 msg args lvl d where
    gn': "get_node env slaveId (snd (now env (ext s))) = (Inr node, v1)"
    and nl': "node_manager_lost_node env slaveId v1 = (Inr (), v2)"
    and ol': "offer_manager_lost_node env slaveId v2 = (Inr (), v3)"
    and lp: "(case node of
        Some n \<Rightarrow> fail_lost_exes env (fst (now env (ext s)))
                    (get_job_exes_on_node (node_ident n) (self_job_exe_manager s)) (s\<lparr>ext := v3\<rparr>)
      | None \<Rightarrow> ret () (s\<lparr>ext := v3\<rparr>)) = (Inr (), s4, t4)"
    and fin: "final ?L = s4\<lparr>ext := snd (now env (ext s4))\<rparr>"
    and tr: "calls ?L = GetNode slaveId # Log ERROR msg args # NodeManagerLostNode slaveId #
         OfferManagerLostNode slaveId # t4 @
         [Log lvl ''Scheduler slaveLost() took %.3f seconds'' [AInt d]]"
    by (elim exE conjE) (rule that)
  have node: "node = Some n" and v: "v1 = w1" "v2 = w2" "v3 = w3"
    using gn gn' nl nl' ol ol' clk by auto
  have lp': "fail_lost_exes env started (pre @ e # post) (s\<lparr>ext := w3\<rparr>) = (Inr (), s4, t4)"
    using lp node v clk es by simp
  have d: "distinct (map exe_id (pre @ e # post))"
    using dist es [symmetric] by (simp add: get_job_exes_on_node_def distinct_map_filter)
  have "e \<in> set (get_job_exes_on_node (node_ident n) (self_job_exe_manager s))"
    unfolding es by simp
  then have "e \<in> set (self_job_exe_manager s)"
    by (simp add: get_job_exes_on_node_def)
  then have k: "get_job_exe (exe_id e) (self_job_exe_manager (s\<lparr>ext := w3\<rparr>)) = Some e"
    using get_job_exe_distinct [OF dist] by simp
  from fail_lost_exes_each [OF lp' d k]
  obtain ex st w' where
    "execution_lost env e started (ext (final (fail_lost_exes env started pre (s\<lparr>ext := w3\<rparr>))))
       = ((ex, st), w')"
    "Transition (exe_id e) (M_execution_lost started) ex \<in> set t4"
    "IsFinished (exe_id e) (is_finished env st) \<in> set t4"
    "get_job_exe (exe_id e) (self_job_exe_manager s4) =
       (if is_finished env st then None else Some (e\<lparr>exe_state := st\<rparr>))"
    by (elim exE conjE) (rule that)
  then show ?thesis
    by (intro exI [of _ ex] exI [of _ st] exI [of _ w']) (simp add: fin tr)
qed

text \<open>
  Claim C8, as amended. In \<open>statusUpdate\<close> and in \<open>slaveLost\<close> no execution enters the
  manager, and an execution of the manager has left it at the end exactly when
  \<open>is_finished()\<close> was called on it and returned true; this holds for every outcome of the
  callback. In \<open>statusUpdate\<close> of a registered scheduler on a known execution: if the
  statement that applies the status to the execution returns, the manager holds the
  execution in the state that statement left, \<open>is_finished()\<close> is called on that state and
  the execution is removed exactly when it is finished; if that statement raises (a URL
  probe, the lookup of the built-in error or the method of the execution raises),
  \<open>is_finished()\<close> is not called and the execution stays in the manager, in the state the
  method left, finished or not. In \<open>slaveLost\<close>, when the node is known, the ids of the
  manager are distinct and the callback returns: each execution of the node is handled in
  the state the loop over the executions before it left, \<open>execution_lost\<close> is called on it,
  \<open>is_finished()\<close> is called on the state that method left, also when the method raised
  \<open>DatabaseError\<close>, and at the end the manager does not know the execution if that state is
  finished and holds it in that state otherwise. The other callbacks leave the
  executions of the manager as they are.
\<close>
theorem removal_exactly_when_finished:
  "managed (final (statusUpdate env driver status s)) \<subseteq> managed s \<and>
   (\<forall>i \<in> managed s.
      (i \<notin> managed (final (statusUpdate env driver status s))) =
      (IsFinished i True \<in> set (calls (statusUpdate env driver status s)))) \<and>
   managed (final (slaveLost env driver slaveId s)) \<subseteq> managed s \<and>
   (\<forall>i \<in> managed s.
      (i \<notin> managed (final (slaveLost env driver slaveId s))) =
      (IsFinished i True \<in> set (calls (slaveLost env driver slaveId s)))) \<and>
   (\<forall>rt exe.
      self_recon_thread s = Some rt \<longrightarrow>
      get_job_exe (get_job_exe_id env (status_task_id status)) (self_job_exe_manager s) = Some exe \<longrightarrow>
      (\<exists>res s2 t2 r3 s3 t3.
         (if status_state status \<noteq> TASK_LOST
          then pull_logs env exe (status_task_id status)
                 (new_results env status (status_task_id status))
          else ret (new_results env status (status_task_id status))) (status_entry env status s)
           = (Inr res, s2, t2) \<and>
         apply_status env exe status (status_task_id status) res s2 = (r3, s3, t3) \<and>
         (case r3 of
            Inr st \<Rightarrow>
              get_job_exe (get_job_exe_id env (status_task_id status)) (self_job_exe_manager s3)
                = Some (exe\<lparr>exe_state := st\<rparr>) \<and>
              IsFinished (get_job_exe_id env (status_task_id status)) (is_finished env st)
                \<in> set (calls (statusUpdate env driver status s)) \<and>
              self_job_exe_manager (final (statusUpdate env driver status s)) =
                (if is_finished env st
                 then filter (\<lambda>e. exe_id e \<noteq> get_job_exe_id env (status_task_id status))
                        (self_job_exe_manager s3)
                 else self_job_exe_manager s3)
          | Inl x \<Rightarrow>
              (\<forall>b. IsFinished (get_job_exe_id env (status_task_id status)) b
                     \<notin> set (calls (statusUpdate env driver status s))) \<and>
              self_job_exe_manager (final (statusUpdate env driver status s))
                = self_job_exe_manager s3 \<and>
              get_job_exe_id env (status_task_id status)
                \<in> managed (final (statusUpdate env driver status s))))) \<and>
   (\<forall>started w0 n w1 w2 w3 pre e post.
      now env (ext s) = (started, w0) \<longrightarrow>
      get_node env slaveId w0 = (Inr (Some n), w1) \<longrightarrow>
      node_manager_lost_node env slaveId w1 = (Inr (), w2) \<longrightarrow>
      offer_manager_lost_node env slaveId w2 = (Inr (), w3) \<longrightarrow>
      distinct (map exe_id (self_job_exe_manager s)) \<longrightarrow>
      get_job_exes_on_node (node_ident n) (self_job_exe_manager s) = pre @ e # post \<longrightarrow>
      outcome (slaveLost env driver slaveId s) = Inr () \<longrightarrow>
      (\<exists>ex st w'.
         execution_lost env e started
           (ext (final (fail_lost_exes env started pre (s\<lparr>ext := w3\<rparr>)))) = ((ex, st), w') \<and>
         Transition (exe_id e) (M_execution_lost started) ex
           \<in> set (calls (slaveLost env driver slaveId s)) \<and>
         IsFinished (exe_id e) (is_finished env st)
           \<in> set (calls (slaveLost env driver slaveId s)) \<and>
         get_job_exe (exe_id e) (self_job_exe_manager (final (slaveLost env driver slaveId s))) =
           (if is_finished env st then None else Some (e\<lparr>exe_state := st\<rparr>)))) \<and>
   self_job_exe_manager (final (registered env driver frameworkId masterInfo s)) = self_job_exe_manager s \<and>
   self_job_exe_manager (final (reregistered env driver masterInfo s)) = self_job_exe_manager s \<and>
   self_job_exe_manager (final (disconnected driver s)) = self_job_exe_manager s \<and>
   self_job_exe_manager (final (resourceOffers env driver offers s)) = self_job_exe_manager s \<and>
   self_job_exe_manager (final (offerRescinded env driver offerId s)) = self_job_exe_manager s \<and>
   self_job_exe_manager (final (frameworkMessage env driver executorId slaveId message s))
     = self_job_exe_manager s \<and>
   self_job_exe_manager (final (executorLost env driver executorId slaveId code s))
     = self_job_exe_manager s \<and>
   self_job_exe_manager (final (error driver message s)) = self_job_exe_manager s"
proof -
  let ?U = "statusUpdate env driver status s"
  let ?L = "slaveLost env driver slaveId s"
  note u = removal_ruleD [OF removal_rule_statusUpdate [of env driver status], where s = s]
  note l = removal_ruleD [OF removal_rule_slaveLost [of env driver slaveId], where s = s]
  have u1: "managed (final ?U) \<subseteq> managed s" by (rule u(1))
  have u2: "\<forall>i \<in> managed s. (i \<notin> managed (final ?U)) = (IsFinished i True \<in> set (calls ?U))"
    using u(2,3) by blast
  have l1: "managed (final ?L) \<subseteq> managed s" by (rule l(1))
  have l2: "\<forall>i \<in> managed s. (i \<notin> managed (final ?L)) = (IsFinished i True \<in> set (calls ?L))"
    using l(2,3) by blast
  show ?thesis
    apply (intro conjI u1 u2 l1 l2)
             apply (intro allI impI, erule (1) statusUpdate_known_state)
            apply (intro allI impI, erule (6) slaveLost_each)
           apply (rule preservesD [OF preserves_manager_registered])
          apply (rule preservesD [OF preserves_manager_reregistered])
         apply (rule preservesD [OF preserves_manager_disconnected])
        apply (rule preservesD [OF preserves_manager_resourceOffers])
       apply (rule preservesD [OF preserves_manager_offerRescinded])
      apply (rule preservesD [OF preserves_manager_frameworkMessage])
     apply (rule preservesD [OF preserves_manager_executorLost])
    apply (rule preservesD [OF preserves_manager_error])
    done
qed

theorem removal_exactly_when_finished_witness:
  "7 \<in> managed running_state \<and>
   self_recon_thread running_state =
     Some \<lparr>rt_driver = 1, rt_running = True, rt_task_ids = {''7_task''}\<rparr> \<and>
   get_job_exe (get_job_exe_id spec_env ''7_task'') (self_job_exe_manager running_state) =
     Some \<lparr>exe_id = 7, node_id = 1, node_hostname = ''host1'', node_port = 5051,
           exe_state = \<lparr>sm_phase = Launched, sm_task = Some ''7_task'', sm_error = None\<rparr>\<rparr> \<and>
   IsFinished 7 True \<in> set (calls (statusUpdate spec_env 1
      \<lparr>status_task_id = ''7_task'', status_state = TASK_FINISHED, status_message = ''''\<rparr>
      running_state)) \<and>
   7 \<notin> managed (final (statusUpdate spec_env 1
      \<lparr>status_task_id = ''7_task'', status_state = TASK_FINISHED, status_message = ''''\<rparr>
      running_state)) \<and>
   IsFinished 7 True \<notin> set (calls (statusUpdate spec_env 1
      \<lparr>status_task_id = ''7_task'', status_state = TASK_RUNNING, status_message = ''''\<rparr>
      running_state)) \<and>
   7 \<in> managed (final (statusUpdate spec_env 1
      \<lparr>status_task_id = ''7_task'', status_state = TASK_RUNNING, status_message = ''''\<rparr>
      running_state)) \<and>
   now spec_env (ext running_state) = (0, 1) \<and>
   get_node spec_env ''agent-1'' 1 = (Inr (Some \<lparr>node_ident = 1, node_host = ''host1''\<rparr>), 1) \<and>
   node_manager_lost_node spec_env ''agent-1'' 1 = (Inr (), 1) \<and>
   offer_manager_lost_node spec_env ''agent-1'' 1 = (Inr (), 1) \<and>
   distinct (map exe_id (self_job_exe_manager running_state)) \<and>
   get_job_exes_on_node 1 (self_job_exe_manager running_state) =
     [] @ \<lparr>exe_id = 7, node_id = 1, node_hostname = ''host1'', node_port = 5051,
           exe_state = \<lparr>sm_phase = Launched, sm_task = Some ''7_task'', sm_error = None\<rparr>\<rparr> # [] \<and>
   outcome (slaveLost spec_env 1 ''agent-1'' running_state) = Inr () \<and>
   get_job_exe 7 (self_job_exe_manager (final (slaveLost spec_env 1 ''agent-1'' running_state)))
     = None \<and>
   self_job_exe_manager (final (statusUpdate spec_env 1
      \<lparr>status_task_id = ''7_task'', status_state = TASK_FINISHED, status_message = ''''\<rparr>
      running_state)) = []"
proof -
  let ?fin = "\<lparr>status_task_id = ''7_task'', status_state = TASK_FINISHED, status_message = ''''\<rparr>"
  let ?run = "\<lparr>status_task_id = ''7_task'', status_state = TASK_RUNNING, status_message = ''''\<rparr>"
  let ?exe = "\<lparr>exe_id = 7, node_id = 1, node_hostname = ''host1'', node_port = 5051,
           exe_state = \<lparr>sm_phase = Launched, sm_task = Some ''7_task'', sm_error = None\<rparr>\<rparr>"
  let ?L = "slaveLost spec_env 1 ''agent-1'' running_state"
  have m: "7 \<in> managed running_state"
    by (simp add: managed_def running_state_def)
  have rt: "self_recon_thread running_state =
     Some \<lparr>rt_driver = 1, rt_running = True, rt_task_ids = {''7_task''}\<rparr>"
    by (simp add: running_state_def)
  have known: "get_job_exe (get_job_exe_id spec_env ''7_task'')
      (self_job_exe_manager running_state) = Some ?exe"
    by (simp add: get_job_exe_def spec_env_def running_state_def)
  have f: "IsFinished 7 True \<in> set (calls (statusUpdate spec_env 1 ?fin running_state))"
    by (simp add: run_defs spec_env_def running_state_def)
  have r: "IsFinished 7 True \<notin> set (calls (statusUpdate spec_env 1 ?run running_state))"
    by (simp add: run_defs spec_env_def running_state_def)
  have clk: "now spec_env (ext running_state) = (0, 1)"
    by (simp add: spec_env_def running_state_def)
  have gn: "get_node spec_env ''agent-1'' 1 =
      (Inr (Some \<lparr>node_ident = 1, node_host = ''host1''\<rparr>), 1)"
    by (simp add: spec_env_def)
  have nl: "node_manager_lost_node spec_env ''agent-1'' 1 = (Inr (), 1)"
    by (simp add: spec_env_def)
  have ol: "offer_manager_lost_node spec_env ''agent-1'' 1 = (Inr (), 1)"
    by (simp add: spec_env_def)
  have dist: "distinct (map exe_id (self_job_exe_manager running_state))"
    by (simp add: running_state_def)
  have es: "get_job_exes_on_node (node_ident \<lparr>node_ident = 1, node_host = ''host1''\<rparr>)
      (self_job_exe_manager running_state) = [] @ ?exe # []"
    by (simp add: get_job_exes_on_node_def running_state_def)
  have out: "outcome ?L = Inr ()"
    by (simp add: run_defs spec_env_def running_state_def)
  have fin: "\<And>w. is_finished spec_env (snd (fst (execution_lost spec_env ?exe 0 w)))"
    by (simp add: spec_env_def)
  note inst = removal_exactly_when_finished [where env = spec_env and driver = 1
      and status = ?fin and s = running_state and slaveId = "''agent-1''"]
  from inst [THEN conjunct2, THEN conjunct1] m f
  have a: "7 \<notin> managed (final (statusUpdate spec_env 1 ?fin running_state))" by blast
  from removal_exactly_when_finished [where env = spec_env and driver = 1 and status = ?run
      and s = running_state, THEN conjunct2, THEN conjunct1] m r
  have b: "7 \<in> managed (final (statusUpdate spec_env 1 ?run running_state))" by blast
  from inst [THEN conjunct2, THEN conjunct2, THEN conjunct2, THEN conjunct2, THEN conjunct2,
      THEN conjunct1, rule_format, OF clk gn nl ol dist es out]
  obtain ex st w' where
    el: "execution_lost spec_env ?exe 0
           (ext (final (fail_lost_exes spec_env 0 [] (running_state\<lparr>ext := 1\<rparr>)))) = ((ex, st), w')"
    and g: "get_job_exe (exe_id ?exe) (self_job_exe_manager (final ?L)) =
           (if is_finished spec_env st then None else Some (?exe\<lparr>exe_state := st\<rparr>))"
    by blast
  from fin [of "ext (final (fail_lost_exes spec_env 0 [] (running_state\<lparr>ext := 1\<rparr>)))"] el
  have "is_finished spec_env st" by simp
  with g have c: "get_job_exe 7 (self_job_exe_manager (final ?L)) = None" by simp
  have es': "get_job_exes_on_node 1 (self_job_exe_manager running_state) = [] @ ?exe # []"
    using es by simp
  have known': "get_job_exe (get_job_exe_id spec_env (status_task_id ?fin))
      (self_job_exe_manager running_state) = Some ?exe"
    using known by simp
  from inst [THEN conjunct2, THEN conjunct2, THEN conjunct2, THEN conjunct2, THEN conjunct1,
      rule_format, OF rt known']
  obtain res s2 t2 r3 s3 t3 where
    p: "(if status_state ?fin \<noteq> TASK_LOST
         then pull_logs spec_env ?exe (status_task_id ?fin)
                (new_results spec_env ?fin (status_task_id ?fin))
         else ret (new_results spec_env ?fin (status_task_id ?fin)))
          (status_entry spec_env ?fin running_state) = (Inr res, s2, t2)"
    and ap: "apply_status spec_env ?exe ?fin (status_task_id ?fin) res s2 = (r3, s3, t3)"
    and cs: "(case r3 of
            Inr st \<Rightarrow>
              get_job_exe (get_job_exe_id spec_env (status_task_id ?fin)) (self_job_exe_manager s3)
                = Some (?exe\<lparr>exe_state := st\<rparr>) \<and>
              IsFinished (get_job_exe_id spec_env (status_task_id ?fin)) (is_finished spec_env st)
                \<in> set (calls (statusUpdate spec_env 1 ?fin running_state)) \<and>
              self_job_exe_manager (final (statusUpdate spec_env 1 ?fin running_state)) =
                (if is_finished spec_env st
                 then filter (\<lambda>e. exe_id e \<noteq> get_job_exe_id spec_env (status_task_id ?fin))
                        (self_job_exe_manager s3)
                 else self_job_exe_manager s3)
          | Inl x \<Rightarrow>
              (\<forall>b. IsFinished (get_job_exe_id spec_env (status_task_id ?fin)) b
                     \<notin> set (calls (statusUpdate spec_env 1 ?fin running_state))) \<and>
              self_job_exe_manager (final (statusUpdate spec_env 1 ?fin running_state))
                = self_job_exe_manager s3 \<and>
              get_job_exe_id spec_env (status_task_id ?fin)
                \<in> managed (final (statusUpdate spec_env 1 ?fin running_state)))"
    by (elim exE conjE) (rule that)
  from p have s2: "self_job_exe_manager s2 = [?exe]"
    by (auto simp: run_defs spec_env_def running_state_def status_entry_def)
  from ap s2 have r3: "r3 = Inr \<lparr>sm_phase = Finished, sm_task = None, sm_error = None\<rparr>"
    and s3: "self_job_exe_manager s3 =
      [?exe\<lparr>exe_state := \<lparr>sm_phase = Finished, sm_task = None, sm_error = None\<rparr>\<rparr>]"
    by (auto simp: run_defs spec_env_def)
  from cs have e: "self_job_exe_manager (final (statusUpdate spec_env 1 ?fin running_state)) = []"
    unfolding r3 s3 by (simp add: spec_env_def)
  from m rt known f a r b clk gn nl ol dist es' out c e show ?thesis
    by (intro conjI)
qed

text \<open>
  The claim as stated, that an execution is removed whenever its state machine reports
  finished after the transition, fails when the method of the execution raises after it
  changed the state: \<open>statusUpdate\<close> returns, \<open>is_finished()\<close> is never called, and the
  finished execution stays in the manager.
\<close>
theorem finished_execution_stays_counterexample:
  "outcome (statusUpdate half_done_env 1
      \<lparr>status_task_id = ''7_task'', status_state = TASK_FINISHED, status_message = ''''\<rparr>
      running_state) = Inr () \<and>
   self_job_exe_manager (final (statusUpdate half_done_env 1
      \<lparr>status_task_id = ''7_task'', status_state = TASK_FINISHED, status_message = ''''\<rparr>
      running_state)) =
     [\<lparr>exe_id = 7, node_id = 1, node_hostname = ''host1'', node_port = 5051,
       exe_state = \<lparr>sm_phase = Finished, sm_task = None, sm_error = None\<rparr>\<rparr>] \<and>
   is_finished half_done_env \<lparr>sm_phase = Finished, sm_task = None, sm_error = None\<rparr> \<and>
   calls (statusUpdate half_done_env 1
      \<lparr>status_task_id = ''7_task'', status_state = TASK_FINISHED, status_message = ''''\<rparr>
      running_state) =
     [Log INFO ''Status update for task %s: %s'' [AStr ''7_task'', AStr ''FINISHED''],
      ReconRemove ''7_task'',
      GetSlaveTaskDirectory ''host1'' 5051 ''7_task'',
      GetSlaveTaskFile ''host1'' 5051 ''/slave/7_task'' ''stdout'',
      GetSlaveTaskFile ''host1'' 5051 ''/slave/7_task'' ''stderr'',
      Log DEBUG ''Time to pull logs for task: %s'' [AInt 1],
      Transition 7
        (M_task_complete \<lparr>r_task_id = ''7_task'', r_exit_code = Some 0, r_when = 1000,
                           r_stdout = Some ''contents of stdout'',
                           r_stderr = Some ''contents of stderr''\<rparr>) (Some DatabaseError),
      Log EXCEPTION ''Error handling status update for job execution: %s'' [AInt 7],
      ReconAdd [''7_task''],
      Log DEBUG ''Scheduler statusUpdate() took %.3f seconds'' [AInt 3]]"
  by (simp add: run_defs half_done_env_def spec_env_def running_state_def)

section \<open>Properties of \<open>reregistered\<close>\<close>



declare reconcile_find.simps [simp del]









section \<open>Properties of \<open>slaveLost\<close>\<close>


lemma after_transition_node:
  assumes "e1 \<in> set (after_transition env i st m)"
  shows "\<exists>e \<in> set m. node_id e = node_id e1 \<and> exe_id e = exe_id e1"
  using assms
  by (auto simp: after_transition_def store_exe_state_def split: if_splits)




section \<open>Exceptions and the callbacks\<close>











end
